theory Spec2Isabelle
  imports Main
begin

section \<open>JavaScript values\<close>

text \<open>
  The downloader (\<^verbatim>\<open>quran-api.cjs\<close>) works on whatever \<^verbatim>\<open>JSON.parse\<close> returns, read
  with property accesses, \<^verbatim>\<open>||\<close> and \<^verbatim>\<open>?.\<close>. A value is therefore one of the JSON
  shapes or \<^verbatim>\<open>undefined\<close> (the result of reading a property that is not there).
  Numbers are the integers: the identifiers, counters and positions of the API. An object
  is the list of its own properties, one entry per key.
\<close>

datatype jsval =
    JUndefined
  | JNull
  | JBool bool
  | JNum int
  | JStr string
  | JArr "jsval list"
  | JObj "(string \<times> jsval) list"

text \<open>
  What the code can throw: the engine's \<^verbatim>\<open>TypeError\<close> (reading a property of
  \<^verbatim>\<open>null\<close> or \<^verbatim>\<open>undefined\<close>, calling what is not a function) and the
  \<^verbatim>\<open>Error\<close> objects the program creates itself. Both carry a message; the text of a
  \<^verbatim>\<open>TypeError\<close> is the engine's and is only approximated here.
\<close>

datatype error = TypeError string | Error string

fun message :: "error \<Rightarrow> string" where
  "message (TypeError m) = m"
| "message (Error m) = m"

definition bindE :: "error + 'a \<Rightarrow> ('a \<Rightarrow> error + 'b) \<Rightarrow> error + 'b" where
  "bindE m f = (case m of Inl e \<Rightarrow> Inl e | Inr x \<Rightarrow> f x)"

text \<open>
  The promise of an \<^verbatim>\<open>async\<close> function, by how it ends: it resolves with a value, it
  rejects with an error, or it never settles, which is what awaiting a request does that
  gets neither its \<^verbatim>\<open>end\<close> nor an \<^verbatim>\<open>error\<close> event. Code that awaits a promise that
  never settles does not go on.
\<close>

datatype 'a promise =
    is_Pending: Pending
  | is_Rejected: Rejected error
  | is_Resolved: Resolved (resolved: 'a)

text \<open>The promise of an \<^verbatim>\<open>async\<close> function whose body returns or throws at once.\<close>

definition settle :: "error + 'a \<Rightarrow> 'a promise" where
  "settle r = (case r of Inl e \<Rightarrow> Rejected e | Inr x \<Rightarrow> Resolved x)"

fun truthy :: "jsval \<Rightarrow> bool" where
  "truthy JUndefined = False"
| "truthy JNull = False"
| "truthy (JBool b) = b"
| "truthy (JNum n) = (n \<noteq> 0)"
| "truthy (JStr s) = (s \<noteq> [])"
| "truthy (JArr xs) = True"
| "truthy (JObj kvs) = True"

text \<open>\<^verbatim>\<open>a || b\<close>\<close>

definition js_or :: "jsval \<Rightarrow> jsval \<Rightarrow> jsval" where
  "js_or a b = (if truthy a then a else b)"

text \<open>
  \<^verbatim>\<open>o.p\<close> for one of the data names the program reads (\<^verbatim>\<open>verses\<close>, \<^verbatim>\<open>words\<close>,
  \<^verbatim>\<open>id\<close>, ...; none of them is a property of a prototype): a \<^verbatim>\<open>TypeError\<close> on
  \<^verbatim>\<open>null\<close> and \<^verbatim>\<open>undefined\<close>, the own property of an object, \<^verbatim>\<open>undefined\<close>
  otherwise.
\<close>

fun js_get :: "jsval \<Rightarrow> string \<Rightarrow> error + jsval" where
  "js_get JUndefined p = Inl (TypeError (''Cannot read properties of undefined (reading '' @ p @ '')''))"
| "js_get JNull p = Inl (TypeError (''Cannot read properties of null (reading '' @ p @ '')''))"
| "js_get (JObj kvs) p = Inr (case map_of kvs p of Some v \<Rightarrow> v | None \<Rightarrow> JUndefined)"
| "js_get v p = Inr JUndefined"

text \<open>\<^verbatim>\<open>o?.p\<close>: \<^verbatim>\<open>undefined\<close> when \<^verbatim>\<open>o\<close> is \<^verbatim>\<open>null\<close> or \<^verbatim>\<open>undefined\<close>.\<close>

fun js_opt_get :: "jsval \<Rightarrow> string \<Rightarrow> jsval" where
  "js_opt_get (JObj kvs) p = (case map_of kvs p of Some v \<Rightarrow> v | None \<Rightarrow> JUndefined)"
| "js_opt_get v p = JUndefined"

section \<open>Strings\<close>

text \<open>
  A string is a list of characters with codes below 256; the program's strings are
  modelled as far as their code units stay in that range (the names and URLs of the API
  do).
\<close>

function string_of_nat :: "nat \<Rightarrow> string" where
  "string_of_nat n =
     (if n < 10 then [''0123456789'' ! n]
      else string_of_nat (n div 10) @ [''0123456789'' ! (n mod 10)])"
  by pat_completeness auto
termination
  by (relation "measure id") auto

declare string_of_nat.simps [simp del]

definition string_of_int :: "int \<Rightarrow> string" where
  "string_of_int i = (if i < 0 then CHR ''-'' # string_of_nat (nat (- i)) else string_of_nat (nat i))"

text \<open>
  \<^verbatim>\<open>String(n)\<close> and \<^verbatim>\<open>${n}\<close> of a number: its decimal numeral as long as the number is
  a safe integer (up to 2 to the power 53), where every integer is a number of the engine
  and is printed digit by digit. Beyond that the engine prints the shortest digits that
  identify the number, from 10 to the power 21 on with an exponent; that text is the
  engine's and is a parameter (\<open>n2s\<close>).
\<close>

definition num_string :: "(int \<Rightarrow> string) \<Rightarrow> int \<Rightarrow> string" where
  "num_string n2s i = (if \<bar>i\<bar> \<le> 9007199254740992 then string_of_int i else n2s i)"

fun join :: "string \<Rightarrow> string list \<Rightarrow> string" where
  "join sep [] = []"
| "join sep [s] = s"
| "join sep (s # t # ss) = s @ sep @ join sep (t # ss)"

text \<open>
  \<^verbatim>\<open>String(v)\<close> and \<^verbatim>\<open>${v}\<close> convert an object to a primitive by calling its
  \<^verbatim>\<open>toString\<close>, then its \<^verbatim>\<open>valueOf\<close>. For an object out of \<^verbatim>\<open>JSON.parse\<close> these
  are the methods of \<^verbatim>\<open>Object.prototype\<close>, and the result is \<^verbatim>\<open>[object Object]\<close>,
  unless the object has a property \<^verbatim>\<open>toString\<close> of its own: that is a JSON value, so not
  callable, \<^verbatim>\<open>valueOf\<close> gives no primitive either, and the engine throws a
  \<^verbatim>\<open>TypeError\<close>. An array is converted by \<^verbatim>\<open>join\<close>: its elements converted in turn
  and joined by commas, with \<^verbatim>\<open>null\<close> and \<^verbatim>\<open>undefined\<close> elements as the empty
  string. So a value can be converted when no object with a \<^verbatim>\<open>toString\<close> of its own is
  reached through arrays.
\<close>

fun convertible :: "jsval \<Rightarrow> bool" where
  "convertible (JObj kvs) = (map_of kvs ''toString'' = None)"
| "convertible (JArr xs) = (\<forall>x\<in>set xs. convertible x)"
| "convertible v = True"

fun string_of :: "(int \<Rightarrow> string) \<Rightarrow> jsval \<Rightarrow> string" where
  "string_of n2s JUndefined = ''undefined''"
| "string_of n2s JNull = ''null''"
| "string_of n2s (JBool b) = (if b then ''true'' else ''false'')"
| "string_of n2s (JNum n) = num_string n2s n"
| "string_of n2s (JStr s) = s"
| "string_of n2s (JArr xs) =
     join '','' (map (\<lambda>x. if x = JNull \<or> x = JUndefined then [] else string_of n2s x) xs)"
| "string_of n2s (JObj kvs) = ''[object Object]''"

definition to_string :: "(int \<Rightarrow> string) \<Rightarrow> jsval \<Rightarrow> error + string" where
  "to_string n2s v =
     (if convertible v then Inr (string_of n2s v)
      else Inl (TypeError ''Cannot convert object to primitive value''))"

text \<open>\<^verbatim>\<open>s.padStart(n, c)\<close> for a one-character pad.\<close>

definition padStart :: "nat \<Rightarrow> char \<Rightarrow> string \<Rightarrow> string" where
  "padStart n c s = replicate (n - length s) c @ s"

text \<open>
  \<^verbatim>\<open>toLowerCase\<close> on the characters below 256: the letters A to Z and the capital
  letters of Latin-1 (192 to 222 but 215) move up by 32, which sets the bit of value 32.
\<close>

definition lower_char :: "char \<Rightarrow> char" where
  "lower_char c =
     (let n = (of_char c :: nat)
      in if (65 \<le> n \<and> n \<le> 90) \<or> (192 \<le> n \<and> n \<le> 222 \<and> n \<noteq> 215)
         then (case c of Char b0 b1 b2 b3 b4 b5 b6 b7 \<Rightarrow> Char b0 b1 b2 b3 b4 True b6 b7)
         else c)"

definition toLowerCase :: "string \<Rightarrow> string" where
  "toLowerCase s = map lower_char s"

text \<open>The character class \<^verbatim>\<open>[a-z0-9]\<close>.\<close>

definition is_az09 :: "char \<Rightarrow> bool" where
  "is_az09 c =
     (let n = (of_char c :: nat) in (97 \<le> n \<and> n \<le> 122) \<or> (48 \<le> n \<and> n \<le> 57))"

text \<open>\<^verbatim>\<open>.replace(/[^a-z0-9]/g, '-')\<close>\<close>

definition replace_non_az09 :: "string \<Rightarrow> string" where
  "replace_non_az09 s = map (\<lambda>c. if is_az09 c then c else CHR ''-'') s"

text \<open>\<^verbatim>\<open>.replace(/-+/g, '-')\<close>: every maximal run of hyphens becomes one hyphen.\<close>

function collapse_hyphens :: "string \<Rightarrow> string" where
  "collapse_hyphens [] = []"
| "collapse_hyphens (c # cs) =
     (if c = CHR ''-'' then CHR ''-'' # collapse_hyphens (dropWhile (\<lambda>d. d = CHR ''-'') cs)
      else c # collapse_hyphens cs)"
  by pat_completeness auto
termination
  by (relation "measure length") (auto simp: less_Suc_eq_le length_dropWhile_le)

text \<open>
  \<^verbatim>\<open>.replace(/^-|-$/g, '')\<close>: one hyphen at the start and one at the end are removed
  (the scan takes the first alternative at index 0, and the second only on the last
  character).
\<close>

definition strip_end_hyphens :: "string \<Rightarrow> string" where
  "strip_end_hyphens s =
     (let s1 = (case s of [] \<Rightarrow> [] | c # cs \<Rightarrow> if c = CHR ''-'' then cs else s)
      in if s1 \<noteq> [] \<and> last s1 = CHR ''-'' then butlast s1 else s1)"

definition sanitizeFilename :: "string \<Rightarrow> string" where
  "sanitizeFilename name =
     strip_end_hyphens (collapse_hyphens (replace_non_az09 (toLowerCase name)))"

text \<open>
  \<^verbatim>\<open>sanitizeFilename(v)\<close> on a value: \<^verbatim>\<open>name.toLowerCase\<close> is there for a string
  only.
\<close>

fun sanitizeFilename_val :: "jsval \<Rightarrow> error + string" where
  "sanitizeFilename_val (JStr s) = Inr (sanitizeFilename s)"
| "sanitizeFilename_val JUndefined =
     Inl (TypeError ''Cannot read properties of undefined (reading toLowerCase)'')"
| "sanitizeFilename_val JNull =
     Inl (TypeError ''Cannot read properties of null (reading toLowerCase)'')"
| "sanitizeFilename_val v = Inl (TypeError ''name.toLowerCase is not a function'')"

text \<open>
  The two lines that name a chapter's file, the same in \<^verbatim>\<open>downloadSurah\<close> and in
  \<^verbatim>\<open>downloadAllSurahs\<close>:
  \<^verbatim>\<open>paddedId = String(chapter.id).padStart(3, '0')\<close> and
  \<^verbatim>\<open>filename = `${paddedId}-${sanitizeFilename(chapter.name_simple)}.json`\<close>.
\<close>

definition surahFilename :: "(int \<Rightarrow> string) \<Rightarrow> jsval \<Rightarrow> error + string" where
  "surahFilename n2s chapter =
     bindE (js_get chapter ''id'') (\<lambda>cid.
     bindE (to_string n2s cid) (\<lambda>s.
     let paddedId = padStart 3 CHR ''0'' s in
     bindE (js_get chapter ''name_simple'') (\<lambda>name_simple.
     bindE (sanitizeFilename_val name_simple) (\<lambda>slug.
     Inr (paddedId @ ''-'' @ slug @ ''.json'')))))"

subsection \<open>The slug as the specification words it\<close>

text \<open>
  Lower-case the name, replace every run of non-alphanumeric characters with a single
  hyphen, trim the leading and trailing hyphens.
\<close>

function squeeze_runs :: "string \<Rightarrow> string" where
  "squeeze_runs [] = []"
| "squeeze_runs (c # cs) =
     (if is_az09 c then c # squeeze_runs cs
      else CHR ''-'' # squeeze_runs (dropWhile (\<lambda>d. \<not> is_az09 d) cs))"
  by pat_completeness auto
termination
  by (relation "measure length") (auto simp: less_Suc_eq_le length_dropWhile_le)

definition trim_hyphens :: "string \<Rightarrow> string" where
  "trim_hyphens s =
     rev (dropWhile (\<lambda>d. d = CHR ''-'') (rev (dropWhile (\<lambda>d. d = CHR ''-'') s)))"

definition slug_spec :: "string \<Rightarrow> string" where
  "slug_spec name = trim_hyphens (squeeze_runs (map lower_char name))"

definition digit3 :: "nat \<Rightarrow> string" where
  "digit3 n =
     [''0123456789'' ! (n div 100), ''0123456789'' ! (n div 10 mod 10), ''0123456789'' ! (n mod 10)]"

section \<open>More of JavaScript: indexing, length, comparison, array methods\<close>

text \<open>
  \<^verbatim>\<open>a[i]\<close> for a number \<open>i\<close>: an element of an array, a one-character string of a
  string, the property named by the decimal digits of \<open>i\<close> of an object, and
  \<^verbatim>\<open>undefined\<close> out of range.
\<close>

fun js_index :: "jsval \<Rightarrow> nat \<Rightarrow> error + jsval" where
  "js_index JUndefined i = Inl (TypeError ''Cannot read properties of undefined'')"
| "js_index JNull i = Inl (TypeError ''Cannot read properties of null'')"
| "js_index (JArr xs) i = Inr (if i < length xs then xs ! i else JUndefined)"
| "js_index (JStr s) i = Inr (if i < length s then JStr [s ! i] else JUndefined)"
| "js_index (JObj kvs) i =
     Inr (case map_of kvs (string_of_nat i) of Some v \<Rightarrow> v | None \<Rightarrow> JUndefined)"
| "js_index v i = Inr JUndefined"

text \<open>\<^verbatim>\<open>a.length\<close>\<close>

fun js_length :: "jsval \<Rightarrow> error + jsval" where
  "js_length (JArr xs) = Inr (JNum (int (length xs)))"
| "js_length (JStr s) = Inr (JNum (int (length s)))"
| "js_length v = js_get v ''length''"

text \<open>
  The number a comparison with a number makes of a value, with \<open>None\<close> for \<^verbatim>\<open>NaN\<close>.
  Reading a numeral out of a string is the engine's work and is a parameter (\<open>s2n\<close>).
  An array or object is first converted to a primitive: \<^verbatim>\<open>valueOf\<close> gives none, so
  it is the string of \<^verbatim>\<open>toString\<close>, with the same \<^verbatim>\<open>TypeError\<close> as above; the
  string of an object, \<^verbatim>\<open>[object Object]\<close>, is no numeral.
\<close>

fun to_number :: "(string \<Rightarrow> int option) \<Rightarrow> (int \<Rightarrow> string) \<Rightarrow> jsval \<Rightarrow> error + int option" where
  "to_number s2n n2s JUndefined = Inr None"
| "to_number s2n n2s JNull = Inr (Some 0)"
| "to_number s2n n2s (JBool b) = Inr (Some (if b then 1 else 0))"
| "to_number s2n n2s (JNum n) = Inr (Some n)"
| "to_number s2n n2s (JStr s) = Inr (s2n s)"
| "to_number s2n n2s (JArr xs) = bindE (to_string n2s (JArr xs)) (\<lambda>s. Inr (s2n s))"
| "to_number s2n n2s (JObj kvs) = bindE (to_string n2s (JObj kvs)) (\<lambda>s. Inr None)"

text \<open>
  \<^verbatim>\<open>v >= n\<close> and \<^verbatim>\<open>v <= n\<close> for a number \<open>n\<close>: false when \<open>v\<close> is not a number,
  a \<^verbatim>\<open>TypeError\<close> when \<open>v\<close> cannot be converted.
\<close>

definition js_ge :: "(string \<Rightarrow> int option) \<Rightarrow> (int \<Rightarrow> string) \<Rightarrow> jsval \<Rightarrow> int \<Rightarrow> error + bool" where
  "js_ge s2n n2s v n =
     bindE (to_number s2n n2s v) (\<lambda>x. Inr (case x of None \<Rightarrow> False | Some x \<Rightarrow> x \<ge> n))"

definition js_le :: "(string \<Rightarrow> int option) \<Rightarrow> (int \<Rightarrow> string) \<Rightarrow> jsval \<Rightarrow> int \<Rightarrow> error + bool" where
  "js_le s2n n2s v n =
     bindE (to_number s2n n2s v) (\<lambda>x. Inr (case x of None \<Rightarrow> False | Some x \<Rightarrow> x \<le> n))"

text \<open>
  How often \<^verbatim>\<open>for (let i = 0; i < len; i++)\<close> runs its body when nothing throws:
  never for \<^verbatim>\<open>NaN\<close>.
\<close>

definition loop_bound :: "int option \<Rightarrow> nat" where
  "loop_bound len = (case len of None \<Rightarrow> 0 | Some n \<Rightarrow> nat n)"

text \<open>
  The callbacks of \<^verbatim>\<open>filter\<close>, \<^verbatim>\<open>map\<close> and \<^verbatim>\<open>find\<close> can throw; the first throw
  ends the call. \<^verbatim>\<open>find\<close> stops at the first match.
\<close>

fun filterE :: "('a \<Rightarrow> error + bool) \<Rightarrow> 'a list \<Rightarrow> error + 'a list" where
  "filterE p [] = Inr []"
| "filterE p (x # xs) =
     bindE (p x) (\<lambda>b. bindE (filterE p xs) (\<lambda>r. Inr (if b then x # r else r)))"

fun mapE :: "('a \<Rightarrow> error + 'b) \<Rightarrow> 'a list \<Rightarrow> error + 'b list" where
  "mapE f [] = Inr []"
| "mapE f (x # xs) = bindE (f x) (\<lambda>y. bindE (mapE f xs) (\<lambda>ys. Inr (y # ys)))"

fun findE :: "(jsval \<Rightarrow> error + bool) \<Rightarrow> jsval list \<Rightarrow> error + jsval" where
  "findE p [] = Inr JUndefined"
| "findE p (x # xs) = bindE (p x) (\<lambda>b. if b then Inr x else findE p xs)"

text \<open>
  \<^verbatim>\<open>a.filter(p)\<close> and \<^verbatim>\<open>a.find(p)\<close> on a value that is not \<^verbatim>\<open>null\<close> or
  \<^verbatim>\<open>undefined\<close>: only an array has the method (no JSON value is a function).
\<close>

fun js_filter :: "jsval \<Rightarrow> (jsval \<Rightarrow> error + bool) \<Rightarrow> error + jsval list" where
  "js_filter (JArr xs) p = filterE p xs"
| "js_filter JUndefined p = Inl (TypeError ''Cannot read properties of undefined (reading filter)'')"
| "js_filter JNull p = Inl (TypeError ''Cannot read properties of null (reading filter)'')"
| "js_filter v p = Inl (TypeError ''filter is not a function'')"

fun js_find :: "jsval \<Rightarrow> (jsval \<Rightarrow> error + bool) \<Rightarrow> error + jsval" where
  "js_find (JArr xs) p = findE p xs"
| "js_find JUndefined p = Inl (TypeError ''Cannot read properties of undefined (reading find)'')"
| "js_find JNull p = Inl (TypeError ''Cannot read properties of null (reading find)'')"
| "js_find v p = Inl (TypeError ''find is not a function'')"

section \<open>The output document\<close>

text \<open>
  The object literals of \<^verbatim>\<open>buildSurahData\<close>. A field copied from a response keeps
  whatever value it had there, so it is a \<open>jsval\<close>. The nested
  \<^verbatim>\<open>translation: {text, language}\<close> of a word is the pair of fields
  \<open>translation_text\<close> and \<open>translation_language\<close>; \<^verbatim>\<open>words: {en, id}\<close> and
  \<^verbatim>\<open>translations: {en, id}\<close> of an ayah are flattened the same way.
\<close>

record word_segment =
  position :: jsval
  text_code :: jsval
  audio_url :: jsval
  translation_text :: jsval
  translation_language :: string
  transliteration :: jsval

record ayah =
  ayah_id :: jsval
  verse_number :: jsval
  verse_key :: jsval
  juz_number :: jsval
  hizb_number :: jsval
  rub_el_hizb_number :: jsval
  manzil_number :: jsval
  ruku_number :: jsval
  page_number :: jsval
  sajdah_number :: jsval
  text_arabic_simple :: jsval
  text_arabic_uthmani :: jsval
  text_arabic_tajweed :: jsval
  words_en :: "word_segment list"
  words_id :: "word_segment list"
  translations_en :: jsval
  translations_id :: jsval

record meta_info =
  source :: string
  base_url :: string
  downloaded_at :: string
  translation_ids :: "(string \<times> int) list"

record surah_info =
  surah_id :: jsval
  name_simple :: jsval
  name_complex :: jsval
  name_arabic :: jsval
  translated_name :: jsval
  revelation_place :: jsval
  revelation_order :: jsval
  bismillah_pre :: jsval
  verses_count :: jsval
  pages :: jsval

record stats_info =
  total_ayahs :: nat
  total_words_en :: nat
  total_words_id :: nat

record surah_data =
  meta :: meta_info
  surah :: surah_info
  ayahs :: "ayah list"
  stats :: stats_info

section \<open>The environment: network, JSON, clock, file system, console\<close>

text \<open>
  What becomes of \<^verbatim>\<open>protocol.get(url, callback).on('error', ...)\<close>. The call itself
  throws when the module refuses the URL (one that does not parse, or whose scheme is not
  the module's, as \<^verbatim>\<open>ftp://...\<close> or \<^verbatim>\<open>HTTPS://...\<close> handed to \<^verbatim>\<open>http\<close>): a
  \<^verbatim>\<open>TypeError\<close> of the module, with its message. Otherwise the request is made, and
  either the request's \<^verbatim>\<open>error\<close> event comes, with its message, or a response comes
  with its status code and the chunks of its body in order, followed by \<^verbatim>\<open>end\<close>, or
  neither event ever comes (a response that stalls or breaks off: the program listens for
  no event of the response but \<^verbatim>\<open>data\<close> and \<^verbatim>\<open>end\<close>, and sets no timeout).
\<close>

datatype protocol = Https | Http

datatype http_outcome =
    Throws string
  | ErrorEvent string
  | Response nat "string list"
  | NoEnd

text \<open>
  The collaborators the program calls, as parameters: the network (a request to a URL
  has one outcome during a run), \<^verbatim>\<open>JSON.parse\<close> (\<open>Inl\<close> the diagnostic of a
  \<^verbatim>\<open>SyntaxError\<close>), \<^verbatim>\<open>JSON.stringify(doc, null, 2)\<close>, the engine's reading of numerals
  and its printing of the numbers beyond the safe integers,
  \<^verbatim>\<open>new Date().toISOString()\<close>, \<^verbatim>\<open>path.join\<close>, and the paths at which
  \<^verbatim>\<open>fs.writeFileSync\<close> throws (with the message). \<^verbatim>\<open>sleep\<close> only passes time and
  has no counterpart.
\<close>

record env =
  http_get :: "protocol \<Rightarrow> string \<Rightarrow> http_outcome"
  json_parse :: "string \<Rightarrow> string + jsval"
  json_stringify :: "surah_data \<Rightarrow> string"
  string_to_number :: "string \<Rightarrow> int option"
  number_to_string :: "int \<Rightarrow> string"
  now_iso :: string
  path_join :: "string \<Rightarrow> string \<Rightarrow> string"
  write_error :: "string \<Rightarrow> string option"

text \<open>
  The console holds the lines printed, \<^verbatim>\<open>colorLog\<close>'s with their colour. The glyphs
  outside ASCII in the program's messages (arrows, check marks, crosses, the double line)
  are written \<^verbatim>\<open>->\<close>, \<^verbatim>\<open>[ok]\<close>, \<^verbatim>\<open>[x]\<close> and \<^verbatim>\<open>=\<close>.
\<close>

datatype color = Dim | Red | Green | Blue | Cyan

datatype console_line = Plain string | Colored color string

text \<open>
  The file system is the list of the writes that succeeded, oldest first, each a path
  and the text written; a later write to a path replaces the earlier one.
\<close>

record world =
  files :: "(string \<times> string) list"
  console :: "console_line list"

definition log :: "console_line list \<Rightarrow> world \<Rightarrow> world" where
  "log ls w = w\<lparr>console := console w @ ls\<rparr>"

definition printHeader :: "string \<Rightarrow> console_line list" where
  "printHeader title =
     [Plain [], Colored Cyan (replicate 60 CHR ''=''), Colored Cyan (''  '' @ title),
      Colored Cyan (replicate 60 CHR ''='')]"

definition writeFileSync :: "env \<Rightarrow> string \<Rightarrow> string \<Rightarrow> world \<Rightarrow> error + world" where
  "writeFileSync env filepath content w =
     (case write_error env filepath of
        Some m \<Rightarrow> Inl (Error m)
      | None \<Rightarrow> Inr (w\<lparr>files := files w @ [(filepath, content)]\<rparr>))"

section \<open>fetchJSON and the API functions\<close>

definition startsWith :: "string \<Rightarrow> string \<Rightarrow> bool" where
  "startsWith s p = (take (length p) s = p)"

text \<open>
  \<^verbatim>\<open>fetchJSON(url)\<close>, the promise it returns. A throw of \<^verbatim>\<open>protocol.get\<close> happens
  inside the executor of \<^verbatim>\<open>new Promise\<close>, so the promise rejects with what was thrown,
  as it is. The status code of the response is never read.
\<close>

definition fetchJSON :: "env \<Rightarrow> string \<Rightarrow> jsval promise" where
  "fetchJSON env url =
     (let protocol = (if startsWith url ''https'' then Https else Http)
      in case http_get env protocol url of
           Throws m \<Rightarrow> Rejected (TypeError m)
         | ErrorEvent m \<Rightarrow> Rejected (Error (''HTTP request failed for '' @ url @ '': '' @ m))
         | Response status chunks \<Rightarrow>
             (let data = foldl (\<lambda>d chunk. d @ chunk) [] chunks
              in case json_parse env data of
                   Inr json \<Rightarrow> Resolved json
                 | Inl m \<Rightarrow> Rejected (Error (''Failed to parse JSON from '' @ url @ '': '' @ m)))
         | NoEnd \<Rightarrow> Pending)"

definition TRANSLATION_IDS :: "(string \<times> int) list" where
  "TRANSLATION_IDS = [(''indonesian'', 33), (''english'', 20)]"

definition TRANSLATION_IDS_english :: int where
  "TRANSLATION_IDS_english = 20"

definition TRANSLATION_IDS_indonesian :: int where
  "TRANSLATION_IDS_indonesian = 33"

definition fetchChapters :: "env \<Rightarrow> string \<Rightarrow> console_line list \<times> jsval promise" where
  "fetchChapters env baseUrl =
     ([Colored Dim ''  -> Fetching chapters list...''], fetchJSON env (baseUrl @ ''/chapters''))"

text \<open>
  The four functions below build their URL with \<^verbatim>\<open>${chapterId}\<close>; when that conversion
  throws, the function rejects without a request.
\<close>

definition fetchVersesWithWords :: "env \<Rightarrow> string \<Rightarrow> jsval \<Rightarrow> string \<Rightarrow> int list \<Rightarrow> jsval promise" where
  "fetchVersesWithWords env baseUrl chapterId wordLang translationIds =
     (let translations = join '','' (map (num_string (number_to_string env)) translationIds)
      in case to_string (number_to_string env) chapterId of
           Inl e \<Rightarrow> Rejected e
         | Inr cid \<Rightarrow>
             fetchJSON env
               (baseUrl @ ''/verses/by_chapter/'' @ cid @ ''?language='' @ wordLang @
                ''&words=true&word_fields=text_uthmani,translation,transliteration&translations='' @
                translations @ ''&per_page=300''))"

definition fetchUthmaniText :: "env \<Rightarrow> string \<Rightarrow> jsval \<Rightarrow> jsval promise" where
  "fetchUthmaniText env baseUrl chapterId =
     (case to_string (number_to_string env) chapterId of
        Inl e \<Rightarrow> Rejected e
      | Inr cid \<Rightarrow> fetchJSON env (baseUrl @ ''/quran/verses/uthmani?chapter_number='' @ cid))"

definition fetchImlaeiText :: "env \<Rightarrow> string \<Rightarrow> jsval \<Rightarrow> jsval promise" where
  "fetchImlaeiText env baseUrl chapterId =
     (case to_string (number_to_string env) chapterId of
        Inl e \<Rightarrow> Rejected e
      | Inr cid \<Rightarrow> fetchJSON env (baseUrl @ ''/quran/verses/imlaei?chapter_number='' @ cid))"

definition fetchUthmaniTajweedText :: "env \<Rightarrow> string \<Rightarrow> jsval \<Rightarrow> jsval promise" where
  "fetchUthmaniTajweedText env baseUrl chapterId =
     (case to_string (number_to_string env) chapterId of
        Inl e \<Rightarrow> Rejected e
      | Inr cid \<Rightarrow>
          fetchJSON env (baseUrl @ ''/quran/verses/uthmani_tajweed?chapter_number='' @ cid))"

section \<open>buildSurahData\<close>

text \<open>The callback \<^verbatim>\<open>w => w.char_type_name === 'word'\<close> of both word filters.\<close>

definition is_word :: "jsval \<Rightarrow> error + bool" where
  "is_word w = bindE (js_get w ''char_type_name'') (\<lambda>t. Inr (t = JStr ''word''))"

text \<open>
  The two \<^verbatim>\<open>map\<close> callbacks. \<^verbatim>\<open>w.code_v1 || w.text\<close> reads \<^verbatim>\<open>w.text\<close> only when
  \<^verbatim>\<open>w.code_v1\<close> is falsy.
\<close>

definition wordEn :: "jsval \<Rightarrow> error + word_segment" where
  "wordEn w =
     bindE (js_get w ''position'') (\<lambda>pos.
     bindE (js_get w ''code_v1'') (\<lambda>code_v1.
     bindE (if truthy code_v1 then Inr code_v1 else js_get w ''text'') (\<lambda>code.
     bindE (js_get w ''audio_url'') (\<lambda>audio.
     bindE (js_get w ''translation'') (\<lambda>tr.
     bindE (js_get w ''transliteration'') (\<lambda>tl.
     Inr \<lparr>position = pos, text_code = code, audio_url = audio,
          translation_text = js_or (js_opt_get tr ''text'') (JStr []),
          translation_language = ''en'',
          transliteration = js_or (js_opt_get tl ''text'') (JStr [])\<rparr>))))))"

definition wordId :: "jsval \<Rightarrow> error + word_segment" where
  "wordId w =
     bindE (js_get w ''position'') (\<lambda>pos.
     bindE (js_get w ''code_v1'') (\<lambda>code_v1.
     bindE (if truthy code_v1 then Inr code_v1 else js_get w ''text'') (\<lambda>code.
     bindE (js_get w ''audio_url'') (\<lambda>audio.
     bindE (js_get w ''translation'') (\<lambda>tr.
     bindE (js_get w ''transliteration'') (\<lambda>tl.
     Inr \<lparr>position = pos, text_code = code, audio_url = audio,
          translation_text = js_or (js_opt_get tr ''text'') (JStr []),
          translation_language =
            (if js_opt_get tr ''language_name'' = JStr ''indonesian'' then ''id'' else ''en''),
          transliteration = js_or (js_opt_get tl ''text'') (JStr [])\<rparr>))))))"

text \<open>\<^verbatim>\<open>(verse.words || []).filter(...).map(...)\<close>\<close>

definition buildWords :: "(jsval \<Rightarrow> error + word_segment) \<Rightarrow> jsval \<Rightarrow> error + word_segment list" where
  "buildWords mk verse =
     bindE (js_get verse ''words'') (\<lambda>ws.
     bindE (js_filter (js_or ws (JArr [])) is_word) (\<lambda>kept.
     mapE mk kept))"

text \<open>The callback \<^verbatim>\<open>t => t.resource_id === n\<close> of both \<^verbatim>\<open>find\<close> calls.\<close>

definition has_resource_id :: "int \<Rightarrow> jsval \<Rightarrow> error + bool" where
  "has_resource_id n t = bindE (js_get t ''resource_id'') (\<lambda>r. Inr (r = JNum n))"

text \<open>The body of the loop for index \<open>i\<close>: the ayah it pushes, or what it throws.\<close>

definition buildAyah :: "jsval \<Rightarrow> jsval \<Rightarrow> jsval \<Rightarrow> jsval \<Rightarrow> jsval \<Rightarrow> nat \<Rightarrow> error + ayah" where
  "buildAyah versesEn versesId uthmaniVerses imlaeiVerses tajweedVerses i =
     bindE (js_index versesEn i) (\<lambda>verseEn.
     bindE (js_index versesId i) (\<lambda>vId.
     let verseId = js_or vId verseEn in
     bindE (js_index uthmaniVerses i) (\<lambda>uthmani.
     bindE (js_index imlaeiVerses i) (\<lambda>imlaei.
     bindE (js_index tajweedVerses i) (\<lambda>tajweed.
     bindE (buildWords wordEn verseEn) (\<lambda>wordsEn.
     bindE (buildWords wordId verseId) (\<lambda>wordsId.
     bindE (js_get verseEn ''translations'') (\<lambda>tr.
     let translationsEn = js_or tr (JArr []) in
     bindE (js_find translationsEn (has_resource_id TRANSLATION_IDS_english)) (\<lambda>translationEn.
     bindE (js_find translationsEn (has_resource_id TRANSLATION_IDS_indonesian)) (\<lambda>translationId.
     bindE (js_get verseEn ''id'') (\<lambda>v_id.
     bindE (js_get verseEn ''verse_number'') (\<lambda>v_number.
     bindE (js_get verseEn ''verse_key'') (\<lambda>v_key.
     bindE (js_get verseEn ''juz_number'') (\<lambda>v_juz.
     bindE (js_get verseEn ''hizb_number'') (\<lambda>v_hizb.
     bindE (js_get verseEn ''rub_el_hizb_number'') (\<lambda>v_rub.
     bindE (js_get verseEn ''manzil_number'') (\<lambda>v_manzil.
     bindE (js_get verseEn ''ruku_number'') (\<lambda>v_ruku.
     bindE (js_get verseEn ''page_number'') (\<lambda>v_page.
     bindE (js_get verseEn ''sajdah_number'') (\<lambda>v_sajdah.
     Inr \<lparr>ayah_id = v_id, verse_number = v_number, verse_key = v_key,
          juz_number = v_juz, hizb_number = v_hizb, rub_el_hizb_number = v_rub,
          manzil_number = v_manzil, ruku_number = v_ruku, page_number = v_page,
          sajdah_number = v_sajdah,
          text_arabic_simple = js_or (js_opt_get imlaei ''text_imlaei'') (JStr []),
          text_arabic_uthmani = js_or (js_opt_get uthmani ''text_uthmani'') (JStr []),
          text_arabic_tajweed = js_or (js_opt_get tajweed ''text_uthmani_tajweed'') (JStr []),
          words_en = wordsEn, words_id = wordsId,
          translations_en = js_or (js_opt_get translationEn ''text'') (JStr []),
          translations_id = js_or (js_opt_get translationId ''text'') (JStr [])\<rparr>
     ))))))))))))))))))))"

text \<open>
  \<^verbatim>\<open>for (let i = 0; i < versesEn.length; i++) { ...; ayahs.push({...}) }\<close> from index
  \<open>i\<close> on, with the ayahs pushed so far.
\<close>

function ayahs_loop :: "(nat \<Rightarrow> error + ayah) \<Rightarrow> nat \<Rightarrow> nat \<Rightarrow> ayah list \<Rightarrow> error + ayah list" where
  "ayahs_loop body n i acc =
     (if i < n then bindE (body i) (\<lambda>a. ayahs_loop body n (Suc i) (acc @ [a])) else Inr acc)"
  by pat_completeness auto
termination
  by (relation "measure (\<lambda>(body, n, i, acc). n - i)") auto

declare ayahs_loop.simps [simp del]

text \<open>
  Lines 214 to 292: the five verse arrays, each \<^verbatim>\<open>data.verses || []\<close>, and the loop over
  the indices of \<^verbatim>\<open>versesEn\<close>. The test \<^verbatim>\<open>i < versesEn.length\<close> converts the length
  to a number, every time in the same way, so a conversion that throws does so before the
  first turn.
\<close>

definition buildAyahs :: "env \<Rightarrow> jsval \<Rightarrow> jsval \<Rightarrow> jsval \<Rightarrow> jsval \<Rightarrow> jsval \<Rightarrow> error + ayah list" where
  "buildAyahs env versesEnData versesIdData uthmaniData imlaeiData tajweedData =
     bindE (js_get versesEnData ''verses'') (\<lambda>vE.
     bindE (js_get versesIdData ''verses'') (\<lambda>vI.
     bindE (js_get uthmaniData ''verses'') (\<lambda>vU.
     bindE (js_get imlaeiData ''verses'') (\<lambda>vM.
     bindE (js_get tajweedData ''verses'') (\<lambda>vT.
     let versesEn = js_or vE (JArr []);
         versesId = js_or vI (JArr []);
         uthmaniVerses = js_or vU (JArr []);
         imlaeiVerses = js_or vM (JArr []);
         tajweedVerses = js_or vT (JArr [])
     in
     bindE (js_length versesEn) (\<lambda>len.
     bindE (to_number (string_to_number env) (number_to_string env) len) (\<lambda>n.
     ayahs_loop (buildAyah versesEn versesId uthmaniVerses imlaeiVerses tajweedVerses)
       (loop_bound n) 0 [])))))))"

text \<open>The object \<^verbatim>\<open>buildSurahData\<close> returns, from the chapter and the ayahs.\<close>

definition surahDocument :: "env \<Rightarrow> string \<Rightarrow> jsval \<Rightarrow> ayah list \<Rightarrow> error + surah_data" where
  "surahDocument env baseUrl chapter ays =
     bindE (js_get chapter ''id'') (\<lambda>c_id.
     bindE (js_get chapter ''name_simple'') (\<lambda>c_simple.
     bindE (js_get chapter ''name_complex'') (\<lambda>c_complex.
     bindE (js_get chapter ''name_arabic'') (\<lambda>c_arabic.
     bindE (js_get chapter ''translated_name'') (\<lambda>c_translated.
     bindE (js_get chapter ''revelation_place'') (\<lambda>c_place.
     bindE (js_get chapter ''revelation_order'') (\<lambda>c_order.
     bindE (js_get chapter ''bismillah_pre'') (\<lambda>c_bismillah.
     bindE (js_get chapter ''verses_count'') (\<lambda>c_count.
     bindE (js_get chapter ''pages'') (\<lambda>c_pages.
     Inr \<lparr>meta = \<lparr>source = ''Quran.com API v4'', base_url = baseUrl,
                  downloaded_at = now_iso env, translation_ids = TRANSLATION_IDS\<rparr>,
          surah = \<lparr>surah_id = c_id, name_simple = c_simple, name_complex = c_complex,
                   name_arabic = c_arabic, translated_name = c_translated,
                   revelation_place = c_place, revelation_order = c_order,
                   bismillah_pre = c_bismillah, verses_count = c_count, pages = c_pages\<rparr>,
          ayahs = ays,
          stats = \<lparr>total_ayahs = length ays,
                   total_words_en = foldl (\<lambda>sum a. sum + length (words_en a)) 0 ays,
                   total_words_id = foldl (\<lambda>sum a. sum + length (words_id a)) 0 ays\<rparr>\<rparr>
     ))))))))))"

text \<open>
  \<^verbatim>\<open>buildSurahData(baseUrl, chapter)\<close>: the lines it prints and its promise, which
  resolves with the document, rejects with an error or never settles. A fetch that rejects
  ends it at once, and so does one that never settles: the later fetches are not made and
  nothing is aggregated.
\<close>

definition buildSurahData :: "env \<Rightarrow> string \<Rightarrow> jsval \<Rightarrow> console_line list \<times> surah_data promise" where
  "buildSurahData env baseUrl chapter =
     (case js_get chapter ''id'' of
        Inl e \<Rightarrow> ([], Rejected e)
      | Inr chapterId \<Rightarrow>
     (let l1 = [Colored Dim ''  -> Fetching Arabic text (Uthmani)...''] in
      case fetchUthmaniText env baseUrl chapterId of
        Pending \<Rightarrow> (l1, Pending)
      | Rejected e \<Rightarrow> (l1, Rejected e)
      | Resolved uthmaniData \<Rightarrow>
     (let l2 = l1 @ [Colored Dim ''  -> Fetching Arabic text (Imlaei/Simple)...''] in
      case fetchImlaeiText env baseUrl chapterId of
        Pending \<Rightarrow> (l2, Pending)
      | Rejected e \<Rightarrow> (l2, Rejected e)
      | Resolved imlaeiData \<Rightarrow>
     (let l3 = l2 @ [Colored Dim ''  -> Fetching Arabic text (Uthmani Tajweed)...''] in
      case fetchUthmaniTajweedText env baseUrl chapterId of
        Pending \<Rightarrow> (l3, Pending)
      | Rejected e \<Rightarrow> (l3, Rejected e)
      | Resolved tajweedData \<Rightarrow>
     (let l4 = l3 @ [Colored Dim ''  -> Fetching verses with English word translations...''] in
      case fetchVersesWithWords env baseUrl chapterId ''en''
             [TRANSLATION_IDS_english, TRANSLATION_IDS_indonesian] of
        Pending \<Rightarrow> (l4, Pending)
      | Rejected e \<Rightarrow> (l4, Rejected e)
      | Resolved versesEnData \<Rightarrow>
     (let l5 = l4 @ [Colored Dim ''  -> Fetching verses with Indonesian word translations...''] in
      case fetchVersesWithWords env baseUrl chapterId ''id''
             [TRANSLATION_IDS_english, TRANSLATION_IDS_indonesian] of
        Pending \<Rightarrow> (l5, Pending)
      | Rejected e \<Rightarrow> (l5, Rejected e)
      | Resolved versesIdData \<Rightarrow>
          (l5, settle (bindE (buildAyahs env versesEnData versesIdData uthmaniData imlaeiData
                                tajweedData)
                         (\<lambda>ays. surahDocument env baseUrl chapter ays)))))))))"

section \<open>The download commands\<close>

text \<open>
  \<^verbatim>\<open>downloadSurah(baseUrl, outputDir, surahId)\<close>: the world it leaves and its promise.
  The title of the header and the line under it are template literals over fields of the
  chapter; each converts its fields in order and throws when one cannot be converted, the
  second after the header has been printed. The chapter found is an object, so the reads
  themselves cannot throw; they are kept as reads all the same.
\<close>

definition surahTitle :: "(int \<Rightarrow> string) \<Rightarrow> jsval \<Rightarrow> error + string" where
  "surahTitle n2s chapter =
     bindE (js_get chapter ''name_simple'') (\<lambda>c_simple.
     bindE (to_string n2s c_simple) (\<lambda>s_simple.
     bindE (js_get chapter ''name_arabic'') (\<lambda>c_arabic.
     bindE (to_string n2s c_arabic) (\<lambda>s_arabic.
     Inr (''Downloading: '' @ s_simple @ '' ('' @ s_arabic @ '')'')))))"

definition surahInfoLine :: "(int \<Rightarrow> string) \<Rightarrow> jsval \<Rightarrow> error + string" where
  "surahInfoLine n2s chapter =
     bindE (js_get chapter ''id'') (\<lambda>c_id.
     bindE (to_string n2s c_id) (\<lambda>s_id.
     bindE (js_get chapter ''verses_count'') (\<lambda>c_count.
     bindE (to_string n2s c_count) (\<lambda>s_count.
     bindE (js_get chapter ''revelation_place'') (\<lambda>c_place.
     bindE (to_string n2s c_place) (\<lambda>s_place.
     Inr (''  Surah #'' @ s_id @ '' | '' @ s_count @ '' verses | '' @ s_place)))))))"

definition downloadSurah :: "env \<Rightarrow> string \<Rightarrow> string \<Rightarrow> int \<Rightarrow> world \<Rightarrow> world \<times> surah_data promise" where
  "downloadSurah env baseUrl outputDir surahId w =
     (let w1 = log (fst (fetchChapters env baseUrl)) w in
      case snd (fetchChapters env baseUrl) of
        Pending \<Rightarrow> (w1, Pending)
      | Rejected e \<Rightarrow> (w1, Rejected e)
      | Resolved chaptersData \<Rightarrow>
     (case bindE (js_get chaptersData ''chapters'') (\<lambda>chs.
             js_find chs (\<lambda>c. bindE (js_get c ''id'') (\<lambda>i. Inr (i = JNum surahId)))) of
        Inl e \<Rightarrow> (w1, Rejected e)
      | Inr chapter \<Rightarrow>
     (if \<not> truthy chapter
      then (w1, Rejected (Error (''Surah with ID '' @ num_string (number_to_string env) surahId @
                                 '' not found'')))
      else
     (case surahTitle (number_to_string env) chapter of
        Inl e \<Rightarrow> (w1, Rejected e)
      | Inr title \<Rightarrow>
     (let w2 = log (printHeader title) w1 in
      case surahInfoLine (number_to_string env) chapter of
        Inl e \<Rightarrow> (w2, Rejected e)
      | Inr line \<Rightarrow>
     (let w3 = log [Plain line, Plain []] w2;
          w4 = log (fst (buildSurahData env baseUrl chapter)) w3 in
      case snd (buildSurahData env baseUrl chapter) of
        Pending \<Rightarrow> (w4, Pending)
      | Rejected e \<Rightarrow> (w4, Rejected e)
      | Resolved surahData \<Rightarrow>
     (case surahFilename (number_to_string env) chapter of
        Inl e \<Rightarrow> (w4, Rejected e)
      | Inr filename \<Rightarrow>
     (let filepath = path_join env outputDir filename in
      case writeFileSync env filepath (json_stringify env surahData) w4 of
        Inl e \<Rightarrow> (w4, Rejected e)
      | Inr w5 \<Rightarrow>
          (log [Colored Green (''  [ok] Saved to: '' @ filepath),
                Plain (''    -> '' @
                       num_string (number_to_string env) (int (total_ayahs (stats surahData))) @
                       '' ayahs''),
                Plain (''    -> '' @
                       num_string (number_to_string env) (int (total_words_en (stats surahData))) @
                       '' words (EN)''),
                Plain (''    -> '' @
                       num_string (number_to_string env) (int (total_words_id (stats surahData))) @
                       '' words (ID)'')]
             w5,
           Resolved surahData)))))))))"

text \<open>
  The first statement of the \<^verbatim>\<open>try\<close> block of \<^verbatim>\<open>downloadAllSurahs\<close>: the blue line
  \<^verbatim>\<open>[id/114] name_simple (name_arabic)\<close>, a template literal that throws when one of
  the three fields cannot be converted.
\<close>

definition chapterBanner :: "(int \<Rightarrow> string) \<Rightarrow> jsval \<Rightarrow> error + console_line list" where
  "chapterBanner n2s chapter =
     bindE (js_get chapter ''id'') (\<lambda>c_id.
     bindE (to_string n2s c_id) (\<lambda>s_id.
     bindE (js_get chapter ''name_simple'') (\<lambda>c_simple.
     bindE (to_string n2s c_simple) (\<lambda>s_simple.
     bindE (js_get chapter ''name_arabic'') (\<lambda>c_arabic.
     bindE (to_string n2s c_arabic) (\<lambda>s_arabic.
     Inr [Colored Blue ([CHR 0x0A] @ ''['' @ s_id @ ''/114] '' @ s_simple @
                        '' ('' @ s_arabic @ '')'')]))))))"

text \<open>
  The body of the \<^verbatim>\<open>try\<close> block for one chapter: the world it leaves, and whether it
  runs to its end, throws, or stays at an \<^verbatim>\<open>await\<close> for ever.
\<close>

definition tryChapter :: "env \<Rightarrow> string \<Rightarrow> string \<Rightarrow> jsval \<Rightarrow> world \<Rightarrow> world \<times> unit promise" where
  "tryChapter env baseUrl outputDir chapter w =
     (case chapterBanner (number_to_string env) chapter of
        Inl e \<Rightarrow> (w, Rejected e)
      | Inr l0 \<Rightarrow>
     (let w1 = log l0 w;
          w2 = log (fst (buildSurahData env baseUrl chapter)) w1 in
      case snd (buildSurahData env baseUrl chapter) of
        Pending \<Rightarrow> (w2, Pending)
      | Rejected e \<Rightarrow> (w2, Rejected e)
      | Resolved surahData \<Rightarrow>
     (case surahFilename (number_to_string env) chapter of
        Inl e \<Rightarrow> (w2, Rejected e)
      | Inr filename \<Rightarrow>
     (let filepath = path_join env outputDir filename in
      case writeFileSync env filepath (json_stringify env surahData) w2 of
        Inl e \<Rightarrow> (w2, Rejected e)
      | Inr w3 \<Rightarrow>
          (log [Colored Green (''  [ok] '' @ filename @ '' ('' @
                               num_string (number_to_string env)
                                 (int (total_ayahs (stats surahData))) @
                               '' ayahs)'')] w3,
           Resolved ())))))"

text \<open>
  One turn of the loop: the \<^verbatim>\<open>try\<close> block and its \<^verbatim>\<open>catch\<close>. The turn ends
  (\<open>Resolved\<close>) unless the block stays at an \<^verbatim>\<open>await\<close>.
\<close>

definition processChapter :: "env \<Rightarrow> string \<Rightarrow> string \<Rightarrow> world \<Rightarrow> jsval \<Rightarrow> world \<times> unit promise" where
  "processChapter env baseUrl outputDir w chapter =
     (let w' = fst (tryChapter env baseUrl outputDir chapter w) in
      case snd (tryChapter env baseUrl outputDir chapter w) of
        Pending \<Rightarrow> (w', Pending)
      | Rejected e \<Rightarrow> (log [Colored Red (''  [x] Error: '' @ message e)] w', Resolved ())
      | Resolved u \<Rightarrow> (w', Resolved ()))"

text \<open>
  \<^verbatim>\<open>for (const chapter of chapters) { try {...} catch (error) {...} }\<close>: the turns in the
  order of the array; a turn that does not end is the last.
\<close>

fun chapters_loop :: "env \<Rightarrow> string \<Rightarrow> string \<Rightarrow> world \<Rightarrow> jsval list \<Rightarrow> world \<times> unit promise" where
  "chapters_loop env baseUrl outputDir w [] = (w, Resolved ())"
| "chapters_loop env baseUrl outputDir w (chapter # rest) =
     (let w' = fst (processChapter env baseUrl outputDir w chapter) in
      case snd (processChapter env baseUrl outputDir w chapter) of
        Pending \<Rightarrow> (w', Pending)
      | Rejected e \<Rightarrow> (w', Rejected e)
      | Resolved u \<Rightarrow> chapters_loop env baseUrl outputDir w' rest)"

text \<open>
  The callback \<^verbatim>\<open>c => c.id >= startFrom && c.id <= endAt\<close>, for bounds that are numbers
  (not \<^verbatim>\<open>NaN\<close>). Each comparison reads and converts the id anew.
\<close>

definition in_range :: "env \<Rightarrow> int \<Rightarrow> int \<Rightarrow> jsval \<Rightarrow> error + bool" where
  "in_range env startFrom endAt c =
     bindE (js_get c ''id'') (\<lambda>i.
     bindE (js_ge (string_to_number env) (number_to_string env) i startFrom) (\<lambda>ge.
     if ge
     then bindE (js_get c ''id'') (\<lambda>j.
          js_le (string_to_number env) (number_to_string env) j endAt)
     else Inr False))"

text \<open>
  \<^verbatim>\<open>downloadAllSurahs(baseUrl, outputDir, startFrom, endAt)\<close>. The filter runs before the
  loop and outside its \<^verbatim>\<open>try\<close>: what it throws rejects the batch.
\<close>

definition downloadAllSurahs :: "env \<Rightarrow> string \<Rightarrow> string \<Rightarrow> int \<Rightarrow> int \<Rightarrow> world \<Rightarrow> world \<times> unit promise" where
  "downloadAllSurahs env baseUrl outputDir startFrom endAt w =
     (let w1 = log (fst (fetchChapters env baseUrl)) w in
      case snd (fetchChapters env baseUrl) of
        Pending \<Rightarrow> (w1, Pending)
      | Rejected e \<Rightarrow> (w1, Rejected e)
      | Resolved chaptersData \<Rightarrow>
     (case bindE (js_get chaptersData ''chapters'') (\<lambda>chs.
             js_filter chs (in_range env startFrom endAt)) of
        Inl e \<Rightarrow> (w1, Rejected e)
      | Inr chapters \<Rightarrow>
     (let w2 = log (printHeader (''Downloading '' @
                                 num_string (number_to_string env) (int (length chapters)) @
                                 '' Surahs'') @
                    [Plain (''  From: Surah '' @ num_string (number_to_string env) startFrom @
                            '' to Surah '' @ num_string (number_to_string env) endAt),
                     Plain (''  Output: '' @ outputDir),
                     Plain []]) w1;
          w3 = fst (chapters_loop env baseUrl outputDir w2 chapters) in
      case snd (chapters_loop env baseUrl outputDir w2 chapters) of
        Pending \<Rightarrow> (w3, Pending)
      | Rejected e \<Rightarrow> (w3, Rejected e)
      | Resolved u \<Rightarrow>
          (log [Colored Green ([CHR 0x0A] @ ''[ok] Download complete!'')] w3, Resolved ()))))"

section \<open>Shapes of the responses\<close>

text \<open>
  The shapes under which the aggregation cannot throw. A value is \<open>nullish\<close> when it is
  \<^verbatim>\<open>null\<close> or \<^verbatim>\<open>undefined\<close>. A list-valued field (\<^verbatim>\<open>words\<close>,
  \<^verbatim>\<open>translations\<close>) is usable when it is missing or falsy, or an array without
  \<^verbatim>\<open>null\<close> entries. A primary verse is a value with usable \<^verbatim>\<open>words\<close> and
  \<^verbatim>\<open>translations\<close>; an entry of the second word-language array is falsy or has a usable
  \<^verbatim>\<open>words\<close>.
\<close>

definition nullish :: "jsval \<Rightarrow> bool" where
  "nullish v = (v = JNull \<or> v = JUndefined)"

definition items_ok :: "jsval \<Rightarrow> bool" where
  "items_ok v = (case v of JArr xs \<Rightarrow> list_all (\<lambda>x. \<not> nullish x) xs | _ \<Rightarrow> \<not> truthy v)"

definition verse_ok :: "jsval \<Rightarrow> bool" where
  "verse_ok v =
     (\<not> nullish v \<and> items_ok (js_opt_get v ''words'') \<and> items_ok (js_opt_get v ''translations''))"

definition verseId_ok :: "jsval \<Rightarrow> bool" where
  "verseId_ok v = (\<not> truthy v \<or> items_ok (js_opt_get v ''words''))"

definition versesId_ok :: "jsval \<Rightarrow> bool" where
  "versesId_ok d =
     (\<not> nullish d \<and>
      (case js_opt_get d ''verses'' of JArr xs \<Rightarrow> list_all verseId_ok xs | v \<Rightarrow> \<not> truthy v))"

text \<open>
  A response has no verse at index \<open>i\<close>: its \<^verbatim>\<open>verses\<close> field is absent (or falsy), or
  is an array that is too short to have that index or holds a falsy entry
  (\<^verbatim>\<open>null\<close>) there.
\<close>

definition no_verse_at :: "jsval \<Rightarrow> nat \<Rightarrow> bool" where
  "no_verse_at d i =
     (case js_opt_get d ''verses'' of
        JArr xs \<Rightarrow> length xs \<le> i \<or> \<not> truthy (xs ! i)
      | v \<Rightarrow> \<not> truthy v)"

text \<open>The token filter's test, \<^verbatim>\<open>w.char_type_name === 'word'\<close>, as a predicate.\<close>

definition word_tagged :: "jsval \<Rightarrow> bool" where
  "word_tagged w = (js_get w ''char_type_name'' = Inr (JStr ''word''))"

section \<open>The five responses of a chapter\<close>

text \<open>
  The five fetches of \<^verbatim>\<open>buildSurahData\<close> for a chapter all resolve, with these responses.
\<close>

definition fetched :: "env \<Rightarrow> string \<Rightarrow> jsval \<Rightarrow> jsval \<Rightarrow> jsval \<Rightarrow> jsval \<Rightarrow> jsval \<Rightarrow> jsval \<Rightarrow> bool" where
  "fetched env baseUrl chapter uthmaniData imlaeiData tajweedData versesEnData versesIdData =
     (case js_get chapter ''id'' of
        Inl e \<Rightarrow> False
      | Inr chapterId \<Rightarrow>
          fetchUthmaniText env baseUrl chapterId = Resolved uthmaniData \<and>
          fetchImlaeiText env baseUrl chapterId = Resolved imlaeiData \<and>
          fetchUthmaniTajweedText env baseUrl chapterId = Resolved tajweedData \<and>
          fetchVersesWithWords env baseUrl chapterId ''en''
            [TRANSLATION_IDS_english, TRANSLATION_IDS_indonesian] = Resolved versesEnData \<and>
          fetchVersesWithWords env baseUrl chapterId ''id''
            [TRANSLATION_IDS_english, TRANSLATION_IDS_indonesian] = Resolved versesIdData)"

section \<open>Sample environments\<close>

text \<open>
  The check of the URL that \<^verbatim>\<open>get\<close> makes before any request, as far as the samples
  need it: the \<^verbatim>\<open>https\<close> module takes a URL that starts with \<^verbatim>\<open>https://\<close>, the
  \<^verbatim>\<open>http\<close> module one that starts with \<^verbatim>\<open>http://\<close> in any case of the letters.
  For any other URL the module throws: that the protocol named before the colon is not
  supported, or, when the URL names none, that the URL is invalid.
\<close>

definition module_accepts :: "protocol \<Rightarrow> string \<Rightarrow> bool" where
  "module_accepts p url =
     (case p of
        Https \<Rightarrow> take 8 url = ''https://''
      | Http \<Rightarrow> toLowerCase (take 7 url) = ''http://'')"

definition url_scheme :: "string \<Rightarrow> string" where
  "url_scheme url = toLowerCase (takeWhile (\<lambda>c. c \<noteq> CHR '':'') url)"

definition refusal :: "protocol \<Rightarrow> string \<Rightarrow> string" where
  \<open>refusal p url =
     (if CHR '':'' \<in> set url \<and> url_scheme url \<noteq> []
      then ''Protocol "'' @ url_scheme url @ '':" not supported. Expected "'' @
           (case p of Https \<Rightarrow> ''https'' | Http \<Rightarrow> ''http'') @ '':"''
      else ''Invalid URL'')\<close>


text \<open>A network that answers every request the module makes: \<open>answer\<close> gives the response.\<close>

definition sample_get :: "(string \<Rightarrow> http_outcome) \<Rightarrow> protocol \<Rightarrow> string \<Rightarrow> http_outcome" where
  "sample_get answer p url = (if module_accepts p url then answer url else Throws (refusal p url))"

text \<open>
  An environment for concrete runs: every request is answered with status 200 and the body
  the routing table gives for the URL (\<open>body\<close> for the others), \<^verbatim>\<open>JSON.parse\<close> knows the
  bodies of its table, \<^verbatim>\<open>JSON.stringify\<close> is stood in for by the chapter id, no string is
  a numeral, and no write fails. The numbers of the samples are small; the text given for
  those beyond the safe integers is never asked for.
\<close>

definition mock_env :: "string \<Rightarrow> (string \<times> string) list \<Rightarrow> (string \<times> jsval) list \<Rightarrow> env" where
  "mock_env body routes table =
     \<lparr>http_get = sample_get (\<lambda>url. Response 200 [case map_of routes url of Some b \<Rightarrow> b | None \<Rightarrow> body]),
      json_parse = (\<lambda>s. case map_of table s of Some v \<Rightarrow> Inr v | None \<Rightarrow> Inl ''Unexpected token''),
      json_stringify = (\<lambda>d. string_of string_of_int (surah_id (surah d))),
      string_to_number = (\<lambda>s. None),
      number_to_string = (\<lambda>i. ''1e+21''),
      now_iso = ''2024-01-01T00:00:00.000Z'',
      path_join = (\<lambda>dir file. dir @ ''/'' @ file),
      write_error = (\<lambda>p. None)\<rparr>"

definition sample_body :: string where
  \<open>sample_body = ''{"verses":[{"verse_key":"1:1","words":[{"char_type_name":"word","position":1},{"char_type_name":"end","position":2}],"translations":[{"resource_id":20,"text":"E"}]}]}''\<close>

definition sample_verse :: jsval where
  "sample_verse =
     JObj [(''verse_key'', JStr ''1:1''),
           (''words'', JArr [JObj [(''char_type_name'', JStr ''word''), (''position'', JNum 1)],
                            JObj [(''char_type_name'', JStr ''end''), (''position'', JNum 2)]]),
           (''translations'', JArr [JObj [(''resource_id'', JNum 20), (''text'', JStr ''E'')]])]"

definition sample_data :: jsval where
  "sample_data = JObj [(''verses'', JArr [sample_verse])]"

section \<open>Words and translations of a verse\<close>

text \<open>
  The tokens of a verse that the word filter keeps, in their order: those of its
  \<^verbatim>\<open>words\<close> array whose \<^verbatim>\<open>char_type_name\<close> is \<^verbatim>\<open>word\<close> (none when the field is
  no array). A token is labelled Indonesian when \<^verbatim>\<open>w.translation?.language_name\<close> is
  \<^verbatim>\<open>indonesian\<close>.
\<close>

definition word_tokens :: "jsval \<Rightarrow> jsval list" where
  "word_tokens verse = (case js_opt_get verse ''words'' of JArr ws \<Rightarrow> filter word_tagged ws | _ \<Rightarrow> [])"

definition labelled_indonesian :: "jsval \<Rightarrow> bool" where
  "labelled_indonesian w =
     (js_opt_get (js_opt_get w ''translation'') ''language_name'' = JStr ''indonesian'')"

section \<open>Verse keys and translations as the claims word them\<close>

text \<open>The key \<^verbatim>\<open>{chapterId}:{n}\<close>.\<close>

definition canonical_key :: "jsval \<Rightarrow> nat \<Rightarrow> jsval" where
  "canonical_key chapterId n = JStr (string_of string_of_int chapterId @ '':'' @ string_of_nat n)"

text \<open>The first entry of a translation list whose \<^verbatim>\<open>resource_id\<close> is \<open>n\<close>.\<close>

definition first_with_resource_id :: "int \<Rightarrow> jsval list \<Rightarrow> jsval option" where
  "first_with_resource_id n ts = find (\<lambda>t. js_get t ''resource_id'' = Inr (JNum n)) ts"

text \<open>A word segment with its language tag set to \<^verbatim>\<open>en\<close>.\<close>

definition tagged_en :: "word_segment \<Rightarrow> word_segment" where
  "tagged_en s = s\<lparr>translation_language := ''en''\<rparr>"

definition sample_en_url :: string where
  "sample_en_url = ''http://api/verses/by_chapter/1?language=en&words=true&word_fields=text_uthmani,translation,transliteration&translations=20,33&per_page=300''"

text \<open>
  An API that has the verses of chapter 1 for word language \<^verbatim>\<open>en\<close> only: that request
  is answered with \<open>body\<close>, which parses to \<open>data\<close>, every other request with the empty
  object.
\<close>

definition en_only_env :: "string \<Rightarrow> jsval \<Rightarrow> env" where
  "en_only_env body data =
     mock_env ''{}'' [(sample_en_url, body)] [(''{}'', JObj []), (body, data)]"

text \<open>A primary response whose only verse carries the key 9:9.\<close>

definition key_body :: string where
  \<open>key_body = ''{"verses":[{"id":7,"verse_key":"9:9"}]}''\<close>

definition key_data :: jsval where
  "key_data = JObj [(''verses'', JArr [JObj [(''id'', JNum 7), (''verse_key'', JStr ''9:9'')]])]"

text \<open>A primary response whose only word is labelled Indonesian.\<close>

definition label_body :: string where
  \<open>label_body = ''{"verses":[{"words":[{"char_type_name":"word","translation":{"text":"dengan","language_name":"indonesian"}}]}]}''\<close>

definition label_verse :: jsval where
  "label_verse =
     JObj [(''words'', JArr [JObj [(''char_type_name'', JStr ''word''),
                                   (''translation'', JObj [(''text'', JStr ''dengan''),
                                                           (''language_name'', JStr ''indonesian'')])]])]"

definition label_data :: jsval where
  "label_data = JObj [(''verses'', JArr [label_verse])]"

section \<open>A sample error response\<close>




section \<open>What one chapter of a batch does\<close>

text \<open>
  The error the \<^verbatim>\<open>try\<close> block of \<^verbatim>\<open>downloadAllSurahs\<close> throws for a chapter, if any:
  that of printing the blue line, else that of \<^verbatim>\<open>buildSurahData\<close>, else that of naming
  the file, else that of writing it. (None, too, when \<^verbatim>\<open>buildSurahData\<close> never settles.)
\<close>

definition chapter_error :: "env \<Rightarrow> string \<Rightarrow> string \<Rightarrow> jsval \<Rightarrow> error option" where
  "chapter_error env baseUrl outputDir chapter =
     (case chapterBanner (number_to_string env) chapter of
        Inl e \<Rightarrow> Some e
      | Inr l \<Rightarrow>
     (case snd (buildSurahData env baseUrl chapter) of
        Pending \<Rightarrow> None
      | Rejected e \<Rightarrow> Some e
      | Resolved d \<Rightarrow>
          (case surahFilename (number_to_string env) chapter of
             Inl e \<Rightarrow> Some e
           | Inr name \<Rightarrow>
               (case write_error env (path_join env outputDir name) of
                  Some m \<Rightarrow> Some (Error m)
                | None \<Rightarrow> None))))"

text \<open>
  The file a chapter gets when nothing fails for it: the complete document, serialized,
  under the chapter's file name.
\<close>

definition chapter_file :: "env \<Rightarrow> string \<Rightarrow> string \<Rightarrow> jsval \<Rightarrow> (string \<times> string) list" where
  "chapter_file env baseUrl outputDir chapter =
     (case chapterBanner (number_to_string env) chapter of
        Inl e \<Rightarrow> []
      | Inr l \<Rightarrow>
     (case snd (buildSurahData env baseUrl chapter) of
        Pending \<Rightarrow> []
      | Rejected e \<Rightarrow> []
      | Resolved d \<Rightarrow>
          (case surahFilename (number_to_string env) chapter of
             Inl e \<Rightarrow> []
           | Inr name \<Rightarrow>
               (case write_error env (path_join env outputDir name) of
                  Some m \<Rightarrow> []
                | None \<Rightarrow> [(path_join env outputDir name, json_stringify env d)]))))"

text \<open>
  A chapter stalls the batch when its blue line is printed and \<^verbatim>\<open>buildSurahData\<close> never
  settles for it (one of its requests gets no end and no error event).
\<close>

definition stalls :: "env \<Rightarrow> string \<Rightarrow> jsval \<Rightarrow> bool" where
  "stalls env baseUrl chapter =
     (\<not> isl (chapterBanner (number_to_string env) chapter) \<and>
      is_Pending (snd (buildSurahData env baseUrl chapter)))"

text \<open>
  A listing entry the range filter can test without throwing: it is not \<^verbatim>\<open>null\<close> or
  \<^verbatim>\<open>undefined\<close>, and its id can be converted to a primitive.
\<close>

definition entry_ok :: "jsval \<Rightarrow> bool" where
  "entry_ok c = (\<not> nullish c \<and> convertible (js_opt_get c ''id''))"

text \<open>The chapters of a listing that the range filter keeps, in the order of the listing.\<close>

definition chapters_in_range :: "env \<Rightarrow> int \<Rightarrow> int \<Rightarrow> jsval list \<Rightarrow> jsval list" where
  "chapters_in_range env startFrom endAt cs =
     filter (\<lambda>c. in_range env startFrom endAt c = Inr True) cs"

text \<open>One chapter comes before another by id: both ids are numbers, the first smaller.\<close>

definition id_before :: "jsval \<Rightarrow> jsval \<Rightarrow> bool" where
  "id_before a b =
     (case (js_opt_get a ''id'', js_opt_get b ''id'') of
        (JNum x, JNum y) \<Rightarrow> x < y
      | _ \<Rightarrow> False)"

section \<open>Sample chapter listings\<close>

text \<open>
  A listing of three chapters, served by an API whose Uthmani endpoint is broken for
  chapter 2, and a listing of two chapters that is not in the order of the ids.
\<close>

definition three_body :: string where
  \<open>three_body = ''{"chapters":[{"id":1,"name_simple":"A"},{"id":2,"name_simple":"B"},{"id":3,"name_simple":"C"}]}''\<close>

definition three_chapters :: "jsval list" where
  "three_chapters =
     [JObj [(''id'', JNum 1), (''name_simple'', JStr ''A'')],
      JObj [(''id'', JNum 2), (''name_simple'', JStr ''B'')],
      JObj [(''id'', JNum 3), (''name_simple'', JStr ''C'')]]"

definition three_env :: env where
  "three_env =
     mock_env ''{}''
       [(''http://api/chapters'', three_body),
        (''http://api/quran/verses/uthmani?chapter_number=2'', ''<html>Bad Gateway</html>'')]
       [(''{}'', JObj []), (three_body, JObj [(''chapters'', JArr three_chapters)])]"

definition swapped_body :: string where
  \<open>swapped_body = ''{"chapters":[{"id":2,"name_simple":"B"},{"id":1,"name_simple":"A"}]}''\<close>

definition swapped_chapters :: "jsval list" where
  "swapped_chapters =
     [JObj [(''id'', JNum 2), (''name_simple'', JStr ''B'')],
      JObj [(''id'', JNum 1), (''name_simple'', JStr ''A'')]]"

definition swapped_env :: env where
  "swapped_env =
     mock_env ''{}'' [(''http://api/chapters'', swapped_body)]
       [(''{}'', JObj []), (swapped_body, JObj [(''chapters'', JArr swapped_chapters)])]"

definition empty_world :: world where
  "empty_world = \<lparr>files = [], console = []\<rparr>"

text \<open>
  The API of the three chapters with one request that never ends, the Uthmani request of
  chapter 1; and a listing whose first entry is \<^verbatim>\<open>null\<close>.
\<close>

definition stalled_env :: env where
  "stalled_env =
     three_env\<lparr>http_get :=
       (\<lambda>p url. if url = ''http://api/quran/verses/uthmani?chapter_number=1'' then NoEnd
                 else http_get three_env p url)\<rparr>"

definition null_entry_body :: string where
  \<open>null_entry_body = ''{"chapters":[null,{"id":1,"name_simple":"A"}]}''\<close>

definition null_entry_env :: env where
  "null_entry_env =
     mock_env ''{}'' [(''http://api/chapters'', null_entry_body)]
       [(''{}'', JObj []),
        (null_entry_body,
         JObj [(''chapters'', JArr [JNull, JObj [(''id'', JNum 1), (''name_simple'', JStr ''A'')]])])]"

section \<open>Sample responses and URLs the aggregation or the request fails on\<close>

text \<open>
  An API that has the verses of chapter 1 for word language \<^verbatim>\<open>en\<close> and answers the
  Uthmani request with the JSON text \<^verbatim>\<open>null\<close>, every other request with the empty
  object.
\<close>

definition null_uthmani_env :: env where
  "null_uthmani_env =
     mock_env ''{}''
       [(sample_en_url, sample_body),
        (''http://api/quran/verses/uthmani?chapter_number=1'', ''null'')]
       [(''{}'', JObj []), (sample_body, sample_data), (''null'', JNull)]"

text \<open>
  The same API when it answers the request for word language \<^verbatim>\<open>id\<close> with the JSON
  text \<^verbatim>\<open>null\<close> instead.
\<close>

definition sample_id_url :: string where
  "sample_id_url = ''http://api/verses/by_chapter/1?language=id&words=true&word_fields=text_uthmani,translation,transliteration&translations=20,33&per_page=300''"

definition null_id_env :: env where
  "null_id_env =
     mock_env ''{}''
       [(sample_en_url, sample_body), (sample_id_url, ''null'')]
       [(''{}'', JObj []), (sample_body, sample_data), (''null'', JNull)]"


section \<open>File names\<close>

lemma bindE_simps [simp]:
  "bindE (Inl e) f = Inl e"
  "bindE (Inr x) f = f x"
  by (simp_all add: bindE_def)

lemma is_az09_hyphen [simp]: "\<not> is_az09 CHR ''-''"
  by (simp add: is_az09_def)

lemma dropWhile_replace_non_az09:
  "dropWhile (\<lambda>d. d = CHR ''-'') (replace_non_az09 cs) =
   replace_non_az09 (dropWhile (\<lambda>d. \<not> is_az09 d) cs)"
  by (induction cs) (auto simp: replace_non_az09_def)

lemma collapse_replace_squeeze:
  "collapse_hyphens (replace_non_az09 s) = squeeze_runs s"
proof (induction s rule: squeeze_runs.induct)
  case 1
  show ?case by (simp add: replace_non_az09_def)
next
  case (2 c cs)
  show ?case
  proof (cases "is_az09 c")
    case True
    then have "c \<noteq> CHR ''-''" by auto
    with True 2 show ?thesis by (simp add: replace_non_az09_def)
  next
    case False
    have "collapse_hyphens (replace_non_az09 (c # cs)) =
          CHR ''-'' # collapse_hyphens (dropWhile (\<lambda>d. d = CHR ''-'') (replace_non_az09 cs))"
      using False by (simp add: replace_non_az09_def)
    also have "\<dots> = CHR ''-'' # squeeze_runs (dropWhile (\<lambda>d. \<not> is_az09 d) cs)"
      using 2(2) [OF False] by (simp add: dropWhile_replace_non_az09)
    finally show ?thesis using False by simp
  qed
qed

lemma squeeze_runs_hd:
  "squeeze_runs (dropWhile (\<lambda>d. \<not> is_az09 d) cs) = [] \<or>
   hd (squeeze_runs (dropWhile (\<lambda>d. \<not> is_az09 d) cs)) \<noteq> CHR ''-''"
proof (cases "dropWhile (\<lambda>d. \<not> is_az09 d) cs")
  case Nil
  then show ?thesis by (simp only: squeeze_runs.simps simp_thms)
next
  case (Cons a as)
  then have "is_az09 a" using hd_dropWhile [of "\<lambda>d. \<not> is_az09 d" cs] by auto
  with Cons show ?thesis by auto
qed

lemma successively_squeeze_runs:
  "successively (\<lambda>a b. \<not> (a = CHR ''-'' \<and> b = CHR ''-'')) (squeeze_runs s)"
proof (induction s rule: squeeze_runs.induct)
  case 1
  show ?case by simp
next
  case (2 c cs)
  show ?case
  proof (cases "is_az09 c")
    case True
    then have "c \<noteq> CHR ''-''" by auto
    with True 2 show ?thesis by (simp add: successively_Cons)
  next
    case False
    with 2 squeeze_runs_hd [of cs] show ?thesis by (auto simp: successively_Cons)
  qed
qed

lemma dropWhile_hyphen_no_run:
  assumes "successively (\<lambda>a b. \<not> (a = CHR ''-'' \<and> b = CHR ''-'')) s"
  shows "dropWhile (\<lambda>d. d = CHR ''-'') s =
         (case s of [] \<Rightarrow> [] | c # cs \<Rightarrow> if c = CHR ''-'' then cs else s)"
proof (cases s)
  case Nil
  then show ?thesis by simp
next
  case (Cons c cs)
  show ?thesis
  proof (cases cs)
    case Nil
    with Cons show ?thesis by simp
  next
    case (Cons d ds)
    with \<open>s = c # cs\<close> assms show ?thesis by auto
  qed
qed

lemma successively_tl: "successively P s \<Longrightarrow> successively P (tl s)"
  by (cases s) (auto simp: successively_Cons)

lemma rev_dropWhile_hyphen_no_run:
  assumes "successively (\<lambda>a b. \<not> (a = CHR ''-'' \<and> b = CHR ''-'')) s"
  shows "rev (dropWhile (\<lambda>d. d = CHR ''-'') (rev s)) =
         (if s \<noteq> [] \<and> last s = CHR ''-'' then butlast s else s)"
proof -
  have r: "successively (\<lambda>a b. \<not> (a = CHR ''-'' \<and> b = CHR ''-'')) (rev s)"
  proof -
    have "(\<lambda>x y. \<not> (y = CHR ''-'' \<and> x = CHR ''-'')) = (\<lambda>a b. \<not> (a = CHR ''-'' \<and> b = CHR ''-''))"
      by (auto simp: fun_eq_iff)
    with assms show ?thesis by (simp only: successively_rev)
  qed
  show ?thesis
  proof (cases s rule: rev_cases)
    case Nil
    then show ?thesis by simp
  next
    case (snoc ys y)
    with dropWhile_hyphen_no_run [OF r] show ?thesis by simp
  qed
qed

lemma strip_trim:
  assumes "successively (\<lambda>a b. \<not> (a = CHR ''-'' \<and> b = CHR ''-'')) s"
  shows "strip_end_hyphens s = trim_hyphens s"
proof -
  let ?s1 = "case s of [] \<Rightarrow> [] | c # cs \<Rightarrow> if c = CHR ''-'' then cs else s"
  have s1: "dropWhile (\<lambda>d. d = CHR ''-'') s = ?s1"
    by (rule dropWhile_hyphen_no_run [OF assms])
  have "successively (\<lambda>a b. \<not> (a = CHR ''-'' \<and> b = CHR ''-'')) ?s1"
    using assms successively_tl [OF assms] by (cases s) auto
  from rev_dropWhile_hyphen_no_run [OF this] s1 show ?thesis
    by (simp add: strip_end_hyphens_def trim_hyphens_def Let_def)
qed

lemma sanitizeFilename_slug: "sanitizeFilename name = slug_spec name"
  by (simp add: sanitizeFilename_def slug_spec_def toLowerCase_def collapse_replace_squeeze
      strip_trim [OF successively_squeeze_runs])

lemma replicate_2: "replicate 2 c = [c, c]"
  by (simp add: numeral_2_eq_2)

lemma padStart_string_of_nat:
  assumes "n < 1000"
  shows "padStart 3 CHR ''0'' (string_of_nat n) = digit3 n"
proof -
  consider "n < 10" | "10 \<le> n" "n < 100" | "100 \<le> n" "n < 1000"
    using assms by linarith
  then show ?thesis
  proof cases
    case 1
    then show ?thesis
      by (simp add: string_of_nat.simps [of n] padStart_def digit3_def replicate_2)
  next
    case 2
    then have "n div 10 < 10" by simp
    with 2 show ?thesis
      by (simp add: string_of_nat.simps [of n] string_of_nat.simps [of "n div 10"]
          padStart_def digit3_def)
  next
    case 3
    then have a: "n div 10 div 10 < 10" "\<not> n div 10 < 10" by auto
    have b: "n div 10 div 10 = n div 100" by (simp add: div_mult2_eq)
    from 3 a b show ?thesis
      by (simp add: string_of_nat.simps [of n] string_of_nat.simps [of "n div 10"]
          string_of_nat.simps [of "n div 100"] padStart_def digit3_def)
  qed
qed

lemma sanitizeFilename_fatihah: "sanitizeFilename ''Al-Fatihah'' = ''al-fatihah''"
  by (simp add: sanitizeFilename_def toLowerCase_def replace_non_az09_def lower_char_def
      is_az09_def strip_end_hyphens_def)

lemma surahFilename_eq:
  assumes "js_get chapter ''id'' = Inr (JNum (int n))" and "n < 1000"
    and "js_get chapter ''name_simple'' = Inr (JStr name)"
  shows "surahFilename n2s chapter = Inr (digit3 n @ ''-'' @ slug_spec name @ ''.json'')"
  using assms
  by (simp add: surahFilename_def to_string_def num_string_def string_of_int_def
      padStart_string_of_nat sanitizeFilename_slug)

text \<open>
  Claim C7. For a chapter whose id is a number below 1000 (the chapters are numbered 1 to
  114) and whose simple name is a string, the name of the output file is the id written
  with three decimal digits, zeros in front, then a hyphen, the slug of the simple name and
  \<^verbatim>\<open>.json\<close>. The slug \<^verbatim>\<open>sanitizeFilename\<close> computes is the one the specification words:
  lower-case, every run of characters outside a-z and 0-9 replaced by one hyphen, hyphens
  at both ends trimmed. Chapter 1, Al-Fatihah, gets \<^verbatim>\<open>001-al-fatihah.json\<close>, and the file
  name of chapter 114 starts with \<^verbatim>\<open>114-\<close>.
\<close>

theorem filename_padded_id_and_slug:
  assumes "js_get chapter ''id'' = Inr (JNum (int n))" and "n < 1000"
    and "js_get chapter ''name_simple'' = Inr (JStr name)"
  shows "surahFilename n2s chapter = Inr (digit3 n @ ''-'' @ slug_spec name @ ''.json'')
       \<and> sanitizeFilename name = slug_spec name
       \<and> surahFilename n2s (JObj [(''id'', JNum 1), (''name_simple'', JStr ''Al-Fatihah'')])
           = Inr ''001-al-fatihah.json''
       \<and> (n = 114 \<longrightarrow> surahFilename n2s chapter = Inr (''114-'' @ sanitizeFilename name @ ''.json''))"
proof -
  have main: "surahFilename n2s chapter = Inr (digit3 n @ ''-'' @ slug_spec name @ ''.json'')"
    by (rule surahFilename_eq [OF assms])
  have slug: "sanitizeFilename name = slug_spec name"
    by (rule sanitizeFilename_slug)
  have "surahFilename n2s (JObj [(''id'', JNum 1), (''name_simple'', JStr ''Al-Fatihah'')])
          = Inr (digit3 1 @ ''-'' @ slug_spec ''Al-Fatihah'' @ ''.json'')"
    by (rule surahFilename_eq [where n = 1]) simp_all
  then have ex: "surahFilename n2s (JObj [(''id'', JNum 1), (''name_simple'', JStr ''Al-Fatihah'')])
          = Inr ''001-al-fatihah.json''"
    by (simp add: digit3_def sanitizeFilename_slug [symmetric] sanitizeFilename_fatihah)
  have "n = 114 \<longrightarrow> surahFilename n2s chapter = Inr (''114-'' @ sanitizeFilename name @ ''.json'')"
    using main by (simp add: digit3_def slug)
  with main slug ex show ?thesis by blast
qed

text \<open>
  Chapter 114, An-Nas: the hypotheses hold and the file is \<^verbatim>\<open>114-an-nas.json\<close>.
\<close>

theorem filename_padded_id_and_slug_witness:
  "js_get (JObj [(''id'', JNum 114), (''name_simple'', JStr ''An-Nas'')]) ''id'' = Inr (JNum (int 114))
   \<and> (114 :: nat) < 1000
   \<and> js_get (JObj [(''id'', JNum 114), (''name_simple'', JStr ''An-Nas'')]) ''name_simple''
       = Inr (JStr ''An-Nas'')
   \<and> surahFilename (\<lambda>i. ''1e+21'') (JObj [(''id'', JNum 114), (''name_simple'', JStr ''An-Nas'')])
       = Inr ''114-an-nas.json''"
proof -
  let ?c = "JObj [(''id'', JNum 114), (''name_simple'', JStr ''An-Nas'')]"
  have h1: "js_get ?c ''id'' = Inr (JNum (int 114))" by simp
  have h2: "(114 :: nat) < 1000" by simp
  have h3: "js_get ?c ''name_simple'' = Inr (JStr ''An-Nas'')" by simp
  have s: "sanitizeFilename ''An-Nas'' = ''an-nas''"
    by (simp add: sanitizeFilename_def toLowerCase_def replace_non_az09_def lower_char_def
        is_az09_def strip_end_hyphens_def)
  from filename_padded_id_and_slug [OF h1 h2 h3, of "\<lambda>i. ''1e+21''"]
  have "surahFilename (\<lambda>i. ''1e+21'') ?c = Inr (''114-'' @ sanitizeFilename ''An-Nas'' @ ''.json'')" by blast
  with h1 h2 h3 s show ?thesis by simp
qed

section \<open>Errors as values: the array methods and the loop\<close>

lemma bindE_eq_Inr: "bindE m f = Inr y \<longleftrightarrow> (\<exists>x. m = Inr x \<and> f x = Inr y)"
  by (cases m) auto

lemma mapE_Inr_D:
  "mapE f xs = Inr ys \<Longrightarrow> length ys = length xs \<and> (\<forall>i<length xs. f (xs ! i) = Inr (ys ! i))"
proof (induction xs arbitrary: ys)
  case Nil
  then show ?case by simp
next
  case (Cons x xs)
  from Cons.prems obtain y ys' where y: "f x = Inr y" and r: "mapE f xs = Inr ys'" and e: "ys = y # ys'"
    by (auto simp: bindE_eq_Inr)
  from Cons.IH [OF r] y e show ?case by (auto simp: nth_Cons split: nat.splits)
qed

lemma mapE_total:
  "(\<And>x. x \<in> set xs \<Longrightarrow> f x = Inr (g x)) \<Longrightarrow> mapE f xs = Inr (map g xs)"
  by (induction xs) auto

lemma mapE_exists:
  "(\<And>x. x \<in> set xs \<Longrightarrow> \<exists>y. f x = Inr y) \<Longrightarrow> \<exists>ys. mapE f xs = Inr ys"
proof (induction xs)
  case Nil
  show ?case by simp
next
  case (Cons x xs)
  from Cons.prems obtain y where y: "f x = Inr y" by auto
  from Cons obtain ys where "mapE f xs = Inr ys" by auto
  with y show ?case by simp
qed

lemma filterE_total:
  "(\<And>x. x \<in> set xs \<Longrightarrow> p x = Inr (q x)) \<Longrightarrow> filterE p xs = Inr (filter q xs)"
  by (induction xs) auto

lemma filterE_Inr_D:
  "filterE p xs = Inr ys \<Longrightarrow> ys = filter (\<lambda>x. p x = Inr True) xs"
proof (induction xs arbitrary: ys)
  case Nil
  then show ?case by simp
next
  case (Cons x xs)
  from Cons.prems obtain b r where b: "p x = Inr b" and r: "filterE p xs = Inr r"
    and e: "ys = (if b then x # r else r)"
    by (auto simp: bindE_eq_Inr)
  from Cons.IH [OF r] b e show ?case by auto
qed

lemma findE_total:
  "(\<And>x. x \<in> set xs \<Longrightarrow> p x = Inr (q x)) \<Longrightarrow>
   findE p xs = Inr (case find q xs of Some x \<Rightarrow> x | None \<Rightarrow> JUndefined)"
  by (induction xs) auto

lemma findE_Inr_D:
  "findE p xs = Inr r \<Longrightarrow>
   r = (case find (\<lambda>x. p x = Inr True) xs of Some x \<Rightarrow> x | None \<Rightarrow> JUndefined)"
proof (induction xs)
  case Nil
  then show ?case by simp
next
  case (Cons x xs)
  from Cons.prems obtain b where b: "p x = Inr b" and r: "(if b then Inr x else findE p xs) = Inr r"
    by (auto simp: bindE_eq_Inr)
  with Cons.IH show ?case by (cases b) auto
qed

lemma ayahs_loop_mapE:
  "ayahs_loop body n i acc = bindE (mapE body [i..<n]) (\<lambda>ys. Inr (acc @ ys))"
proof (induction body n i acc rule: ayahs_loop.induct)
  case (1 body n i acc)
  show ?case
  proof (cases "i < n")
    case True
    then have u: "[i..<n] = i # [Suc i..<n]" by (simp add: upt_conv_Cons)
    show ?thesis
    proof (cases "body i")
      case (Inl e)
      with True u show ?thesis by (simp add: ayahs_loop.simps [of body n i acc])
    next
      case (Inr a)
      with True u 1 [OF True] show ?thesis
        by (cases "mapE body [Suc i..<n]") (simp_all add: ayahs_loop.simps [of body n i acc])
    qed
  next
    case False
    then show ?thesis by (simp add: ayahs_loop.simps [of body n i acc])
  qed
qed

lemma ayahs_loop_Inr_D:
  assumes "ayahs_loop body n 0 [] = Inr ays"
  shows "length ays = n \<and> (\<forall>i<n. body i = Inr (ays ! i))"
proof -
  from assms have "mapE body [0..<n] = Inr ays"
    by (simp add: ayahs_loop_mapE bindE_eq_Inr)
  from mapE_Inr_D [OF this] show ?thesis by simp
qed

lemma ayahs_loop_exists:
  assumes "\<And>i. i < n \<Longrightarrow> \<exists>a. body i = Inr a"
  shows "\<exists>ays. ayahs_loop body n 0 [] = Inr ays"
proof -
  have "\<exists>ays. mapE body [0..<n] = Inr ays"
    by (rule mapE_exists) (simp add: assms)
  then show ?thesis by (auto simp: ayahs_loop_mapE)
qed

section \<open>Reading values\<close>

lemma js_get_opt: "\<not> nullish v \<Longrightarrow> js_get v p = Inr (js_opt_get v p)"
  by (cases v) (auto simp: nullish_def)

lemma js_get_Inr_opt: "js_get v p = Inr x \<Longrightarrow> js_opt_get v p = x \<and> \<not> nullish v"
  by (cases v) (auto simp: nullish_def)

lemma truthy_not_nullish: "truthy v \<Longrightarrow> \<not> nullish v"
  by (cases v) (auto simp: nullish_def)

lemma js_index_truthy: "truthy v \<Longrightarrow> \<exists>x. js_index v i = Inr x"
  by (cases v) auto

lemma truthy_js_or_arr [simp]: "truthy (js_or v (JArr xs))"
  by (simp add: js_or_def)

section \<open>What a successful turn of the loop has computed\<close>

lemma buildAyah_Inr_D:
  assumes "buildAyah vE vI vU vM vT i = Inr a"
  shows "\<exists>verseEn vId uthmani imlaei tajweed tr tEn tId.
           js_index vE i = Inr verseEn \<and> js_index vI i = Inr vId \<and>
           js_index vU i = Inr uthmani \<and> js_index vM i = Inr imlaei \<and>
           js_index vT i = Inr tajweed \<and>
           buildWords wordEn verseEn = Inr (words_en a) \<and>
           buildWords wordId (js_or vId verseEn) = Inr (words_id a) \<and>
           js_get verseEn ''translations'' = Inr tr \<and>
           js_find (js_or tr (JArr [])) (has_resource_id 20) = Inr tEn \<and>
           js_find (js_or tr (JArr [])) (has_resource_id 33) = Inr tId \<and>
           translations_en a = js_or (js_opt_get tEn ''text'') (JStr []) \<and>
           translations_id a = js_or (js_opt_get tId ''text'') (JStr []) \<and>
           js_get verseEn ''id'' = Inr (ayah_id a) \<and>
           js_get verseEn ''verse_number'' = Inr (verse_number a) \<and>
           js_get verseEn ''verse_key'' = Inr (verse_key a) \<and>
           text_arabic_simple a = js_or (js_opt_get imlaei ''text_imlaei'') (JStr []) \<and>
           text_arabic_uthmani a = js_or (js_opt_get uthmani ''text_uthmani'') (JStr []) \<and>
           text_arabic_tajweed a = js_or (js_opt_get tajweed ''text_uthmani_tajweed'') (JStr [])"
  using assms
  unfolding buildAyah_def Let_def TRANSLATION_IDS_english_def TRANSLATION_IDS_indonesian_def
  by (auto simp: bindE_eq_Inr)

section \<open>When the aggregation succeeds\<close>

lemma wordEn_exists: "\<not> nullish w \<Longrightarrow> \<exists>s. wordEn w = Inr s"
  by (simp add: wordEn_def js_get_opt)

lemma wordId_exists: "\<not> nullish w \<Longrightarrow> \<exists>s. wordId w = Inr s"
  by (simp add: wordId_def js_get_opt)

lemma is_word_tagged: "is_word w = Inr True \<longleftrightarrow> word_tagged w"
  by (cases "js_get w ''char_type_name''") (auto simp: is_word_def word_tagged_def)

lemma word_tagged_not_nullish: "word_tagged w \<Longrightarrow> \<not> nullish w"
  by (cases w) (auto simp: word_tagged_def nullish_def)

lemma buildWords_arr_D:
  assumes "buildWords mk v = Inr r" and "js_get v ''words'' = Inr (JArr ws)"
  shows "mapE mk (filter word_tagged ws) = Inr r"
proof -
  from assms obtain kept where k: "filterE is_word ws = Inr kept" and m: "mapE mk kept = Inr r"
    by (auto simp: buildWords_def bindE_eq_Inr js_or_def)
  from filterE_Inr_D [OF k] have "kept = filter word_tagged ws"
    by (simp add: is_word_tagged)
  with m show ?thesis by simp
qed

lemma buildWords_falsy:
  assumes "js_get v ''words'' = Inr ws" and "\<not> truthy ws"
  shows "buildWords mk v = Inr []"
  using assms by (simp add: buildWords_def js_or_def)

lemma buildWords_exists:
  assumes v: "\<not> nullish v" and ok: "items_ok (js_opt_get v ''words'')"
    and mk: "\<And>w. \<not> nullish w \<Longrightarrow> \<exists>s. mk w = Inr s"
  shows "\<exists>r. buildWords mk v = Inr r"
proof (cases "js_opt_get v ''words''")
  case (JArr xs)
  with ok have nn: "\<And>x. x \<in> set xs \<Longrightarrow> \<not> nullish x"
    by (simp add: items_ok_def list_all_iff)
  have f: "filterE is_word xs = Inr (filter (\<lambda>w. js_opt_get w ''char_type_name'' = JStr ''word'') xs)"
    by (rule filterE_total) (simp add: is_word_def js_get_opt nn)
  have "\<exists>r. mapE mk (filter (\<lambda>w. js_opt_get w ''char_type_name'' = JStr ''word'') xs) = Inr r"
    by (rule mapE_exists) (simp add: mk nn)
  with f JArr v show ?thesis
    by (simp add: buildWords_def js_get_opt js_or_def)
qed (use v ok in \<open>simp_all add: buildWords_def js_get_opt js_or_def items_ok_def\<close>)

lemma js_find_exists:
  assumes "items_ok tr"
  shows "\<exists>r. js_find (js_or tr (JArr [])) (has_resource_id n) = Inr r"
proof (cases tr)
  case (JArr xs)
  with assms have nn: "\<And>x. x \<in> set xs \<Longrightarrow> \<not> nullish x"
    by (simp add: items_ok_def list_all_iff)
  have "findE (has_resource_id n) xs =
        Inr (case find (\<lambda>t. js_opt_get t ''resource_id'' = JNum n) xs of Some x \<Rightarrow> x | None \<Rightarrow> JUndefined)"
    by (rule findE_total) (simp add: has_resource_id_def js_get_opt nn)
  with JArr show ?thesis by (simp add: js_or_def)
qed (use assms in \<open>simp_all add: js_or_def items_ok_def\<close>)

lemma buildAyah_exists:
  assumes i: "i < length vs" and en: "verse_ok (vs ! i)"
    and t: "truthy vI" "truthy vU" "truthy vM" "truthy vT"
    and idok: "\<And>v. js_index vI i = Inr v \<Longrightarrow> verseId_ok v"
  shows "\<exists>a. buildAyah (JArr vs) vI vU vM vT i = Inr a"
proof -
  let ?vE = "vs ! i"
  from en have nn: "\<not> nullish ?vE" and w: "items_ok (js_opt_get ?vE ''words'')"
    and tr: "items_ok (js_opt_get ?vE ''translations'')"
    by (simp_all add: verse_ok_def)
  from js_index_truthy t obtain vId uth iml taj where
    ix: "js_index vI i = Inr vId" "js_index vU i = Inr uth" "js_index vM i = Inr iml"
        "js_index vT i = Inr taj"
    by metis
  from buildWords_exists [where mk = wordEn, OF nn w wordEn_exists] obtain wE where wE: "buildWords wordEn ?vE = Inr wE"
    by auto
  have "\<exists>r. buildWords wordId (js_or vId ?vE) = Inr r"
  proof (cases "truthy vId")
    case True
    with idok [OF ix(1)] have "items_ok (js_opt_get vId ''words'')" by (simp add: verseId_ok_def)
    from buildWords_exists [where mk = wordId, OF truthy_not_nullish [OF True] this wordId_exists] True
    show ?thesis by (simp add: js_or_def)
  next
    case False
    with buildWords_exists [where mk = wordId, OF nn w wordId_exists] show ?thesis by (simp add: js_or_def)
  qed
  then obtain wI where wI: "buildWords wordId (js_or vId ?vE) = Inr wI" by auto
  from js_find_exists [OF tr] obtain tE where
    tE: "js_find (js_or (js_opt_get ?vE ''translations'') (JArr [])) (has_resource_id 20) = Inr tE"
    by auto
  from js_find_exists [OF tr] obtain tI where
    tI: "js_find (js_or (js_opt_get ?vE ''translations'') (JArr [])) (has_resource_id 33) = Inr tI"
    by auto
  from i ix wE wI tE tI nn show ?thesis
    by (simp add: buildAyah_def Let_def js_get_opt TRANSLATION_IDS_english_def
        TRANSLATION_IDS_indonesian_def)
qed

lemma versesId_entry_ok:
  assumes "versesId_ok d" and "js_index (js_or (js_opt_get d ''verses'') (JArr [])) i = Inr v"
  shows "verseId_ok v"
proof (cases "js_opt_get d ''verses''")
  case (JArr xs)
  with assms show ?thesis
    by (auto simp: versesId_ok_def js_or_def list_all_length verseId_ok_def split: if_splits)
qed (use assms in \<open>auto simp: versesId_ok_def js_or_def verseId_ok_def\<close>)

lemma to_number_num [simp]: "to_number s2n n2s (JNum n) = Inr (Some n)"
  by simp

lemma buildAyahs_unfold:
  assumes "js_get eD ''verses'' = Inr (JArr vs)"
    and "\<not> nullish iD" "\<not> nullish uD" "\<not> nullish mD" "\<not> nullish tD"
  shows "buildAyahs env eD iD uD mD tD =
         ayahs_loop (buildAyah (JArr vs) (js_or (js_opt_get iD ''verses'') (JArr []))
            (js_or (js_opt_get uD ''verses'') (JArr [])) (js_or (js_opt_get mD ''verses'') (JArr []))
            (js_or (js_opt_get tD ''verses'') (JArr []))) (length vs) 0 []"
  using assms by (simp add: buildAyahs_def js_get_opt js_or_def loop_bound_def Let_def)

lemma buildAyahs_exists:
  assumes en: "js_get eD ''verses'' = Inr (JArr vs)" and ok: "list_all verse_ok vs"
    and nn: "versesId_ok iD" "\<not> nullish uD" "\<not> nullish mD" "\<not> nullish tD"
  shows "\<exists>ays. buildAyahs env eD iD uD mD tD = Inr ays"
proof -
  from nn(1) have ni: "\<not> nullish iD" by (simp add: versesId_ok_def)
  have "\<exists>ays. ayahs_loop (buildAyah (JArr vs) (js_or (js_opt_get iD ''verses'') (JArr []))
            (js_or (js_opt_get uD ''verses'') (JArr [])) (js_or (js_opt_get mD ''verses'') (JArr []))
            (js_or (js_opt_get tD ''verses'') (JArr []))) (length vs) 0 [] = Inr ays"
  proof (rule ayahs_loop_exists)
    fix i assume i: "i < length vs"
    with ok have "verse_ok (vs ! i)" by (simp add: list_all_length)
    from buildAyah_exists [OF i this _ _ _ _ versesId_entry_ok [OF nn(1)]]
    show "\<exists>a. buildAyah (JArr vs) (js_or (js_opt_get iD ''verses'') (JArr []))
            (js_or (js_opt_get uD ''verses'') (JArr [])) (js_or (js_opt_get mD ''verses'') (JArr []))
            (js_or (js_opt_get tD ''verses'') (JArr [])) i = Inr a"
      by simp
  qed
  then show ?thesis by (simp add: buildAyahs_unfold [OF en ni nn(2-4)])
qed

lemma buildAyahs_Inr_D:
  assumes b: "buildAyahs env eD iD uD mD tD = Inr ays" and en: "js_get eD ''verses'' = Inr (JArr vs)"
  shows "length ays = length vs \<and>
         (\<forall>i<length vs. buildAyah (JArr vs) (js_or (js_opt_get iD ''verses'') (JArr []))
            (js_or (js_opt_get uD ''verses'') (JArr [])) (js_or (js_opt_get mD ''verses'') (JArr []))
            (js_or (js_opt_get tD ''verses'') (JArr [])) i = Inr (ays ! i))"
proof -
  from b obtain vI vU vM vT where g: "js_get iD ''verses'' = Inr vI" "js_get uD ''verses'' = Inr vU"
    "js_get mD ''verses'' = Inr vM" "js_get tD ''verses'' = Inr vT"
    by (auto simp: buildAyahs_def bindE_eq_Inr)
  then have nn: "\<not> nullish iD" "\<not> nullish uD" "\<not> nullish mD" "\<not> nullish tD"
    by (auto dest: js_get_Inr_opt)
  from b have "ayahs_loop (buildAyah (JArr vs) (js_or (js_opt_get iD ''verses'') (JArr []))
            (js_or (js_opt_get uD ''verses'') (JArr [])) (js_or (js_opt_get mD ''verses'') (JArr []))
            (js_or (js_opt_get tD ''verses'') (JArr []))) (length vs) 0 [] = Inr ays"
    by (simp add: buildAyahs_unfold [OF en nn])
  from ayahs_loop_Inr_D [OF this] show ?thesis .
qed

lemma no_verse_at_index:
  "no_verse_at d i \<Longrightarrow>
   \<exists>v. js_index (js_or (js_opt_get d ''verses'') (JArr [])) i = Inr v \<and> \<not> truthy v"
  by (cases "js_opt_get d ''verses''") (auto simp: no_verse_at_def js_or_def)

lemma falsy_opt_get: "\<not> truthy v \<Longrightarrow> js_opt_get v p = JUndefined"
  by (cases v) auto

section \<open>buildSurahData from its five responses\<close>

lemma settle_simps [simp]:
  "settle (Inl e) = Rejected e"
  "settle (Inr x) = Resolved x"
  by (simp_all add: settle_def)

lemma settle_eq [simp]:
  "settle r = Resolved x \<longleftrightarrow> r = Inr x"
  "settle r = Rejected e \<longleftrightarrow> r = Inl e"
  "Resolved x = settle r \<longleftrightarrow> r = Inr x"
  "Rejected e = settle r \<longleftrightarrow> r = Inl e"
  "settle r \<noteq> Pending"
  by (cases r; auto)+

lemma surahDocument_exists:
  assumes "\<not> nullish chapter"
  shows "\<exists>d. surahDocument env baseUrl chapter ays = Inr d \<and> ayahs d = ays \<and>
             total_ayahs (stats d) = length ays"
  using assms by (simp add: surahDocument_def js_get_opt)

lemma fetched_D:
  assumes "fetched env baseUrl chapter uD mD tD eD iD"
  shows "snd (buildSurahData env baseUrl chapter) =
         settle (bindE (buildAyahs env eD iD uD mD tD) (surahDocument env baseUrl chapter))
         \<and> \<not> nullish chapter"
  using assms
  by (auto simp: fetched_def buildSurahData_def Let_def dest: js_get_Inr_opt split: sum.splits)

lemma surahDocument_ayahs: "surahDocument env baseUrl chapter ays = Inr d \<Longrightarrow> ayahs d = ays"
  by (auto simp: surahDocument_def bindE_eq_Inr)

lemma built_ayahs:
  assumes f: "fetched env baseUrl chapter uD mD tD eD iD"
    and d: "snd (buildSurahData env baseUrl chapter) = Resolved d"
  shows "buildAyahs env eD iD uD mD tD = Inr (ayahs d)"
proof -
  from fetched_D [OF f] d
  have "bindE (buildAyahs env eD iD uD mD tD) (surahDocument env baseUrl chapter) = Inr d"
    by simp
  then obtain ays where a: "buildAyahs env eD iD uD mD tD = Inr ays"
    and s: "surahDocument env baseUrl chapter ays = Inr d"
    by (auto simp: bindE_eq_Inr)
  from surahDocument_ayahs [OF s] a show ?thesis by simp
qed

lemma built_ayah:
  assumes f: "fetched env baseUrl chapter uD mD tD eD iD"
    and d: "snd (buildSurahData env baseUrl chapter) = Resolved d"
    and en: "js_get eD ''verses'' = Inr (JArr vs)"
  shows "length (ayahs d) = length vs \<and>
         (\<forall>i<length vs. buildAyah (JArr vs) (js_or (js_opt_get iD ''verses'') (JArr []))
            (js_or (js_opt_get uD ''verses'') (JArr [])) (js_or (js_opt_get mD ''verses'') (JArr []))
            (js_or (js_opt_get tD ''verses'') (JArr [])) i = Inr (ayahs d ! i))"
  by (rule buildAyahs_Inr_D [OF built_ayahs [OF f d] en])

lemma buildSurahData_exists:
  assumes f: "fetched env baseUrl chapter uD mD tD eD iD"
    and en: "js_get eD ''verses'' = Inr (JArr vs)" and ok: "list_all verse_ok vs"
    and nn: "versesId_ok iD" "\<not> nullish uD" "\<not> nullish mD" "\<not> nullish tD"
  shows "\<exists>d. snd (buildSurahData env baseUrl chapter) = Resolved d"
proof -
  from buildAyahs_exists [OF en ok nn] obtain ays where a: "buildAyahs env eD iD uD mD tD = Inr ays"
    by blast
  from fetched_D [OF f] have c: "\<not> nullish chapter" by simp
  from surahDocument_exists [OF c] obtain d where "surahDocument env baseUrl chapter ays = Inr d"
    by blast
  with a fetched_D [OF f] show ?thesis by simp
qed

lemma sample_get_http:
  assumes "startsWith baseUrl ''http://''"
  shows "sample_get answer (if startsWith (baseUrl @ r) ''https'' then Https else Http) (baseUrl @ r)
           = answer (baseUrl @ r)"
proof -
  from assms obtain t where t: "baseUrl = ''http://'' @ t"
    unfolding startsWith_def by (metis append_take_drop_id)
  have a: "module_accepts Http (''http://'' @ t @ r)"
    by (simp add: module_accepts_def toLowerCase_def lower_char_def)
  have b: "\<not> startsWith (''http://'' @ t @ r) ''https''"
    by (simp add: startsWith_def)
  from a b show ?thesis by (simp add: t sample_get_def)
qed

lemma fetchJSON_mock:
  "startsWith baseUrl ''http://'' \<Longrightarrow> map_of table body = Some v \<Longrightarrow>
   fetchJSON (mock_env body [] table) (baseUrl @ r) = Resolved v"
  by (simp add: fetchJSON_def mock_env_def sample_get_http)

lemma fetched_mock:
  assumes "js_get chapter ''id'' = Inr cid" and "convertible cid" and "map_of table body = Some v"
    and "startsWith baseUrl ''http://''"
  shows "fetched (mock_env body [] table) baseUrl chapter v v v v v"
  using assms
  by (simp add: fetched_def fetchUthmaniText_def fetchImlaeiText_def fetchUthmaniTajweedText_def
      fetchVersesWithWords_def fetchJSON_mock Let_def to_string_def)

lemma fetched_en_only:
  assumes "body \<noteq> ''{}''"
  shows "fetched (en_only_env body data) ''http://api'' (JObj [(''id'', JNum 1)])
           (JObj []) (JObj []) (JObj []) data (JObj [])"
  using assms
  by (simp add: fetched_def fetchUthmaniText_def fetchImlaeiText_def fetchUthmaniTajweedText_def
      fetchVersesWithWords_def fetchJSON_def en_only_env_def mock_env_def sample_get_def module_accepts_def toLowerCase_def lower_char_def Let_def startsWith_def
      to_string_def num_string_def string_of_int_def string_of_nat.simps TRANSLATION_IDS_english_def
      TRANSLATION_IDS_indonesian_def sample_en_url_def)

lemma buildWords_tokens:
  assumes "buildWords mk v = Inr r"
  shows "mapE mk (word_tokens v) = Inr r"
proof -
  from assms obtain ws where g: "js_get v ''words'' = Inr ws"
    by (auto simp: buildWords_def bindE_eq_Inr)
  from js_get_Inr_opt [OF g] have o: "js_opt_get v ''words'' = ws" by simp
  show ?thesis
  proof (cases "\<exists>xs. ws = JArr xs")
    case True
    then obtain xs where "ws = JArr xs" by blast
    with buildWords_arr_D [OF assms] g o show ?thesis by (simp add: word_tokens_def)
  next
    case False
    with assms g have "js_filter (js_or ws (JArr [])) is_word = Inr [] \<or> \<not> truthy ws \<or> truthy ws"
      by simp
    show ?thesis
    proof (cases "truthy ws")
      case True
      with False assms g have False
        by (cases ws) (auto simp: buildWords_def js_or_def)
      then show ?thesis ..
    next
      case f: False
      from buildWords_falsy [OF g f] assms have "r = []" by simp
      with False o show ?thesis by (cases ws) (auto simp: word_tokens_def)
    qed
  qed
qed

lemma sample_tokens:
  "word_tokens sample_verse = [JObj [(''char_type_name'', JStr ''word''), (''position'', JNum 1)]]"
  by (simp add: word_tokens_def sample_verse_def word_tagged_def)

lemma absent_text_default:
  assumes "js_index (js_or (js_opt_get d ''verses'') (JArr [])) i = Inr x" and "no_verse_at d i"
  shows "js_or (js_opt_get x p) (JStr []) = JStr []"
  using assms no_verse_at_index [of d i] by (auto simp: js_or_def falsy_opt_get)

text \<open>
  Claim C1, as amended. When the five fetches of a chapter resolve with JSON values other
  than \<^verbatim>\<open>null\<close>, the response for word language \<^verbatim>\<open>en\<close> has a verse array whose
  verses are not \<^verbatim>\<open>null\<close> and have \<^verbatim>\<open>words\<close> and \<^verbatim>\<open>translations\<close> that are each
  missing (or falsy) or an array without \<^verbatim>\<open>null\<close> entries, and the verses present in
  the second word-language response have \<^verbatim>\<open>words\<close> of that kind too, then
  \<^verbatim>\<open>buildSurahData\<close> does not throw and returns as many ayahs as the \<^verbatim>\<open>en\<close>
  verse array has entries, whatever the lengths of the other four arrays and also when
  their \<^verbatim>\<open>verses\<close> field is absent. Where one of the three Arabic responses has no
  verse at an index, its text field is the empty string. Where the second word-language
  response has no verse at an index, \<^verbatim>\<open>words.id\<close> is not empty by default: it is built
  from the primary verse, and is empty only when that verse has no word tokens. A primary
  verse without \<^verbatim>\<open>words\<close> gives an empty \<^verbatim>\<open>words.en\<close>, and one without
  \<^verbatim>\<open>translations\<close> gives two empty translation strings.
\<close>

theorem aggregate_length_and_defaults:
  assumes f: "fetched env baseUrl chapter uthmaniData imlaeiData tajweedData versesEnData versesIdData"
    and en: "js_get versesEnData ''verses'' = Inr (JArr vs)"
    and ok: "list_all verse_ok vs"
    and nn: "versesId_ok versesIdData" "\<not> nullish uthmaniData" "\<not> nullish imlaeiData"
            "\<not> nullish tajweedData"
  shows "\<exists>d. snd (buildSurahData env baseUrl chapter) = Resolved d
           \<and> length (ayahs d) = length vs
           \<and> total_ayahs (stats d) = length vs
           \<and> (\<forall>i<length vs.
                (no_verse_at uthmaniData i \<longrightarrow> text_arabic_uthmani (ayahs d ! i) = JStr [])
              \<and> (no_verse_at imlaeiData i \<longrightarrow> text_arabic_simple (ayahs d ! i) = JStr [])
              \<and> (no_verse_at tajweedData i \<longrightarrow> text_arabic_tajweed (ayahs d ! i) = JStr [])
              \<and> (no_verse_at versesIdData i
                   \<longrightarrow> buildWords wordId (vs ! i) = Inr (words_id (ayahs d ! i)) \<and>
                       length (words_id (ayahs d ! i)) = length (word_tokens (vs ! i)))
              \<and> (js_opt_get (vs ! i) ''words'' = JUndefined \<longrightarrow> words_en (ayahs d ! i) = [])
              \<and> (js_opt_get (vs ! i) ''words'' = JUndefined \<and> no_verse_at versesIdData i
                   \<longrightarrow> words_id (ayahs d ! i) = [])
              \<and> (js_opt_get (vs ! i) ''translations'' = JUndefined
                   \<longrightarrow> translations_en (ayahs d ! i) = JStr [] \<and>
                       translations_id (ayahs d ! i) = JStr []))"
proof -
  from buildSurahData_exists [OF f en ok nn] obtain d
    where d: "snd (buildSurahData env baseUrl chapter) = Resolved d" by blast
  from built_ayah [OF f d en] have len: "length (ayahs d) = length vs"
    and each: "\<And>i. i < length vs \<Longrightarrow>
        buildAyah (JArr vs) (js_or (js_opt_get versesIdData ''verses'') (JArr []))
          (js_or (js_opt_get uthmaniData ''verses'') (JArr []))
          (js_or (js_opt_get imlaeiData ''verses'') (JArr []))
          (js_or (js_opt_get tajweedData ''verses'') (JArr [])) i = Inr (ayahs d ! i)"
    by simp_all
  from fetched_D [OF f] d
  have "bindE (buildAyahs env versesEnData versesIdData uthmaniData imlaeiData tajweedData)
          (surahDocument env baseUrl chapter) = Inr d"
    by simp
  then obtain ays where "surahDocument env baseUrl chapter ays = Inr d"
    by (auto simp: bindE_eq_Inr)
  then have st: "total_ayahs (stats d) = length (ayahs d)"
    by (auto simp: surahDocument_def bindE_eq_Inr)
  have "(no_verse_at uthmaniData i \<longrightarrow> text_arabic_uthmani (ayahs d ! i) = JStr [])
      \<and> (no_verse_at imlaeiData i \<longrightarrow> text_arabic_simple (ayahs d ! i) = JStr [])
      \<and> (no_verse_at tajweedData i \<longrightarrow> text_arabic_tajweed (ayahs d ! i) = JStr [])
      \<and> (no_verse_at versesIdData i
           \<longrightarrow> buildWords wordId (vs ! i) = Inr (words_id (ayahs d ! i)) \<and>
               length (words_id (ayahs d ! i)) = length (word_tokens (vs ! i)))
      \<and> (js_opt_get (vs ! i) ''words'' = JUndefined \<longrightarrow> words_en (ayahs d ! i) = [])
      \<and> (js_opt_get (vs ! i) ''words'' = JUndefined \<and> no_verse_at versesIdData i
           \<longrightarrow> words_id (ayahs d ! i) = [])
      \<and> (js_opt_get (vs ! i) ''translations'' = JUndefined
           \<longrightarrow> translations_en (ayahs d ! i) = JStr [] \<and> translations_id (ayahs d ! i) = JStr [])"
    if i: "i < length vs" for i
  proof -
    from buildAyah_Inr_D [OF each [OF i]] i obtain vId uth iml taj tr tEn tId where
      ix: "js_index (js_or (js_opt_get versesIdData ''verses'') (JArr [])) i = Inr vId"
          "js_index (js_or (js_opt_get uthmaniData ''verses'') (JArr [])) i = Inr uth"
          "js_index (js_or (js_opt_get imlaeiData ''verses'') (JArr [])) i = Inr iml"
          "js_index (js_or (js_opt_get tajweedData ''verses'') (JArr [])) i = Inr taj"
      and w: "buildWords wordEn (vs ! i) = Inr (words_en (ayahs d ! i))"
             "buildWords wordId (js_or vId (vs ! i)) = Inr (words_id (ayahs d ! i))"
      and t: "js_get (vs ! i) ''translations'' = Inr tr"
             "js_find (js_or tr (JArr [])) (has_resource_id 20) = Inr tEn"
             "js_find (js_or tr (JArr [])) (has_resource_id 33) = Inr tId"
             "translations_en (ayahs d ! i) = js_or (js_opt_get tEn ''text'') (JStr [])"
             "translations_id (ayahs d ! i) = js_or (js_opt_get tId ''text'') (JStr [])"
      and x: "text_arabic_simple (ayahs d ! i) = js_or (js_opt_get iml ''text_imlaei'') (JStr [])"
             "text_arabic_uthmani (ayahs d ! i) = js_or (js_opt_get uth ''text_uthmani'') (JStr [])"
             "text_arabic_tajweed (ayahs d ! i) =
                js_or (js_opt_get taj ''text_uthmani_tajweed'') (JStr [])"
      by auto
    from ok i have nnv: "\<not> nullish (vs ! i)" by (simp add: list_all_length verse_ok_def)
    have a1: "no_verse_at uthmaniData i \<longrightarrow> text_arabic_uthmani (ayahs d ! i) = JStr []"
      using absent_text_default [OF ix(2)] x(2) by simp
    have a2: "no_verse_at imlaeiData i \<longrightarrow> text_arabic_simple (ayahs d ! i) = JStr []"
      using absent_text_default [OF ix(3)] x(1) by simp
    have a3: "no_verse_at tajweedData i \<longrightarrow> text_arabic_tajweed (ayahs d ! i) = JStr []"
      using absent_text_default [OF ix(4)] x(3) by simp
    have a4: "js_opt_get (vs ! i) ''words'' = JUndefined \<longrightarrow> words_en (ayahs d ! i) = []"
      using w(1) buildWords_falsy [of "vs ! i" JUndefined wordEn] nnv by (auto simp: js_get_opt)
    have a5: "js_opt_get (vs ! i) ''words'' = JUndefined \<and> no_verse_at versesIdData i
                \<longrightarrow> words_id (ayahs d ! i) = []"
      using w(2) ix(1) no_verse_at_index [of versesIdData i]
        buildWords_falsy [of "vs ! i" JUndefined wordId] nnv
      by (auto simp: js_get_opt js_or_def)
    have a6: "js_opt_get (vs ! i) ''translations'' = JUndefined
                \<longrightarrow> translations_en (ayahs d ! i) = JStr [] \<and> translations_id (ayahs d ! i) = JStr []"
      using t nnv by (auto simp: js_get_opt js_or_def)
    have a7: "no_verse_at versesIdData i
                \<longrightarrow> buildWords wordId (vs ! i) = Inr (words_id (ayahs d ! i)) \<and>
                    length (words_id (ayahs d ! i)) = length (word_tokens (vs ! i))"
    proof
      assume n: "no_verse_at versesIdData i"
      from w(2) ix(1) no_verse_at_index [OF n]
      have b: "buildWords wordId (vs ! i) = Inr (words_id (ayahs d ! i))"
        by (auto simp: js_or_def)
      from mapE_Inr_D [OF buildWords_tokens [OF b]] b
      show "buildWords wordId (vs ! i) = Inr (words_id (ayahs d ! i)) \<and>
            length (words_id (ayahs d ! i)) = length (word_tokens (vs ! i))"
        by simp
    qed
    from a1 a2 a3 a4 a5 a6 a7 show ?thesis by blast
  qed
  with d len st show ?thesis by (intro exI [of _ d]) simp
qed

text \<open>
  A run in which only the \<^verbatim>\<open>en\<close> request has verses (one verse) and the other four
  responses are the empty object: one ayah comes out, its three Arabic texts empty.
\<close>

theorem aggregate_length_and_defaults_witness:
  "fetched (en_only_env sample_body sample_data)
     ''http://api'' (JObj [(''id'', JNum 1)]) (JObj []) (JObj []) (JObj []) sample_data (JObj [])
   \<and> js_get sample_data ''verses'' = Inr (JArr [sample_verse])
   \<and> list_all verse_ok [sample_verse]
   \<and> versesId_ok (JObj []) \<and> \<not> nullish (JObj [])
   \<and> (\<exists>d. snd (buildSurahData
          (en_only_env sample_body sample_data)
          ''http://api'' (JObj [(''id'', JNum 1)])) = Resolved d
        \<and> length (ayahs d) = 1 \<and> text_arabic_uthmani (ayahs d ! 0) = JStr []
        \<and> text_arabic_simple (ayahs d ! 0) = JStr [] \<and> text_arabic_tajweed (ayahs d ! 0) = JStr [])"
proof -
  let ?env = "en_only_env sample_body sample_data"
  have f: "fetched ?env ''http://api'' (JObj [(''id'', JNum 1)]) (JObj []) (JObj []) (JObj [])
             sample_data (JObj [])"
    by (rule fetched_en_only) (simp add: sample_body_def)
  have en: "js_get sample_data ''verses'' = Inr (JArr [sample_verse])"
    by (simp add: sample_data_def)
  have ok: "list_all verse_ok [sample_verse]"
    by (simp add: verse_ok_def items_ok_def nullish_def sample_verse_def)
  have nn: "versesId_ok (JObj [])" "\<not> nullish (JObj [])"
    by (simp_all add: versesId_ok_def nullish_def)
  have nv: "no_verse_at (JObj []) 0" by (simp add: no_verse_at_def)
  from aggregate_length_and_defaults [OF f en ok nn(1) nn(2) nn(2) nn(2)] nv
  have "\<exists>d. snd (buildSurahData ?env ''http://api'' (JObj [(''id'', JNum 1)])) = Resolved d
        \<and> length (ayahs d) = 1 \<and> text_arabic_uthmani (ayahs d ! 0) = JStr []
        \<and> text_arabic_simple (ayahs d ! 0) = JStr [] \<and> text_arabic_tajweed (ayahs d ! 0) = JStr []"
    by auto
  with f en ok nn show ?thesis by blast
qed

text \<open>
  Claim C1 as first stated fails. When the Uthmani response is the JSON value
  \<^verbatim>\<open>null\<close>, which has no \<^verbatim>\<open>verses\<close> field, reading that field throws and
  \<^verbatim>\<open>buildSurahData\<close> rejects with a \<^verbatim>\<open>TypeError\<close> although the primary response has
  its verse. And when the second word-language response has no \<^verbatim>\<open>verses\<close> field,
  \<^verbatim>\<open>words.id\<close> is not the empty list: it holds the word of the primary verse.
\<close>

theorem aggregate_counterexample:
  "fetched null_uthmani_env ''http://api'' (JObj [(''id'', JNum 1)])
     JNull (JObj []) (JObj []) sample_data (JObj [])
   \<and> js_get sample_data ''verses'' = Inr (JArr [sample_verse])
   \<and> snd (buildSurahData null_uthmani_env ''http://api'' (JObj [(''id'', JNum 1)]))
       = Rejected (TypeError ''Cannot read properties of null (reading verses)'')
   \<and> no_verse_at (JObj []) 0
   \<and> is_Resolved (snd (buildSurahData (en_only_env sample_body sample_data) ''http://api''
                       (JObj [(''id'', JNum 1)])))
   \<and> length (words_id (ayahs (resolved (snd (buildSurahData
         (en_only_env sample_body sample_data) ''http://api'' (JObj [(''id'', JNum 1)])))) ! 0)) = 1"
proof -
  let ?env = "en_only_env sample_body sample_data"
  have f0: "fetched null_uthmani_env ''http://api'' (JObj [(''id'', JNum 1)])
              JNull (JObj []) (JObj []) sample_data (JObj [])"
    by (simp add: fetched_def fetchUthmaniText_def fetchImlaeiText_def fetchUthmaniTajweedText_def
        fetchVersesWithWords_def fetchJSON_def null_uthmani_env_def mock_env_def sample_get_def module_accepts_def toLowerCase_def lower_char_def Let_def
        startsWith_def to_string_def num_string_def string_of_int_def string_of_nat.simps
        TRANSLATION_IDS_english_def TRANSLATION_IDS_indonesian_def sample_en_url_def
        sample_body_def)
  have en: "js_get sample_data ''verses'' = Inr (JArr [sample_verse])"
    by (simp add: sample_data_def)
  have "buildAyahs null_uthmani_env sample_data (JObj []) JNull (JObj []) (JObj [])
          = Inl (TypeError ''Cannot read properties of null (reading verses)'')"
    by (simp add: buildAyahs_def sample_data_def)
  with fetched_D [OF f0]
  have r: "snd (buildSurahData null_uthmani_env ''http://api'' (JObj [(''id'', JNum 1)]))
             = Rejected (TypeError ''Cannot read properties of null (reading verses)'')"
    by simp
  have f: "fetched ?env ''http://api'' (JObj [(''id'', JNum 1)]) (JObj []) (JObj []) (JObj [])
             sample_data (JObj [])"
    by (rule fetched_en_only) (simp add: sample_body_def)
  have ok: "list_all verse_ok [sample_verse]"
    by (simp add: verse_ok_def items_ok_def nullish_def sample_verse_def)
  have nn: "versesId_ok (JObj [])" "\<not> nullish (JObj [])"
    by (simp_all add: versesId_ok_def nullish_def)
  have nv: "no_verse_at (JObj []) 0" by (simp add: no_verse_at_def)
  from buildSurahData_exists [OF f en ok nn(1) nn(2) nn(2) nn(2)] obtain d
    where d: "snd (buildSurahData ?env ''http://api'' (JObj [(''id'', JNum 1)])) = Resolved d"
    by blast
  from built_ayah [OF f d en]
  have "buildAyah (JArr [sample_verse]) (js_or (js_opt_get (JObj []) ''verses'') (JArr []))
          (js_or (js_opt_get (JObj []) ''verses'') (JArr []))
          (js_or (js_opt_get (JObj []) ''verses'') (JArr []))
          (js_or (js_opt_get (JObj []) ''verses'') (JArr [])) 0 = Inr (ayahs d ! 0)"
    by simp
  from buildAyah_Inr_D [OF this]
  have "buildWords wordId sample_verse = Inr (words_id (ayahs d ! 0))"
    by (auto simp: js_or_def)
  from mapE_Inr_D [OF buildWords_tokens [OF this]]
  have "length (words_id (ayahs d ! 0)) = 1" by (simp add: sample_tokens)
  with f0 en r nv d show ?thesis by simp
qed

section \<open>The word lists\<close>

text \<open>
  Claim C4. In a document \<^verbatim>\<open>buildSurahData\<close> returns, \<^verbatim>\<open>words.en\<close> of the ayah at
  index \<open>i\<close> is the image under the \<^verbatim>\<open>map\<close> callback of exactly the tokens of the primary
  verse whose \<^verbatim>\<open>char_type_name\<close> is \<^verbatim>\<open>word\<close>, in their original order, and
  \<^verbatim>\<open>words.id\<close> is the same for the verse used for the second word language; no other
  token contributes (the lists have the length of the filtered token lists).
\<close>

theorem word_lists_keep_word_tokens:
  assumes f: "fetched env baseUrl chapter uthmaniData imlaeiData tajweedData versesEnData versesIdData"
    and d: "snd (buildSurahData env baseUrl chapter) = Resolved d"
    and en: "js_get versesEnData ''verses'' = Inr (JArr vs)"
    and i: "i < length vs"
    and b: "js_index (js_or (js_opt_get versesIdData ''verses'') (JArr [])) i = Inr vId"
  shows "mapE wordEn (word_tokens (vs ! i)) = Inr (words_en (ayahs d ! i))
       \<and> mapE wordId (word_tokens (js_or vId (vs ! i))) = Inr (words_id (ayahs d ! i))
       \<and> length (words_en (ayahs d ! i)) = length (word_tokens (vs ! i))
       \<and> length (words_id (ayahs d ! i)) = length (word_tokens (js_or vId (vs ! i)))
       \<and> (\<forall>ws. js_get (vs ! i) ''words'' = Inr (JArr ws) \<longrightarrow>
             word_tokens (vs ! i) = filter (\<lambda>w. js_get w ''char_type_name'' = Inr (JStr ''word'')) ws)"
proof -
  from built_ayah [OF f d en] i
  have "buildAyah (JArr vs) (js_or (js_opt_get versesIdData ''verses'') (JArr []))
          (js_or (js_opt_get uthmaniData ''verses'') (JArr []))
          (js_or (js_opt_get imlaeiData ''verses'') (JArr []))
          (js_or (js_opt_get tajweedData ''verses'') (JArr [])) i = Inr (ayahs d ! i)"
    by simp
  from buildAyah_Inr_D [OF this] i b
  have w: "buildWords wordEn (vs ! i) = Inr (words_en (ayahs d ! i))"
          "buildWords wordId (js_or vId (vs ! i)) = Inr (words_id (ayahs d ! i))"
    by auto
  note m = buildWords_tokens [OF w(1)] buildWords_tokens [OF w(2)]
  have t: "\<forall>ws. js_get (vs ! i) ''words'' = Inr (JArr ws) \<longrightarrow>
             word_tokens (vs ! i) = filter (\<lambda>w. js_get w ''char_type_name'' = Inr (JStr ''word'')) ws"
  proof (intro allI impI)
    fix ws assume "js_get (vs ! i) ''words'' = Inr (JArr ws)"
    from js_get_Inr_opt [OF this] have "js_opt_get (vs ! i) ''words'' = JArr ws" by simp
    then show "word_tokens (vs ! i) =
               filter (\<lambda>w. js_get w ''char_type_name'' = Inr (JStr ''word'')) ws"
      by (simp add: word_tokens_def word_tagged_def [abs_def])
  qed
  from m mapE_Inr_D [OF m(1)] mapE_Inr_D [OF m(2)] t show ?thesis by simp
qed


lemma fetched_sample:
  "fetched (mock_env sample_body [] [(sample_body, sample_data)]) ''http://api''
     (JObj [(''id'', JNum 1)]) sample_data sample_data sample_data sample_data sample_data"
  by (rule fetched_mock [where cid = "JNum 1"]) (simp_all add: startsWith_def)

lemma sample_verses: "js_get sample_data ''verses'' = Inr (JArr [sample_verse])"
  by (simp add: sample_data_def)

lemma sample_built:
  "\<exists>d. snd (buildSurahData (mock_env sample_body [] [(sample_body, sample_data)]) ''http://api''
            (JObj [(''id'', JNum 1)])) = Resolved d"
proof (rule buildSurahData_exists [OF fetched_sample sample_verses])
  show "list_all verse_ok [sample_verse]"
    by (simp add: verse_ok_def items_ok_def nullish_def sample_verse_def)
  show "versesId_ok sample_data"
    by (simp add: versesId_ok_def verseId_ok_def items_ok_def nullish_def sample_data_def
        sample_verse_def)
  show "\<not> nullish sample_data" "\<not> nullish sample_data" "\<not> nullish sample_data"
    by (simp_all add: nullish_def sample_data_def)
qed

text \<open>
  A run on a verse with one word token and one end marker: each word list has the one
  segment of the word token.
\<close>

theorem word_lists_keep_word_tokens_witness:
  "\<exists>d. snd (buildSurahData (mock_env sample_body [] [(sample_body, sample_data)]) ''http://api''
            (JObj [(''id'', JNum 1)])) = Resolved d
       \<and> map position (words_en (ayahs d ! 0)) = [JNum 1]
       \<and> map position (words_id (ayahs d ! 0)) = [JNum 1]"
proof -
  from sample_built obtain d where
    d: "snd (buildSurahData (mock_env sample_body [] [(sample_body, sample_data)]) ''http://api''
            (JObj [(''id'', JNum 1)])) = Resolved d"
    by blast
  have b: "js_index (js_or (js_opt_get sample_data ''verses'') (JArr [])) 0 = Inr sample_verse"
    by (simp add: sample_data_def js_or_def)
  have t: "truthy sample_verse" by (simp add: sample_verse_def)
  from word_lists_keep_word_tokens [OF fetched_sample d sample_verses _ b]
  have "Inr (words_en (ayahs d ! 0)) = mapE wordEn (word_tokens sample_verse)"
    and "Inr (words_id (ayahs d ! 0)) = mapE wordId (word_tokens sample_verse)"
    using t by (simp_all add: js_or_def)
  then have "map position (words_en (ayahs d ! 0)) = [JNum 1]"
    and "map position (words_id (ayahs d ! 0)) = [JNum 1]"
    by (simp_all add: sample_tokens wordEn_def wordId_def)
  with d show ?thesis by (intro exI [of _ d]) simp
qed

section \<open>Language tags\<close>

lemma wordId_tag:
  assumes "wordId w = Inr s"
  shows "translation_language s = (if labelled_indonesian w then ''id'' else ''en'')"
proof -
  from assms obtain tr where t: "js_get w ''translation'' = Inr tr"
    and l: "translation_language s =
            (if js_opt_get tr ''language_name'' = JStr ''indonesian'' then ''id'' else ''en'')"
    by (auto simp: wordId_def bindE_eq_Inr)
  from js_get_Inr_opt [OF t] l show ?thesis by (simp add: labelled_indonesian_def)
qed

lemma wordId_wordEn:
  assumes "wordId w = Inr s"
  shows "wordEn w = Inr (tagged_en s)"
proof -
  from assms obtain pos c1 code au tr tl where
    g: "js_get w ''position'' = Inr pos" "js_get w ''code_v1'' = Inr c1"
       "(if truthy c1 then Inr c1 else js_get w ''text'') = Inr code"
       "js_get w ''audio_url'' = Inr au" "js_get w ''translation'' = Inr tr"
       "js_get w ''transliteration'' = Inr tl"
    and s: "s = \<lparr>position = pos, text_code = code, audio_url = au,
                  translation_text = js_or (js_opt_get tr ''text'') (JStr []),
                  translation_language =
                    (if js_opt_get tr ''language_name'' = JStr ''indonesian'' then ''id'' else ''en''),
                  transliteration = js_or (js_opt_get tl ''text'') (JStr [])\<rparr>"
    by (auto simp: wordId_def bindE_eq_Inr)
  from g s show ?thesis by (simp add: wordEn_def tagged_en_def)
qed

lemma mapE_wordId_wordEn:
  "mapE wordId ws = Inr r \<Longrightarrow> mapE wordEn ws = Inr (map tagged_en r)"
proof (induction ws arbitrary: r)
  case Nil
  then show ?case by simp
next
  case (Cons w ws)
  from Cons.prems obtain s r' where s: "wordId w = Inr s" and r': "mapE wordId ws = Inr r'"
    and e: "r = s # r'"
    by (auto simp: bindE_eq_Inr)
  from Cons.IH [OF r'] wordId_wordEn [OF s] e show ?case by simp
qed

lemma mapE_wordId_tags:
  assumes "mapE wordId ws = Inr r"
  shows "\<forall>k<length ws. translation_language (r ! k) =
           (if labelled_indonesian (ws ! k) then ''id'' else ''en'')"
  using mapE_Inr_D [OF assms] wordId_tag by blast

lemma tagged_en_id: "translation_language s = ''en'' \<Longrightarrow> tagged_en s = s"
  by (simp add: tagged_en_def)

lemma mapE_wordId_unlabelled:
  assumes m: "mapE wordId ws = Inr r" and u: "list_all (\<lambda>w. \<not> labelled_indonesian w) ws"
  shows "map tagged_en r = r"
proof -
  from mapE_Inr_D [OF m] have len: "length r = length ws" by simp
  have "tagged_en (r ! k) = r ! k" if "k < length r" for k
  proof -
    from that len u have "\<not> labelled_indonesian (ws ! k)" by (simp add: list_all_length)
    with mapE_wordId_tags [OF m] that len show ?thesis by (simp add: tagged_en_id)
  qed
  then show ?thesis by (simp add: list_eq_iff_nth_eq)
qed

lemma built_at:
  assumes f: "fetched env baseUrl chapter uD mD tD eD iD"
    and d: "snd (buildSurahData env baseUrl chapter) = Resolved d"
    and en: "js_get eD ''verses'' = Inr (JArr vs)" and i: "i < length vs"
  shows "\<exists>vId tr tEn tId.
           js_index (js_or (js_opt_get iD ''verses'') (JArr [])) i = Inr vId \<and>
           buildWords wordEn (vs ! i) = Inr (words_en (ayahs d ! i)) \<and>
           buildWords wordId (js_or vId (vs ! i)) = Inr (words_id (ayahs d ! i)) \<and>
           js_get (vs ! i) ''translations'' = Inr tr \<and>
           js_find (js_or tr (JArr [])) (has_resource_id 20) = Inr tEn \<and>
           js_find (js_or tr (JArr [])) (has_resource_id 33) = Inr tId \<and>
           translations_en (ayahs d ! i) = js_or (js_opt_get tEn ''text'') (JStr []) \<and>
           translations_id (ayahs d ! i) = js_or (js_opt_get tId ''text'') (JStr []) \<and>
           js_get (vs ! i) ''id'' = Inr (ayah_id (ayahs d ! i)) \<and>
           js_get (vs ! i) ''verse_key'' = Inr (verse_key (ayahs d ! i))"
proof -
  from built_ayah [OF f d en] i
  have "buildAyah (JArr vs) (js_or (js_opt_get iD ''verses'') (JArr []))
          (js_or (js_opt_get uD ''verses'') (JArr [])) (js_or (js_opt_get mD ''verses'') (JArr []))
          (js_or (js_opt_get tD ''verses'') (JArr [])) i = Inr (ayahs d ! i)"
    by simp
  from buildAyah_Inr_D [OF this] i show ?thesis by auto
qed

text \<open>
  Claim C5. Every segment of \<^verbatim>\<open>words.id\<close> carries the tag \<^verbatim>\<open>id\<close> exactly when the
  token it was made from is labelled Indonesian (its \<^verbatim>\<open>translation.language_name\<close> is
  the string \<^verbatim>\<open>indonesian\<close>), and the tag \<^verbatim>\<open>en\<close> in every other case, a token without
  \<^verbatim>\<open>translation\<close> included.
\<close>

theorem language_tag_rule:
  assumes f: "fetched env baseUrl chapter uthmaniData imlaeiData tajweedData versesEnData versesIdData"
    and d: "snd (buildSurahData env baseUrl chapter) = Resolved d"
    and en: "js_get versesEnData ''verses'' = Inr (JArr vs)"
    and i: "i < length vs"
    and b: "js_index (js_or (js_opt_get versesIdData ''verses'') (JArr [])) i = Inr vId"
  shows "length (words_id (ayahs d ! i)) = length (word_tokens (js_or vId (vs ! i)))
       \<and> (\<forall>k<length (word_tokens (js_or vId (vs ! i))).
             translation_language (words_id (ayahs d ! i) ! k) =
               (if js_opt_get (js_opt_get (word_tokens (js_or vId (vs ! i)) ! k) ''translation'')
                     ''language_name'' = JStr ''indonesian''
                then ''id'' else ''en''))
       \<and> (\<forall>w s. wordId w = Inr s \<longrightarrow>
             (translation_language s = ''id'' \<longleftrightarrow> labelled_indonesian w) \<and>
             (translation_language s = ''en'' \<longleftrightarrow> \<not> labelled_indonesian w))
       \<and> (\<forall>w. js_opt_get w ''translation'' = JUndefined \<longrightarrow> \<not> labelled_indonesian w)"
proof -
  from built_at [OF f d en i] b
  have "buildWords wordId (js_or vId (vs ! i)) = Inr (words_id (ayahs d ! i))" by auto
  note m = buildWords_tokens [OF this]
  from mapE_Inr_D [OF m]
  have len: "length (words_id (ayahs d ! i)) = length (word_tokens (js_or vId (vs ! i)))"
    by simp
  have tags: "\<forall>k<length (word_tokens (js_or vId (vs ! i))).
             translation_language (words_id (ayahs d ! i) ! k) =
               (if js_opt_get (js_opt_get (word_tokens (js_or vId (vs ! i)) ! k) ''translation'')
                     ''language_name'' = JStr ''indonesian''
                then ''id'' else ''en'')"
    using mapE_wordId_tags [OF m] by (simp add: labelled_indonesian_def)
  have rule: "\<forall>w s. wordId w = Inr s \<longrightarrow>
             (translation_language s = ''id'' \<longleftrightarrow> labelled_indonesian w) \<and>
             (translation_language s = ''en'' \<longleftrightarrow> \<not> labelled_indonesian w)"
    by (auto dest!: wordId_tag split: if_splits)
  have none: "\<forall>w. js_opt_get w ''translation'' = JUndefined \<longrightarrow> \<not> labelled_indonesian w"
    by (simp add: labelled_indonesian_def)
  from len tags rule none show ?thesis by (intro conjI)
qed

section \<open>Translations\<close>

lemma findE_first:
  assumes "findE (has_resource_id n) ts = Inr r"
  shows "r = (case first_with_resource_id n ts of Some t \<Rightarrow> t | None \<Rightarrow> JUndefined)"
proof -
  have "(\<lambda>t. has_resource_id n t = Inr True) = (\<lambda>t. js_get t ''resource_id'' = Inr (JNum n))"
    by (auto simp: has_resource_id_def bindE_eq_Inr fun_eq_iff)
  with findE_Inr_D [OF assms] show ?thesis by (simp add: first_with_resource_id_def)
qed

lemma text_of_first:
  assumes "findE (has_resource_id n) ts = Inr r"
  shows "case first_with_resource_id n ts of
           None \<Rightarrow> js_or (js_opt_get r ''text'') (JStr []) = JStr []
         | Some t \<Rightarrow> (\<forall>s. js_get t ''text'' = Inr (JStr s) \<longrightarrow>
                        js_or (js_opt_get r ''text'') (JStr []) = JStr s)"
proof (cases "first_with_resource_id n ts")
  case None
  with findE_first [OF assms] show ?thesis by (simp add: js_or_def)
next
  case (Some t)
  with findE_first [OF assms] have "r = t" by simp
  with Some show ?thesis by (auto simp: js_or_def dest!: js_get_Inr_opt)
qed


lemma map_single: "length xs = Suc 0 \<Longrightarrow> map f xs = [f (xs ! 0)]"
  by (cases xs) auto

lemma mock_built:
  assumes en: "js_get data ''verses'' = Inr (JArr vs)" and ok: "list_all verse_ok vs"
    and b: "versesId_ok data"
  shows "fetched (mock_env body [] [(body, data)]) ''http://api'' (JObj [(''id'', JNum 1)])
           data data data data data
       \<and> (\<exists>d. snd (buildSurahData (mock_env body [] [(body, data)]) ''http://api''
                   (JObj [(''id'', JNum 1)])) = Resolved d)"
proof -
  have f: "fetched (mock_env body [] [(body, data)]) ''http://api'' (JObj [(''id'', JNum 1)])
             data data data data data"
    by (rule fetched_mock [where cid = "JNum 1"]) (simp_all add: startsWith_def)
  from b have n: "\<not> nullish data" by (simp add: versesId_ok_def)
  from buildSurahData_exists [OF f en ok b n n n] f show ?thesis by simp
qed

lemma label_built:
  "fetched (mock_env label_body [] [(label_body, label_data)]) ''http://api''
     (JObj [(''id'', JNum 1)]) label_data label_data label_data label_data label_data
   \<and> (\<exists>d. snd (buildSurahData (mock_env label_body [] [(label_body, label_data)]) ''http://api''
               (JObj [(''id'', JNum 1)])) = Resolved d)"
proof (rule mock_built)
  show "js_get label_data ''verses'' = Inr (JArr [label_verse])"
    by (simp add: label_data_def)
  show "list_all verse_ok [label_verse]"
    by (simp add: verse_ok_def items_ok_def nullish_def label_verse_def)
  show "versesId_ok label_data"
    by (simp add: versesId_ok_def verseId_ok_def items_ok_def nullish_def label_data_def
        label_verse_def)
qed

lemma label_tokens:
  "word_tokens label_verse =
     [JObj [(''char_type_name'', JStr ''word''),
            (''translation'', JObj [(''text'', JStr ''dengan''),
                                    (''language_name'', JStr ''indonesian'')])]]"
  by (simp add: word_tokens_def label_verse_def word_tagged_def)

text \<open>
  A run on a verse whose only word is labelled Indonesian: its segment in
  \<^verbatim>\<open>words.id\<close> is tagged \<^verbatim>\<open>id\<close>.
\<close>

theorem language_tag_rule_witness:
  "\<exists>d. snd (buildSurahData (mock_env label_body [] [(label_body, label_data)]) ''http://api''
            (JObj [(''id'', JNum 1)])) = Resolved d
       \<and> map translation_language (words_id (ayahs d ! 0)) = [''id'']"
proof -
  from label_built obtain d where
    f: "fetched (mock_env label_body [] [(label_body, label_data)]) ''http://api''
          (JObj [(''id'', JNum 1)]) label_data label_data label_data label_data label_data"
    and d: "snd (buildSurahData (mock_env label_body [] [(label_body, label_data)]) ''http://api''
            (JObj [(''id'', JNum 1)])) = Resolved d"
    by blast
  have en: "js_get label_data ''verses'' = Inr (JArr [label_verse])"
    by (simp add: label_data_def)
  have b: "js_index (js_or (js_opt_get label_data ''verses'') (JArr [])) 0 = Inr label_verse"
    by (simp add: label_data_def js_or_def)
  have t: "js_or label_verse label_verse = label_verse" by (simp add: js_or_def)
  from language_tag_rule [OF f d en _ b]
  have "length (words_id (ayahs d ! 0)) = Suc 0"
    and "translation_language (words_id (ayahs d ! 0) ! 0) = ''id''"
    by (simp_all add: t label_tokens)
  then have "map translation_language (words_id (ayahs d ! 0)) = [''id'']"
    by (simp add: map_single)
  with d show ?thesis by (intro exI [of _ d]) simp
qed

text \<open>
  Claim C6. In a document \<^verbatim>\<open>buildSurahData\<close> returns, \<^verbatim>\<open>translations.en\<close> of the ayah
  at index \<open>i\<close> is the text of the first entry of the primary verse's translation list
  whose \<^verbatim>\<open>resource_id\<close> is 20 (when that text is a string), and the empty string when the
  list has no such entry or the verse has no list; \<^verbatim>\<open>translations.id\<close> is the same for
  \<^verbatim>\<open>resource_id\<close> 33.
\<close>

theorem translations_by_resource_id:
  assumes f: "fetched env baseUrl chapter uthmaniData imlaeiData tajweedData versesEnData versesIdData"
    and d: "snd (buildSurahData env baseUrl chapter) = Resolved d"
    and en: "js_get versesEnData ''verses'' = Inr (JArr vs)"
    and i: "i < length vs"
  shows "(\<forall>ts. js_get (vs ! i) ''translations'' = Inr (JArr ts) \<longrightarrow>
            (case first_with_resource_id 20 ts of
               None \<Rightarrow> translations_en (ayahs d ! i) = JStr []
             | Some t \<Rightarrow> (\<forall>s. js_get t ''text'' = Inr (JStr s) \<longrightarrow>
                            translations_en (ayahs d ! i) = JStr s))
          \<and> (case first_with_resource_id 33 ts of
               None \<Rightarrow> translations_id (ayahs d ! i) = JStr []
             | Some t \<Rightarrow> (\<forall>s. js_get t ''text'' = Inr (JStr s) \<longrightarrow>
                            translations_id (ayahs d ! i) = JStr s)))
       \<and> (js_get (vs ! i) ''translations'' = Inr JUndefined \<longrightarrow>
            translations_en (ayahs d ! i) = JStr [] \<and> translations_id (ayahs d ! i) = JStr [])"
proof -
  from built_at [OF f d en i] obtain tr tEn tId where
    t: "js_get (vs ! i) ''translations'' = Inr tr"
       "js_find (js_or tr (JArr [])) (has_resource_id 20) = Inr tEn"
       "js_find (js_or tr (JArr [])) (has_resource_id 33) = Inr tId"
       "translations_en (ayahs d ! i) = js_or (js_opt_get tEn ''text'') (JStr [])"
       "translations_id (ayahs d ! i) = js_or (js_opt_get tId ''text'') (JStr [])"
    by blast
  have arr: "(case first_with_resource_id 20 ts of
               None \<Rightarrow> translations_en (ayahs d ! i) = JStr []
             | Some t \<Rightarrow> (\<forall>s. js_get t ''text'' = Inr (JStr s) \<longrightarrow>
                            translations_en (ayahs d ! i) = JStr s))
          \<and> (case first_with_resource_id 33 ts of
               None \<Rightarrow> translations_id (ayahs d ! i) = JStr []
             | Some t \<Rightarrow> (\<forall>s. js_get t ''text'' = Inr (JStr s) \<longrightarrow>
                            translations_id (ayahs d ! i) = JStr s))"
    if ts: "js_get (vs ! i) ''translations'' = Inr (JArr ts)" for ts
  proof -
    from ts t(1) have tr: "tr = JArr ts" by simp
    from t(2) tr have e: "findE (has_resource_id 20) ts = Inr tEn" by (simp add: js_or_def)
    from t(3) tr have j: "findE (has_resource_id 33) ts = Inr tId" by (simp add: js_or_def)
    show ?thesis unfolding t(4) t(5)
      using text_of_first [OF e] text_of_first [OF j] by (intro conjI)
  qed
  have none: "translations_en (ayahs d ! i) = JStr [] \<and> translations_id (ayahs d ! i) = JStr []"
    if "js_get (vs ! i) ''translations'' = Inr JUndefined"
    using that t by (auto simp: js_or_def)
  from arr none show ?thesis by blast
qed

text \<open>
  A run on a verse whose translation list has an entry for resource 20 and none for 33:
  \<^verbatim>\<open>translations.en\<close> is that entry's text, \<^verbatim>\<open>translations.id\<close> is empty.
\<close>

theorem translations_by_resource_id_witness:
  "\<exists>d. snd (buildSurahData (mock_env sample_body [] [(sample_body, sample_data)]) ''http://api''
            (JObj [(''id'', JNum 1)])) = Resolved d
       \<and> translations_en (ayahs d ! 0) = JStr ''E'' \<and> translations_id (ayahs d ! 0) = JStr []"
proof -
  from sample_built obtain d where
    d: "snd (buildSurahData (mock_env sample_body [] [(sample_body, sample_data)]) ''http://api''
            (JObj [(''id'', JNum 1)])) = Resolved d"
    by blast
  have ts: "js_get ([sample_verse] ! 0) ''translations'' =
            Inr (JArr [JObj [(''resource_id'', JNum 20), (''text'', JStr ''E'')]])"
    by (simp add: sample_verse_def)
  have f20: "first_with_resource_id 20 [JObj [(''resource_id'', JNum 20), (''text'', JStr ''E'')]]
             = Some (JObj [(''resource_id'', JNum 20), (''text'', JStr ''E'')])"
    and f33: "first_with_resource_id 33 [JObj [(''resource_id'', JNum 20), (''text'', JStr ''E'')]]
             = None"
    by (simp_all add: first_with_resource_id_def)
  from translations_by_resource_id [OF fetched_sample d sample_verses, of 0] ts
  have "(case first_with_resource_id 20 [JObj [(''resource_id'', JNum 20), (''text'', JStr ''E'')]] of
               None \<Rightarrow> translations_en (ayahs d ! 0) = JStr []
             | Some t \<Rightarrow> (\<forall>s. js_get t ''text'' = Inr (JStr s) \<longrightarrow>
                            translations_en (ayahs d ! 0) = JStr s))
          \<and> (case first_with_resource_id 33 [JObj [(''resource_id'', JNum 20), (''text'', JStr ''E'')]] of
               None \<Rightarrow> translations_id (ayahs d ! 0) = JStr []
             | Some t \<Rightarrow> (\<forall>s. js_get t ''text'' = Inr (JStr s) \<longrightarrow>
                            translations_id (ayahs d ! 0) = JStr s))"
    by simp
  then have "translations_en (ayahs d ! 0) = JStr ''E''" and "translations_id (ayahs d ! 0) = JStr []"
    by (simp_all add: f20 f33)
  with d show ?thesis by (intro exI [of _ d]) simp
qed

section \<open>Verse keys\<close>

lemma canonical_key_1_1: "canonical_key (JNum 1) (Suc 0) = JStr ''1:1''"
  by (simp add: canonical_key_def num_string_def string_of_int_def string_of_nat.simps)

text \<open>
  Claim C2, as amended. The \<^verbatim>\<open>verse_key\<close> and the \<^verbatim>\<open>id\<close> of the ayah at index \<open>i\<close>
  are those of the primary verse at index \<open>i\<close>, copied unchanged: nothing is derived from
  the chapter id or from the position. So the keys of the ayahs are
  \<^verbatim>\<open>{chapterId}:{n}\<close> for n = 1..count whenever the keys of the primary response are.
\<close>

theorem verse_keys_copied:
  assumes f: "fetched env baseUrl chapter uthmaniData imlaeiData tajweedData versesEnData versesIdData"
    and d: "snd (buildSurahData env baseUrl chapter) = Resolved d"
    and en: "js_get versesEnData ''verses'' = Inr (JArr vs)"
    and cid: "js_get chapter ''id'' = Inr chapterId"
  shows "length (ayahs d) = length vs
       \<and> (\<forall>i<length vs. js_get (vs ! i) ''verse_key'' = Inr (verse_key (ayahs d ! i)) \<and>
                          js_get (vs ! i) ''id'' = Inr (ayah_id (ayahs d ! i)))
       \<and> ((\<forall>i<length vs. js_get (vs ! i) ''verse_key'' = Inr (canonical_key chapterId (Suc i)))
            \<longrightarrow> map verse_key (ayahs d) = map (canonical_key chapterId) [1..<Suc (length vs)])"
proof -
  from built_ayah [OF f d en] have len: "length (ayahs d) = length vs" by simp
  have copy: "js_get (vs ! i) ''verse_key'' = Inr (verse_key (ayahs d ! i)) \<and>
              js_get (vs ! i) ''id'' = Inr (ayah_id (ayahs d ! i))" if "i < length vs" for i
    using built_at [OF f d en that] by blast
  have "map verse_key (ayahs d) = map (canonical_key chapterId) [1..<Suc (length vs)]"
    if c: "\<forall>i<length vs. js_get (vs ! i) ''verse_key'' = Inr (canonical_key chapterId (Suc i))"
  proof (rule nth_equalityI)
    show "length (map verse_key (ayahs d)) = length (map (canonical_key chapterId) [1..<Suc (length vs)])"
      by (simp add: len del: upt_Suc)
  next
    fix i assume "i < length (map verse_key (ayahs d))"
    then have i: "i < length vs" by (simp add: len)
    with c copy [OF i] have "verse_key (ayahs d ! i) = canonical_key chapterId (Suc i)" by simp
    moreover have "[1..<Suc (length vs)] ! i = Suc i" using i by (simp add: nth_upt del: upt_Suc)
    ultimately show "map verse_key (ayahs d) ! i = map (canonical_key chapterId) [1..<Suc (length vs)] ! i"
      using i len by (simp del: upt_Suc)
  qed
  with len copy show ?thesis by blast
qed

text \<open>
  A run for chapter 1 on a primary response whose verse is keyed 1:1: so is the ayah.
\<close>

theorem verse_keys_copied_witness:
  "\<exists>d. snd (buildSurahData (mock_env sample_body [] [(sample_body, sample_data)]) ''http://api''
            (JObj [(''id'', JNum 1)])) = Resolved d
       \<and> map verse_key (ayahs d) = [JStr ''1:1'']"
proof -
  from sample_built obtain d where
    d: "snd (buildSurahData (mock_env sample_body [] [(sample_body, sample_data)]) ''http://api''
            (JObj [(''id'', JNum 1)])) = Resolved d"
    by blast
  have cid: "js_get (JObj [(''id'', JNum 1)]) ''id'' = Inr (JNum 1)" by simp
  have k: "\<forall>i<length [sample_verse].
             js_get ([sample_verse] ! i) ''verse_key'' = Inr (canonical_key (JNum 1) (Suc i))"
    by (simp add: canonical_key_1_1 sample_verse_def)
  from verse_keys_copied [OF fetched_sample d sample_verses cid] k
  have "map verse_key (ayahs d) = map (canonical_key (JNum 1)) [1..<Suc (length [sample_verse])]"
    by blast
  then have "map verse_key (ayahs d) = [JStr ''1:1'']"
    by (simp add: canonical_key_1_1)
  with d show ?thesis by (intro exI [of _ d]) simp
qed

lemma key_built:
  "fetched (mock_env key_body [] [(key_body, key_data)]) ''http://api''
     (JObj [(''id'', JNum 1)]) key_data key_data key_data key_data key_data
   \<and> (\<exists>d. snd (buildSurahData (mock_env key_body [] [(key_body, key_data)]) ''http://api''
               (JObj [(''id'', JNum 1)])) = Resolved d)"
proof (rule mock_built)
  show "js_get key_data ''verses'' = Inr (JArr [JObj [(''id'', JNum 7), (''verse_key'', JStr ''9:9'')]])"
    by (simp add: key_data_def)
  show "list_all verse_ok [JObj [(''id'', JNum 7), (''verse_key'', JStr ''9:9'')]]"
    by (simp add: verse_ok_def items_ok_def nullish_def)
  show "versesId_ok key_data"
    by (simp add: versesId_ok_def verseId_ok_def items_ok_def nullish_def key_data_def)
qed

text \<open>
  Claim C2 as first stated fails: for chapter 1 and a primary response whose only verse is
  keyed 9:9, \<^verbatim>\<open>buildSurahData\<close> succeeds and the key of its one ayah is 9:9, not 1:1.
\<close>

theorem verse_keys_counterexample:
  "is_Resolved (snd (buildSurahData (mock_env key_body [] [(key_body, key_data)]) ''http://api''
               (JObj [(''id'', JNum 1)])))
   \<and> map verse_key (ayahs (resolved (snd (buildSurahData
         (mock_env key_body [] [(key_body, key_data)]) ''http://api'' (JObj [(''id'', JNum 1)])))))
       = [JStr ''9:9'']
   \<and> canonical_key (JNum 1) 1 = JStr ''1:1''"
proof -
  from key_built obtain d where
    f: "fetched (mock_env key_body [] [(key_body, key_data)]) ''http://api''
          (JObj [(''id'', JNum 1)]) key_data key_data key_data key_data key_data"
    and d: "snd (buildSurahData (mock_env key_body [] [(key_body, key_data)]) ''http://api''
               (JObj [(''id'', JNum 1)])) = Resolved d"
    by blast
  have en: "js_get key_data ''verses'' = Inr (JArr [JObj [(''id'', JNum 7), (''verse_key'', JStr ''9:9'')]])"
    by (simp add: key_data_def)
  from built_ayah [OF f d en] have len: "length (ayahs d) = Suc 0" by simp
  from built_at [OF f d en, of 0] have "verse_key (ayahs d ! 0) = JStr ''9:9''" by auto
  with len have "map verse_key (ayahs d) = [JStr ''9:9'']" by (simp add: map_single)
  with d show ?thesis using canonical_key_1_1 by simp
qed

section \<open>The fallback to the primary verse\<close>

lemma fallback_words:
  assumes f: "fetched env baseUrl chapter uD mD tD eD iD"
    and d: "snd (buildSurahData env baseUrl chapter) = Resolved d"
    and en: "js_get eD ''verses'' = Inr (JArr vs)" and i: "i < length vs"
    and n: "no_verse_at iD i"
  shows "buildWords wordEn (vs ! i) = Inr (words_en (ayahs d ! i))
       \<and> buildWords wordId (vs ! i) = Inr (words_id (ayahs d ! i))"
  using built_at [OF f d en i] no_verse_at_index [OF n] by (auto simp: js_or_def)

text \<open>
  Claim C3, as amended. Let the five fetches of a chapter resolve with JSON values other
  than \<^verbatim>\<open>null\<close>, let the verses of the primary array be not \<^verbatim>\<open>null\<close> with
  \<^verbatim>\<open>words\<close> and \<^verbatim>\<open>translations\<close> each missing (or falsy) or an array without
  \<^verbatim>\<open>null\<close> entries, and let the verses present in the second word-language array have
  \<^verbatim>\<open>words\<close> of that kind. Then no error is raised, and for every index \<open>i\<close> of the
  primary verse array: a truthy entry of the second word-language array at index \<open>i\<close>
  (every object is truthy) is the verse \<^verbatim>\<open>words.id\<close> is built from; in the only other
  case, when that response has no verse at index \<open>i\<close>, the primary verse is put through
  the same mapping, so \<^verbatim>\<open>words.id\<close> has the words of \<^verbatim>\<open>words.en\<close> with the same
  fields and differs from it at most in the language tag, which is \<^verbatim>\<open>id\<close> for a word
  labelled Indonesian; the two lists are equal when no kept token of the primary verse is
  labelled Indonesian. (Outside these shapes an error is raised: a response that is
  \<^verbatim>\<open>null\<close> or a \<^verbatim>\<open>null\<close> token makes the aggregation throw.)
\<close>

theorem missing_verse_falls_back:
  assumes f: "fetched env baseUrl chapter uthmaniData imlaeiData tajweedData versesEnData versesIdData"
    and en: "js_get versesEnData ''verses'' = Inr (JArr vs)"
    and ok: "list_all verse_ok vs"
    and nn: "versesId_ok versesIdData" "\<not> nullish uthmaniData" "\<not> nullish imlaeiData"
            "\<not> nullish tajweedData"
  shows "\<exists>d. snd (buildSurahData env baseUrl chapter) = Resolved d
           \<and> (\<forall>i<length vs.
                (\<forall>xs. js_opt_get versesIdData ''verses'' = JArr xs \<and> i < length xs \<and> truthy (xs ! i)
                       \<longrightarrow> buildWords wordId (xs ! i) = Inr (words_id (ayahs d ! i)))
              \<and> (no_verse_at versesIdData i \<longrightarrow>
                    buildWords wordId (vs ! i) = Inr (words_id (ayahs d ! i))
                  \<and> map tagged_en (words_id (ayahs d ! i)) = words_en (ayahs d ! i)
                  \<and> (list_all (\<lambda>w. \<not> labelled_indonesian w) (word_tokens (vs ! i))
                       \<longrightarrow> words_id (ayahs d ! i) = words_en (ayahs d ! i)))
              \<and> ((\<exists>xs. js_opt_get versesIdData ''verses'' = JArr xs \<and> i < length xs \<and>
                        truthy (xs ! i))
                  \<or> no_verse_at versesIdData i))"
proof -
  from buildSurahData_exists [OF f en ok nn] obtain d
    where d: "snd (buildSurahData env baseUrl chapter) = Resolved d" by blast
  have cases: "(\<exists>xs. js_opt_get versesIdData ''verses'' = JArr xs \<and> i < length xs \<and>
                   truthy (xs ! i)) \<or> no_verse_at versesIdData i" for i
    using nn(1) by (cases "js_opt_get versesIdData ''verses''") (auto simp: versesId_ok_def no_verse_at_def)
  have present: "buildWords wordId (xs ! i) = Inr (words_id (ayahs d ! i))"
    if i: "i < length vs" and x: "js_opt_get versesIdData ''verses'' = JArr xs" "i < length xs"
      "truthy (xs ! i)" for i xs
  proof -
    from x have "js_index (js_or (js_opt_get versesIdData ''verses'') (JArr [])) i = Inr (xs ! i)"
      by (simp add: js_or_def)
    with built_at [OF f d en i] x(3) show ?thesis by (auto simp: js_or_def)
  qed
  have absent: "buildWords wordId (vs ! i) = Inr (words_id (ayahs d ! i))
                  \<and> map tagged_en (words_id (ayahs d ! i)) = words_en (ayahs d ! i)
                  \<and> (list_all (\<lambda>w. \<not> labelled_indonesian w) (word_tokens (vs ! i))
                       \<longrightarrow> words_id (ayahs d ! i) = words_en (ayahs d ! i))"
    if i: "i < length vs" and n: "no_verse_at versesIdData i" for i
  proof -
    from fallback_words [OF f d en i n]
    have e: "buildWords wordEn (vs ! i) = Inr (words_en (ayahs d ! i))"
      and b: "buildWords wordId (vs ! i) = Inr (words_id (ayahs d ! i))"
      by simp_all
    note mi = buildWords_tokens [OF b]
    from mapE_wordId_wordEn [OF mi] buildWords_tokens [OF e]
    have m: "map tagged_en (words_id (ayahs d ! i)) = words_en (ayahs d ! i)" by simp
    have "words_id (ayahs d ! i) = words_en (ayahs d ! i)"
      if "list_all (\<lambda>w. \<not> labelled_indonesian w) (word_tokens (vs ! i))"
      using mapE_wordId_unlabelled [OF mi that] m by simp
    with b m show ?thesis by blast
  qed
  from d present absent cases show ?thesis by (intro exI [of _ d]) blast
qed

text \<open>
  A run in which the second word-language response has no verses and the primary verse
  has one word, not labelled Indonesian: \<^verbatim>\<open>words.id\<close> equals \<^verbatim>\<open>words.en\<close>, one
  segment each.
\<close>

theorem missing_verse_falls_back_witness:
  "fetched (en_only_env sample_body sample_data)
     ''http://api'' (JObj [(''id'', JNum 1)]) (JObj []) (JObj []) (JObj []) sample_data (JObj [])
   \<and> no_verse_at (JObj []) 0
   \<and> (\<exists>d. snd (buildSurahData
          (en_only_env sample_body sample_data)
          ''http://api'' (JObj [(''id'', JNum 1)])) = Resolved d
        \<and> words_id (ayahs d ! 0) = words_en (ayahs d ! 0)
        \<and> length (words_id (ayahs d ! 0)) = 1)"
proof -
  let ?env = "en_only_env sample_body sample_data"
  have f: "fetched ?env ''http://api'' (JObj [(''id'', JNum 1)]) (JObj []) (JObj []) (JObj [])
             sample_data (JObj [])"
    by (rule fetched_en_only) (simp add: sample_body_def)
  have ok: "list_all verse_ok [sample_verse]"
    by (simp add: verse_ok_def items_ok_def nullish_def sample_verse_def)
  have nn: "versesId_ok (JObj [])" "\<not> nullish (JObj [])"
    by (simp_all add: versesId_ok_def nullish_def)
  have nv: "no_verse_at (JObj []) 0" by (simp add: no_verse_at_def)
  have un: "list_all (\<lambda>w. \<not> labelled_indonesian w) (word_tokens sample_verse)"
    by (simp add: sample_tokens labelled_indonesian_def)
  from missing_verse_falls_back [OF f sample_verses ok nn(1) nn(2) nn(2) nn(2)]
  obtain d where d: "snd (buildSurahData ?env ''http://api'' (JObj [(''id'', JNum 1)])) = Resolved d"
    and w: "buildWords wordId sample_verse = Inr (words_id (ayahs d ! 0))"
           "words_id (ayahs d ! 0) = words_en (ayahs d ! 0)"
    using nv un by auto
  from mapE_Inr_D [OF buildWords_tokens [OF w(1)]]
  have "length (words_id (ayahs d ! 0)) = 1" by (simp add: sample_tokens)
  with d w(2) have "\<exists>d. snd (buildSurahData ?env ''http://api'' (JObj [(''id'', JNum 1)])) = Resolved d
        \<and> words_id (ayahs d ! 0) = words_en (ayahs d ! 0) \<and> length (words_id (ayahs d ! 0)) = 1"
    by (intro exI [of _ d]) simp
  with f nv show ?thesis by (intro conjI)
qed

lemma label_en_only_built:
  "fetched (en_only_env label_body label_data)
     ''http://api'' (JObj [(''id'', JNum 1)]) (JObj []) (JObj []) (JObj []) label_data (JObj [])
   \<and> (\<exists>d. snd (buildSurahData
          (en_only_env label_body label_data)
          ''http://api'' (JObj [(''id'', JNum 1)])) = Resolved d)"
proof -
  let ?env = "en_only_env label_body label_data"
  have f: "fetched ?env ''http://api'' (JObj [(''id'', JNum 1)]) (JObj []) (JObj []) (JObj [])
             label_data (JObj [])"
    by (rule fetched_en_only) (simp add: label_body_def)
  have en: "js_get label_data ''verses'' = Inr (JArr [label_verse])"
    by (simp add: label_data_def)
  have ok: "list_all verse_ok [label_verse]"
    by (simp add: verse_ok_def items_ok_def nullish_def label_verse_def)
  have nn: "versesId_ok (JObj [])" "\<not> nullish (JObj [])"
    by (simp_all add: versesId_ok_def nullish_def)
  from buildSurahData_exists [OF f en ok nn(1) nn(2) nn(2) nn(2)] f show ?thesis by (intro conjI)
qed

text \<open>
  Claim C3 as first stated fails. When the second word-language response has no verses and
  the one word of the primary verse is labelled Indonesian, \<^verbatim>\<open>buildSurahData\<close>
  succeeds, the segment in \<^verbatim>\<open>words.en\<close> is tagged \<^verbatim>\<open>en\<close> and the segment in
  \<^verbatim>\<open>words.id\<close> is tagged \<^verbatim>\<open>id\<close>: the two lists differ. And when the second
  word-language response is the JSON value \<^verbatim>\<open>null\<close>, which has no entry at any index,
  an error is raised: reading its \<^verbatim>\<open>verses\<close> field throws, and \<^verbatim>\<open>buildSurahData\<close>
  rejects although the primary response has its verse.
\<close>

theorem missing_verse_counterexample:
  "is_Resolved (snd (buildSurahData
        (en_only_env label_body label_data)
        ''http://api'' (JObj [(''id'', JNum 1)])))
   \<and> no_verse_at (JObj []) 0
   \<and> map translation_language (words_en (ayahs (resolved (snd (buildSurahData
        (en_only_env label_body label_data)
        ''http://api'' (JObj [(''id'', JNum 1)])))) ! 0)) = [''en'']
   \<and> map translation_language (words_id (ayahs (resolved (snd (buildSurahData
        (en_only_env label_body label_data)
        ''http://api'' (JObj [(''id'', JNum 1)])))) ! 0)) = [''id'']
   \<and> fetched null_id_env ''http://api'' (JObj [(''id'', JNum 1)])
        (JObj []) (JObj []) (JObj []) sample_data JNull
   \<and> snd (buildSurahData null_id_env ''http://api'' (JObj [(''id'', JNum 1)]))
        = Rejected (TypeError ''Cannot read properties of null (reading verses)'')"
proof -
  let ?env = "en_only_env label_body label_data"
  have f0: "fetched null_id_env ''http://api'' (JObj [(''id'', JNum 1)])
              (JObj []) (JObj []) (JObj []) sample_data JNull"
    by (simp add: fetched_def fetchUthmaniText_def fetchImlaeiText_def fetchUthmaniTajweedText_def
        fetchVersesWithWords_def fetchJSON_def null_id_env_def mock_env_def sample_get_def module_accepts_def toLowerCase_def lower_char_def Let_def
        startsWith_def to_string_def num_string_def string_of_int_def string_of_nat.simps
        TRANSLATION_IDS_english_def TRANSLATION_IDS_indonesian_def sample_en_url_def
        sample_id_url_def sample_body_def)
  have "buildAyahs null_id_env sample_data JNull (JObj []) (JObj []) (JObj [])
          = Inl (TypeError ''Cannot read properties of null (reading verses)'')"
    by (simp add: buildAyahs_def sample_data_def)
  with fetched_D [OF f0]
  have r: "snd (buildSurahData null_id_env ''http://api'' (JObj [(''id'', JNum 1)]))
             = Rejected (TypeError ''Cannot read properties of null (reading verses)'')"
    by simp
  from label_en_only_built obtain d where
    f: "fetched ?env ''http://api'' (JObj [(''id'', JNum 1)]) (JObj []) (JObj []) (JObj [])
             label_data (JObj [])"
    and d: "snd (buildSurahData ?env ''http://api'' (JObj [(''id'', JNum 1)])) = Resolved d"
    by blast
  have en: "js_get label_data ''verses'' = Inr (JArr [label_verse])"
    by (simp add: label_data_def)
  have nv: "no_verse_at (JObj []) 0" by (simp add: no_verse_at_def)
  from fallback_words [OF f d en _ nv]
  have "Inr (words_en (ayahs d ! 0)) = buildWords wordEn label_verse"
    and "Inr (words_id (ayahs d ! 0)) = buildWords wordId label_verse"
    by simp_all
  then have "map translation_language (words_en (ayahs d ! 0)) = [''en'']"
    and "map translation_language (words_id (ayahs d ! 0)) = [''id'']"
    by (simp_all add: buildWords_def label_verse_def js_or_def is_word_def wordEn_def wordId_def)
  with d nv f0 r show ?thesis by simp
qed

section \<open>fetchJSON: how its promise ends\<close>









section \<open>Files and the console in a batch\<close>

lemma files_log [simp]: "files (log ls w) = files w"
  by (simp add: log_def)

lemma console_log [simp]: "console (log ls w) = console w @ ls"
  by (simp add: log_def)

lemma tryChapter_files:
  "files (fst (tryChapter env baseUrl outputDir chapter w)) =
     files w @ chapter_file env baseUrl outputDir chapter"
  by (simp add: tryChapter_def chapter_file_def Let_def writeFileSync_def
      split: sum.splits promise.splits option.splits)

lemma tryChapter_result:
  "snd (tryChapter env baseUrl outputDir chapter w) =
     (case chapter_error env baseUrl outputDir chapter of
        Some e \<Rightarrow> Rejected e
      | None \<Rightarrow>
          if \<not> isl (chapterBanner (number_to_string env) chapter) \<and>
             is_Pending (snd (buildSurahData env baseUrl chapter))
          then Pending else Resolved ())"
  by (simp add: tryChapter_def chapter_error_def Let_def writeFileSync_def
      split: sum.splits promise.splits option.splits)

lemma tryChapter_console:
  "\<exists>ls. console (fst (tryChapter env baseUrl outputDir chapter w)) = console w @ ls"
  by (simp add: tryChapter_def Let_def writeFileSync_def
      split: sum.splits promise.splits option.splits)

lemma processChapter_files:
  "files (fst (processChapter env baseUrl outputDir w chapter)) =
     files w @ chapter_file env baseUrl outputDir chapter"
  using tryChapter_files [of env baseUrl outputDir "chapter" w]
  by (simp add: processChapter_def Let_def split: promise.splits)

lemma processChapter_console:
  "\<exists>ls. console (fst (processChapter env baseUrl outputDir w chapter)) = console w @ ls"
  using tryChapter_console [of env baseUrl outputDir "chapter" w]
  by (auto simp: processChapter_def Let_def split: promise.splits)

lemma processChapter_result:
  "snd (processChapter env baseUrl outputDir w chapter) =
     (if stalls env baseUrl chapter then Pending else Resolved ())"
  using tryChapter_result [of env baseUrl outputDir "chapter" w]
  by (auto simp: processChapter_def stalls_def Let_def chapter_error_def
      split: promise.splits option.splits sum.splits)

lemma stalls_no_file: "stalls env baseUrl chapter \<Longrightarrow> chapter_file env baseUrl outputDir chapter = []"
  by (auto simp: stalls_def chapter_file_def split: sum.splits promise.splits)

lemma processChapter_reports:
  assumes "chapter_error env baseUrl outputDir chapter = Some e"
  shows "Colored Red (''  [x] Error: '' @ message e)
           \<in> set (console (fst (processChapter env baseUrl outputDir w chapter)))"
  using assms tryChapter_result [of env baseUrl outputDir "chapter" w]
  by (simp add: processChapter_def Let_def)

lemma chapters_loop_console:
  "\<exists>ls. console (fst (chapters_loop env baseUrl outputDir w cs)) = console w @ ls"
proof (induction cs arbitrary: w)
  case Nil
  show ?case by simp
next
  case (Cons c cs)
  from processChapter_console [of env baseUrl outputDir w c] obtain l1
    where l1: "console (fst (processChapter env baseUrl outputDir w c)) = console w @ l1" by blast
  from Cons [of "fst (processChapter env baseUrl outputDir w c)"] obtain l2
    where "console (fst (chapters_loop env baseUrl outputDir
             (fst (processChapter env baseUrl outputDir w c)) cs)) =
           console (fst (processChapter env baseUrl outputDir w c)) @ l2" by blast
  with l1 show ?case by (simp add: Let_def split: promise.splits)
qed

lemma chapters_loop_general:
  "snd (chapters_loop env baseUrl outputDir w cs) =
     (if list_all (\<lambda>c. \<not> stalls env baseUrl c) cs then Resolved () else Pending)
   \<and> files (fst (chapters_loop env baseUrl outputDir w cs)) =
       files w @ concat (map (chapter_file env baseUrl outputDir)
                           (takeWhile (\<lambda>c. \<not> stalls env baseUrl c) cs))"
proof (induction cs arbitrary: w)
  case Nil
  show ?case by simp
next
  case (Cons c cs)
  show ?case
  proof (cases "stalls env baseUrl c")
    case True
    with processChapter_result [of env baseUrl outputDir w c] stalls_no_file [OF True, of outputDir]
    show ?thesis by (simp add: Let_def processChapter_files)
  next
    case False
    with processChapter_result [of env baseUrl outputDir w c]
      Cons.IH [of "fst (processChapter env baseUrl outputDir w c)"]
    show ?thesis by (simp add: Let_def processChapter_files)
  qed
qed

lemma chapters_loop_settled:
  assumes "list_all (\<lambda>c. \<not> stalls env baseUrl c) cs"
  shows "snd (chapters_loop env baseUrl outputDir w cs) = Resolved ()
       \<and> files (fst (chapters_loop env baseUrl outputDir w cs)) =
           files w @ concat (map (chapter_file env baseUrl outputDir) cs)"
proof -
  from assms have "takeWhile (\<lambda>c. \<not> stalls env baseUrl c) cs = cs"
    by (simp add: list_all_iff)
  with chapters_loop_general [of env baseUrl outputDir w cs] assms show ?thesis by simp
qed

lemma chapters_loop_reports:
  assumes s: "list_all (\<lambda>c. \<not> stalls env baseUrl c) cs"
    and m: "c \<in> set cs" and e: "chapter_error env baseUrl outputDir c = Some e"
  shows "Colored Red (''  [x] Error: '' @ message e)
           \<in> set (console (fst (chapters_loop env baseUrl outputDir w cs)))"
  using s m
proof (induction cs arbitrary: w)
  case Nil
  then show ?case by simp
next
  case (Cons x xs)
  from Cons.prems have sx: "\<not> stalls env baseUrl x"
    and r: "list_all (\<lambda>c. \<not> stalls env baseUrl c) xs"
    by simp_all
  from sx have px: "snd (processChapter env baseUrl outputDir w x) = Resolved ()"
    by (simp add: processChapter_result)
  show ?case
  proof (cases "c = x")
    case True
    from chapters_loop_console [of env baseUrl outputDir "fst (processChapter env baseUrl outputDir w x)" xs]
    obtain ls where "console (fst (chapters_loop env baseUrl outputDir
             (fst (processChapter env baseUrl outputDir w x)) xs)) =
           console (fst (processChapter env baseUrl outputDir w x)) @ ls" by blast
    with processChapter_reports [OF e, of w] True px show ?thesis by (simp add: Let_def)
  next
    case False
    with Cons.prems have "c \<in> set xs" by simp
    from Cons.IH [OF r this] px show ?thesis by (simp add: Let_def)
  qed
qed

lemma filterE_throws: "\<exists>x\<in>set xs. isl (p x) \<Longrightarrow> isl (filterE p xs)"
proof (induction xs)
  case Nil
  then show ?case by simp
next
  case (Cons x xs)
  show ?case
  proof (cases "p x")
    case (Inl e)
    then show ?thesis by simp
  next
    case (Inr b)
    with Cons.prems have "\<exists>x\<in>set xs. isl (p x)" by auto
    from Cons.IH [OF this] Inr show ?thesis by (cases "filterE p xs") simp_all
  qed
qed

section \<open>The range filter\<close>

lemma to_number_convertible: "convertible v \<Longrightarrow> \<exists>x. to_number s2n n2s v = Inr x"
  by (cases v) (simp_all add: to_string_def)

lemma to_number_throws: "\<not> convertible v \<Longrightarrow> isl (to_number s2n n2s v)"
  by (cases v) (simp_all add: to_string_def)

lemma in_range_no_throw:
  assumes "entry_ok c"
  shows "\<exists>b. in_range env startFrom endAt c = Inr b"
proof -
  from assms have n: "\<not> nullish c" and cv: "convertible (js_opt_get c ''id'')"
    by (simp_all add: entry_ok_def)
  from to_number_convertible [OF cv] obtain x
    where "to_number (string_to_number env) (number_to_string env) (js_opt_get c ''id'') = Inr x"
    by blast
  with n show ?thesis by (auto simp: in_range_def js_get_opt js_ge_def js_le_def)
qed

lemma in_range_throws: "isl (in_range env startFrom endAt c) \<longleftrightarrow> \<not> entry_ok c"
proof (cases "nullish c")
  case True
  then show ?thesis by (auto simp: nullish_def in_range_def entry_ok_def)
next
  case False
  show ?thesis
  proof (cases "convertible (js_opt_get c ''id'')")
    case True
    with False have ok: "entry_ok c" by (simp add: entry_ok_def)
    from in_range_no_throw [OF ok, of env startFrom endAt] obtain b
      where "in_range env startFrom endAt c = Inr b" by blast
    with ok show ?thesis by simp
  next
    case nc: False
    from to_number_throws [OF nc, of "string_to_number env" "number_to_string env"] obtain e
      where "to_number (string_to_number env) (number_to_string env) (js_opt_get c ''id'') = Inl e"
      by (cases "to_number (string_to_number env) (number_to_string env) (js_opt_get c ''id'')") auto
    with False nc show ?thesis by (simp add: in_range_def js_get_opt js_ge_def entry_ok_def)
  qed
qed

lemma in_range_True:
  assumes "\<not> nullish c"
  shows "in_range env startFrom endAt c = Inr True \<longleftrightarrow>
         js_ge (string_to_number env) (number_to_string env) (js_opt_get c ''id'') startFrom = Inr True \<and>
         js_le (string_to_number env) (number_to_string env) (js_opt_get c ''id'') endAt = Inr True"
  using assms by (auto simp: in_range_def js_get_opt bindE_eq_Inr split: if_splits)

lemma filter_in_range:
  assumes "list_all entry_ok cs"
  shows "filterE (in_range env startFrom endAt) cs = Inr (chapters_in_range env startFrom endAt cs)"
proof -
  have "in_range env startFrom endAt x = Inr (in_range env startFrom endAt x = Inr True)"
    if "x \<in> set cs" for x
  proof -
    from that assms have "entry_ok x" by (simp add: list_all_iff)
    from in_range_no_throw [OF this] obtain b where "in_range env startFrom endAt x = Inr b" by blast
    then show ?thesis by simp
  qed
  from filterE_total [of cs "in_range env startFrom endAt" "\<lambda>c. in_range env startFrom endAt c = Inr True", OF this]
  show ?thesis by (simp add: chapters_in_range_def)
qed

lemma filter_in_range_throws:
  assumes "\<not> list_all entry_ok cs"
  shows "isl (filterE (in_range env startFrom endAt) cs)"
proof (rule filterE_throws)
  from assms show "\<exists>x\<in>set cs. isl (in_range env startFrom endAt x)"
    by (simp add: list_all_iff in_range_throws)
qed

lemma chapters_in_range_set:
  assumes "list_all entry_ok cs"
  shows "ch \<in> set (chapters_in_range env startFrom endAt cs) \<longleftrightarrow>
         ch \<in> set cs \<and>
         js_ge (string_to_number env) (number_to_string env) (js_opt_get ch ''id'') startFrom = Inr True \<and>
         js_le (string_to_number env) (number_to_string env) (js_opt_get ch ''id'') endAt = Inr True"
  using assms by (auto simp: chapters_in_range_def list_all_iff in_range_True entry_ok_def)

section \<open>The batch\<close>

lemma downloadAllSurahs_general:
  assumes l: "fetchJSON env (baseUrl @ ''/chapters'') = Resolved chaptersData"
    and c: "js_get chaptersData ''chapters'' = Inr (JArr cs)"
    and nn: "list_all entry_ok cs"
  shows "snd (downloadAllSurahs env baseUrl outputDir startFrom endAt w) =
           (if list_all (\<lambda>c. \<not> stalls env baseUrl c) (chapters_in_range env startFrom endAt cs)
            then Resolved () else Pending)
       \<and> files (fst (downloadAllSurahs env baseUrl outputDir startFrom endAt w)) =
           files w @ concat (map (chapter_file env baseUrl outputDir)
                               (takeWhile (\<lambda>c. \<not> stalls env baseUrl c)
                                  (chapters_in_range env startFrom endAt cs)))"
  using l c filter_in_range [OF nn]
  by (simp add: downloadAllSurahs_def fetchChapters_def Let_def chapters_loop_general)

lemma downloadAllSurahs_files:
  assumes l: "fetchJSON env (baseUrl @ ''/chapters'') = Resolved chaptersData"
    and c: "js_get chaptersData ''chapters'' = Inr (JArr cs)"
    and nn: "list_all entry_ok cs"
    and s: "list_all (\<lambda>c. \<not> stalls env baseUrl c) (chapters_in_range env startFrom endAt cs)"
  shows "snd (downloadAllSurahs env baseUrl outputDir startFrom endAt w) = Resolved ()
       \<and> files (fst (downloadAllSurahs env baseUrl outputDir startFrom endAt w)) =
           files w @ concat (map (chapter_file env baseUrl outputDir)
                               (chapters_in_range env startFrom endAt cs))"
  using l c filter_in_range [OF nn] chapters_loop_settled [OF s]
  by (simp add: downloadAllSurahs_def fetchChapters_def Let_def)

lemma downloadAllSurahs_reports:
  assumes l: "fetchJSON env (baseUrl @ ''/chapters'') = Resolved chaptersData"
    and c: "js_get chaptersData ''chapters'' = Inr (JArr cs)"
    and nn: "list_all entry_ok cs"
    and s: "list_all (\<lambda>c. \<not> stalls env baseUrl c) (chapters_in_range env startFrom endAt cs)"
    and m: "ch \<in> set (chapters_in_range env startFrom endAt cs)"
    and e: "chapter_error env baseUrl outputDir ch = Some e"
  shows "Colored Red (''  [x] Error: '' @ message e)
           \<in> set (console (fst (downloadAllSurahs env baseUrl outputDir startFrom endAt w)))"
  using l c filter_in_range [OF nn] chapters_loop_settled [OF s] chapters_loop_reports [OF s m e]
  by (simp add: downloadAllSurahs_def fetchChapters_def Let_def)

lemma downloadAllSurahs_rejects:
  assumes l: "fetchJSON env (baseUrl @ ''/chapters'') = Resolved chaptersData"
    and c: "js_get chaptersData ''chapters'' = Inr (JArr cs)"
    and nn: "\<not> list_all entry_ok cs"
  shows "is_Rejected (snd (downloadAllSurahs env baseUrl outputDir startFrom endAt w))
       \<and> files (fst (downloadAllSurahs env baseUrl outputDir startFrom endAt w)) = files w"
proof -
  from filter_in_range_throws [OF nn, of env startFrom endAt] obtain e
    where "filterE (in_range env startFrom endAt) cs = Inl e"
    by (cases "filterE (in_range env startFrom endAt) cs") auto
  with l c show ?thesis
    by (simp add: downloadAllSurahs_def fetchChapters_def Let_def)
qed

lemma chapter_file_cases:
  assumes "\<not> stalls env baseUrl c"
  shows "(\<exists>e. chapter_error env baseUrl outputDir c = Some e \<and> chapter_file env baseUrl outputDir c = [])
   \<or> (chapter_error env baseUrl outputDir c = None \<and>
      (\<exists>d name. snd (buildSurahData env baseUrl c) = Resolved d \<and>
         surahFilename (number_to_string env) c = Inr name \<and>
         chapter_file env baseUrl outputDir c =
           [(path_join env outputDir name, json_stringify env d)]))"
  using assms
  by (auto simp: chapter_error_def chapter_file_def stalls_def
      split: sum.splits promise.splits option.splits)

lemma chapter_file_written:
  "chapter_file env baseUrl outputDir c = [] \<or>
   (\<exists>d name. snd (buildSurahData env baseUrl c) = Resolved d \<and>
         surahFilename (number_to_string env) c = Inr name \<and>
         chapter_file env baseUrl outputDir c =
           [(path_join env outputDir name, json_stringify env d)])"
  by (auto simp: chapter_file_def split: sum.splits promise.splits option.splits)

lemma ayahs_loop_0: "ayahs_loop body 0 0 [] = Inr []"
  by (simp add: ayahs_loop.simps)

lemma buildAyahs_empty: "buildAyahs env (JObj []) (JObj []) (JObj []) (JObj []) (JObj []) = Inr []"
  by (simp add: buildAyahs_def js_or_def loop_bound_def ayahs_loop_0)

lemmas eval_defs =
  buildSurahData_def fetchUthmaniText_def fetchImlaeiText_def
  fetchUthmaniTajweedText_def fetchVersesWithWords_def fetchJSON_def mock_env_def
  sample_get_def module_accepts_def Let_def startsWith_def to_string_def num_string_def string_of_int_def string_of_nat.simps
  TRANSLATION_IDS_english_def TRANSLATION_IDS_indonesian_def buildAyahs_empty surahDocument_def
  surahFilename_def chapterBanner_def
  padStart_def replicate_2 sanitizeFilename_def toLowerCase_def replace_non_az09_def
  lower_char_def is_az09_def strip_end_hyphens_def

lemma swapped_files:
  "chapter_file swapped_env ''http://api'' ''out'' (JObj [(''id'', JNum 2), (''name_simple'', JStr ''B'')])
     = [(''out/002-b.json'', ''2'')]"
  "chapter_file swapped_env ''http://api'' ''out'' (JObj [(''id'', JNum 1), (''name_simple'', JStr ''A'')])
     = [(''out/001-a.json'', ''1'')]"
  by (simp_all add: chapter_file_def swapped_env_def eval_defs)

lemma swapped_settle:
  "\<not> stalls swapped_env ''http://api'' (JObj [(''id'', JNum 2), (''name_simple'', JStr ''B'')])"
  "\<not> stalls swapped_env ''http://api'' (JObj [(''id'', JNum 1), (''name_simple'', JStr ''A'')])"
  by (simp_all add: stalls_def swapped_env_def eval_defs)

lemma three_files:
  "chapter_file three_env ''http://api'' ''out'' (JObj [(''id'', JNum 1), (''name_simple'', JStr ''A'')])
     = [(''out/001-a.json'', ''1'')]"
  "chapter_file three_env ''http://api'' ''out'' (JObj [(''id'', JNum 2), (''name_simple'', JStr ''B'')])
     = []"
  "chapter_file three_env ''http://api'' ''out'' (JObj [(''id'', JNum 3), (''name_simple'', JStr ''C'')])
     = [(''out/003-c.json'', ''3'')]"
  by (simp_all add: chapter_file_def three_env_def three_body_def eval_defs)

lemma three_settle:
  "\<not> stalls three_env ''http://api'' (JObj [(''id'', JNum 1), (''name_simple'', JStr ''A'')])"
  "\<not> stalls three_env ''http://api'' (JObj [(''id'', JNum 2), (''name_simple'', JStr ''B'')])"
  "\<not> stalls three_env ''http://api'' (JObj [(''id'', JNum 3), (''name_simple'', JStr ''C'')])"
  by (simp_all add: stalls_def three_env_def three_body_def eval_defs)

lemma three_error:
  "chapter_error three_env ''http://api'' ''out'' (JObj [(''id'', JNum 2), (''name_simple'', JStr ''B'')])
     = Some (Error ''Failed to parse JSON from http://api/quran/verses/uthmani?chapter_number=2: Unexpected token'')"
  by (simp add: chapter_error_def three_env_def three_body_def eval_defs)

lemma three_listing:
  "fetchJSON three_env (''http://api'' @ ''/chapters'') = Resolved (JObj [(''chapters'', JArr three_chapters)])"
  "list_all entry_ok three_chapters"
  "chapters_in_range three_env 1 3 three_chapters = three_chapters"
  by (simp_all add: three_env_def fetchJSON_def mock_env_def sample_get_def module_accepts_def toLowerCase_def lower_char_def startsWith_def three_body_def
      three_chapters_def nullish_def entry_ok_def chapters_in_range_def in_range_def js_ge_def
      js_le_def)

lemma swapped_listing:
  "fetchJSON swapped_env (''http://api'' @ ''/chapters'') = Resolved (JObj [(''chapters'', JArr swapped_chapters)])"
  "list_all entry_ok swapped_chapters"
  "chapters_in_range swapped_env 1 2 swapped_chapters = swapped_chapters"
  by (simp_all add: swapped_env_def fetchJSON_def mock_env_def sample_get_def module_accepts_def toLowerCase_def lower_char_def startsWith_def swapped_body_def
      swapped_chapters_def nullish_def entry_ok_def chapters_in_range_def in_range_def js_ge_def
      js_le_def)

text \<open>
  Claim C8, as amended. Let the chapter listing be fetched and hold an array of chapters,
  none of them \<^verbatim>\<open>null\<close> or \<^verbatim>\<open>undefined\<close> and each with an id that can be converted
  to a primitive (so that the range filter, which runs outside the \<^verbatim>\<open>try\<close>, does not
  throw), and let no chapter of the range stall (every request made for it settles). Then
  the batch does not raise: each chapter of the listing whose id lies in the closed
  interval is processed once, in the order of the listing (which is the ascending order of
  the ids when the listing is in that order); what a chapter leaves in the file system
  depends on that chapter alone, its complete document under its file name when nothing
  failed for it and nothing otherwise; and the error of a chapter that failed, in printing
  its heading, aggregating, naming or writing, is printed in red and goes no further.
  Outside these hypotheses the batch does not complete: an entry the filter cannot test
  makes the batch reject with nothing written, and a chapter that stalls leaves the batch
  unsettled, with the files of the chapters before it and no other.
\<close>

theorem batch_isolates_failures:
  assumes l: "fetchJSON env (baseUrl @ ''/chapters'') = Resolved chaptersData"
    and c: "js_get chaptersData ''chapters'' = Inr (JArr cs)"
  shows "(list_all entry_ok cs \<and>
          list_all (\<lambda>c. \<not> stalls env baseUrl c) (chapters_in_range env startFrom endAt cs) \<longrightarrow>
            snd (downloadAllSurahs env baseUrl outputDir startFrom endAt w) = Resolved ()
          \<and> files (fst (downloadAllSurahs env baseUrl outputDir startFrom endAt w)) =
              files w @ concat (map (chapter_file env baseUrl outputDir)
                                  (chapters_in_range env startFrom endAt cs))
          \<and> (\<forall>ch\<in>set (chapters_in_range env startFrom endAt cs).
                (\<forall>e. chapter_error env baseUrl outputDir ch = Some e \<longrightarrow>
                      chapter_file env baseUrl outputDir ch = [] \<and>
                      Colored Red (''  [x] Error: '' @ message e)
                        \<in> set (console (fst (downloadAllSurahs env baseUrl outputDir startFrom endAt w))))
              \<and> (chapter_error env baseUrl outputDir ch = None \<longrightarrow>
                    (\<exists>d name. snd (buildSurahData env baseUrl ch) = Resolved d \<and>
                       surahFilename (number_to_string env) ch = Inr name \<and>
                       chapter_file env baseUrl outputDir ch =
                         [(path_join env outputDir name, json_stringify env d)]))))
       \<and> (list_all entry_ok cs \<longrightarrow>
            (\<forall>ch. ch \<in> set (chapters_in_range env startFrom endAt cs) \<longleftrightarrow>
                   ch \<in> set cs \<and>
                   js_ge (string_to_number env) (number_to_string env) (js_opt_get ch ''id'') startFrom
                     = Inr True \<and>
                   js_le (string_to_number env) (number_to_string env) (js_opt_get ch ''id'') endAt
                     = Inr True)
          \<and> (sorted_wrt id_before cs \<longrightarrow>
               sorted_wrt id_before (chapters_in_range env startFrom endAt cs)))
       \<and> (\<not> list_all entry_ok cs \<longrightarrow>
            is_Rejected (snd (downloadAllSurahs env baseUrl outputDir startFrom endAt w))
          \<and> files (fst (downloadAllSurahs env baseUrl outputDir startFrom endAt w)) = files w)
       \<and> (list_all entry_ok cs \<and>
          \<not> list_all (\<lambda>c. \<not> stalls env baseUrl c) (chapters_in_range env startFrom endAt cs) \<longrightarrow>
            snd (downloadAllSurahs env baseUrl outputDir startFrom endAt w) = Pending
          \<and> files (fst (downloadAllSurahs env baseUrl outputDir startFrom endAt w)) =
              files w @ concat (map (chapter_file env baseUrl outputDir)
                                  (takeWhile (\<lambda>c. \<not> stalls env baseUrl c)
                                     (chapters_in_range env startFrom endAt cs))))"
proof -
  let ?sel = "chapters_in_range env startFrom endAt cs"
  have main: "snd (downloadAllSurahs env baseUrl outputDir startFrom endAt w) = Resolved ()
          \<and> files (fst (downloadAllSurahs env baseUrl outputDir startFrom endAt w)) =
              files w @ concat (map (chapter_file env baseUrl outputDir) ?sel)
          \<and> (\<forall>ch\<in>set ?sel.
                (\<forall>e. chapter_error env baseUrl outputDir ch = Some e \<longrightarrow>
                      chapter_file env baseUrl outputDir ch = [] \<and>
                      Colored Red (''  [x] Error: '' @ message e)
                        \<in> set (console (fst (downloadAllSurahs env baseUrl outputDir startFrom endAt w))))
              \<and> (chapter_error env baseUrl outputDir ch = None \<longrightarrow>
                    (\<exists>d name. snd (buildSurahData env baseUrl ch) = Resolved d \<and>
                       surahFilename (number_to_string env) ch = Inr name \<and>
                       chapter_file env baseUrl outputDir ch =
                         [(path_join env outputDir name, json_stringify env d)])))"
    if nn: "list_all entry_ok cs" and s: "list_all (\<lambda>c. \<not> stalls env baseUrl c) ?sel"
  proof -
    note a = downloadAllSurahs_files [OF l c nn s, of outputDir w]
    have st: "\<not> stalls env baseUrl ch" if "ch \<in> set ?sel" for ch
      using s that by (simp add: list_all_iff)
    have r: "chapter_file env baseUrl outputDir ch = [] \<and>
             Colored Red (''  [x] Error: '' @ message e)
               \<in> set (console (fst (downloadAllSurahs env baseUrl outputDir startFrom endAt w)))"
      if "ch \<in> set ?sel" and "chapter_error env baseUrl outputDir ch = Some e" for ch e
      using downloadAllSurahs_reports [OF l c nn s that]
        chapter_file_cases [OF st [OF that(1)], of outputDir] that(2)
      by auto
    have g: "\<exists>d name. snd (buildSurahData env baseUrl ch) = Resolved d \<and>
               surahFilename (number_to_string env) ch = Inr name \<and>
               chapter_file env baseUrl outputDir ch =
                 [(path_join env outputDir name, json_stringify env d)]"
      if "ch \<in> set ?sel" and "chapter_error env baseUrl outputDir ch = None" for ch
      using chapter_file_cases [OF st [OF that(1)], of outputDir] that(2) by auto
    from a r g show ?thesis by blast
  qed
  have range: "(\<forall>ch. ch \<in> set ?sel \<longleftrightarrow>
                   ch \<in> set cs \<and>
                   js_ge (string_to_number env) (number_to_string env) (js_opt_get ch ''id'') startFrom
                     = Inr True \<and>
                   js_le (string_to_number env) (number_to_string env) (js_opt_get ch ''id'') endAt
                     = Inr True)
          \<and> (sorted_wrt id_before cs \<longrightarrow> sorted_wrt id_before ?sel)"
    if nn: "list_all entry_ok cs"
  proof -
    have b: "\<forall>ch. ch \<in> set ?sel \<longleftrightarrow>
                   ch \<in> set cs \<and>
                   js_ge (string_to_number env) (number_to_string env) (js_opt_get ch ''id'') startFrom
                     = Inr True \<and>
                   js_le (string_to_number env) (number_to_string env) (js_opt_get ch ''id'') endAt
                     = Inr True"
      using chapters_in_range_set [OF nn] by blast
    have o: "sorted_wrt id_before cs \<longrightarrow> sorted_wrt id_before ?sel"
      by (simp add: chapters_in_range_def sorted_wrt_filter)
    from b o show ?thesis by (intro conjI)
  qed
  have rej: "is_Rejected (snd (downloadAllSurahs env baseUrl outputDir startFrom endAt w))
          \<and> files (fst (downloadAllSurahs env baseUrl outputDir startFrom endAt w)) = files w"
    if "\<not> list_all entry_ok cs"
    by (rule downloadAllSurahs_rejects [OF l c that])
  have pend: "snd (downloadAllSurahs env baseUrl outputDir startFrom endAt w) = Pending
          \<and> files (fst (downloadAllSurahs env baseUrl outputDir startFrom endAt w)) =
              files w @ concat (map (chapter_file env baseUrl outputDir)
                                  (takeWhile (\<lambda>c. \<not> stalls env baseUrl c) ?sel))"
    if nn: "list_all entry_ok cs" and s: "\<not> list_all (\<lambda>c. \<not> stalls env baseUrl c) ?sel"
    using downloadAllSurahs_general [OF l c nn, of outputDir startFrom endAt w] s by simp
  from main range rej pend show ?thesis by (intro conjI impI) blast+
qed

text \<open>
  A batch over chapters 1 to 3 against an API whose Uthmani endpoint fails for chapter 2:
  the batch returns normally, the files of chapters 1 and 3 are written, in that order, and
  the failure of chapter 2 is printed in red.
\<close>

theorem batch_isolates_failures_witness:
  "fetchJSON three_env (''http://api'' @ ''/chapters'') = Resolved (JObj [(''chapters'', JArr three_chapters)])
   \<and> js_get (JObj [(''chapters'', JArr three_chapters)]) ''chapters'' = Inr (JArr three_chapters)
   \<and> list_all entry_ok three_chapters
   \<and> list_all (\<lambda>c. \<not> stalls three_env ''http://api'' c) (chapters_in_range three_env 1 3 three_chapters)
   \<and> snd (downloadAllSurahs three_env ''http://api'' ''out'' 1 3 empty_world) = Resolved ()
   \<and> files (fst (downloadAllSurahs three_env ''http://api'' ''out'' 1 3 empty_world)) =
       [(''out/001-a.json'', ''1''), (''out/003-c.json'', ''3'')]
   \<and> Colored Red (''  [x] Error: '' @ ''Failed to parse JSON from http://api/quran/verses/uthmani?chapter_number=2: Unexpected token'')
       \<in> set (console (fst (downloadAllSurahs three_env ''http://api'' ''out'' 1 3 empty_world)))"
proof -
  have c: "js_get (JObj [(''chapters'', JArr three_chapters)]) ''chapters'' = Inr (JArr three_chapters)"
    by simp
  have s: "list_all (\<lambda>c. \<not> stalls three_env ''http://api'' c)
             (chapters_in_range three_env 1 3 three_chapters)"
    unfolding three_listing(3) by (simp add: three_chapters_def three_settle)
  note t = batch_isolates_failures [OF three_listing(1) c, of 1 3 "''out''" empty_world]
  from t three_listing(2) s
  have r: "snd (downloadAllSurahs three_env ''http://api'' ''out'' 1 3 empty_world) = Resolved ()"
    by blast
  from t three_listing(2) s
  have "files (fst (downloadAllSurahs three_env ''http://api'' ''out'' 1 3 empty_world)) =
           files empty_world @ concat (map (chapter_file three_env ''http://api'' ''out'')
                               (chapters_in_range three_env 1 3 three_chapters))"
    by blast
  then have f: "files (fst (downloadAllSurahs three_env ''http://api'' ''out'' 1 3 empty_world)) =
       [(''out/001-a.json'', ''1''), (''out/003-c.json'', ''3'')]"
    unfolding three_listing(3) by (simp add: three_chapters_def three_files empty_world_def)
  have m: "JObj [(''id'', JNum 2), (''name_simple'', JStr ''B'')]
             \<in> set (chapters_in_range three_env 1 3 three_chapters)"
    unfolding three_listing(3) by (simp add: three_chapters_def)
  from t three_listing(2) s m three_error
  have e: "Colored Red (''  [x] Error: '' @ message (Error ''Failed to parse JSON from http://api/quran/verses/uthmani?chapter_number=2: Unexpected token''))
       \<in> set (console (fst (downloadAllSurahs three_env ''http://api'' ''out'' 1 3 empty_world)))"
    by blast
  from three_listing(1) c three_listing(2) s r f e show ?thesis by simp
qed

lemma stalled_listing:
  "fetchJSON stalled_env (''http://api'' @ ''/chapters'') = Resolved (JObj [(''chapters'', JArr three_chapters)])"
  "filterE (in_range stalled_env 1 3) three_chapters = Inr three_chapters"
  by (simp_all add: stalled_env_def three_env_def fetchJSON_def mock_env_def sample_get_def module_accepts_def toLowerCase_def lower_char_def startsWith_def
      three_body_def three_chapters_def in_range_def js_ge_def js_le_def)

lemma stalled_first:
  "tryChapter stalled_env ''http://api'' ''out''
     (JObj [(''id'', JNum 1), (''name_simple'', JStr ''A'')]) w =
   (log [Colored Blue ([CHR 0x0A] @ ''[1/114] A (undefined)''),
         Colored Dim ''  -> Fetching Arabic text (Uthmani)...''] w, Pending)"
  by (simp add: tryChapter_def stalled_env_def three_env_def log_def eval_defs)

text \<open>
  Claim C8 as first stated fails. In its order: for a listing that returns chapter 2
  before chapter 1, the file of chapter 2 is written first. In that the batch never
  raises: a listing with a \<^verbatim>\<open>null\<close> entry makes the range filter throw, and the batch
  rejects before any chapter is processed. In that every other chapter is processed: when
  the first request of chapter 1 never ends, the batch never settles, and chapters 2 and 3
  get no file although chapter 3, processed alone, would get its file.
\<close>

theorem batch_counterexample:
  "map fst (files (fst (downloadAllSurahs swapped_env ''http://api'' ''out'' 1 2 empty_world)))
     = [''out/002-b.json'', ''out/001-a.json'']
   \<and> snd (downloadAllSurahs null_entry_env ''http://api'' ''out'' 1 3 empty_world)
       = Rejected (TypeError ''Cannot read properties of null (reading id)'')
   \<and> files (fst (downloadAllSurahs null_entry_env ''http://api'' ''out'' 1 3 empty_world)) = []
   \<and> snd (downloadAllSurahs stalled_env ''http://api'' ''out'' 1 3 empty_world) = Pending
   \<and> files (fst (downloadAllSurahs stalled_env ''http://api'' ''out'' 1 3 empty_world)) = []
   \<and> chapter_file stalled_env ''http://api'' ''out''
       (JObj [(''id'', JNum 3), (''name_simple'', JStr ''C'')]) = [(''out/003-c.json'', ''3'')]"
proof -
  have c: "js_get (JObj [(''chapters'', JArr swapped_chapters)]) ''chapters'' = Inr (JArr swapped_chapters)"
    by simp
  have s: "list_all (\<lambda>c. \<not> stalls swapped_env ''http://api'' c)
             (chapters_in_range swapped_env 1 2 swapped_chapters)"
    unfolding swapped_listing(3) by (simp add: swapped_chapters_def swapped_settle)
  from downloadAllSurahs_files [OF swapped_listing(1) c swapped_listing(2) s, of "''out''" empty_world]
  have "files (fst (downloadAllSurahs swapped_env ''http://api'' ''out'' 1 2 empty_world)) =
           files empty_world @ concat (map (chapter_file swapped_env ''http://api'' ''out'')
                               (chapters_in_range swapped_env 1 2 swapped_chapters))"
    by simp
  then have order: "map fst (files (fst (downloadAllSurahs swapped_env ''http://api'' ''out'' 1 2 empty_world)))
     = [''out/002-b.json'', ''out/001-a.json'']"
    unfolding swapped_listing(3) by (simp add: swapped_chapters_def swapped_files empty_world_def)
  have null: "downloadAllSurahs null_entry_env ''http://api'' ''out'' 1 3 empty_world =
        (log [Colored Dim ''  -> Fetching chapters list...''] empty_world,
         Rejected (TypeError ''Cannot read properties of null (reading id)''))"
    by (simp add: downloadAllSurahs_def fetchChapters_def fetchJSON_def null_entry_env_def
        mock_env_def sample_get_def module_accepts_def toLowerCase_def lower_char_def
        startsWith_def null_entry_body_def in_range_def Let_def)
  have stall: "snd (downloadAllSurahs stalled_env ''http://api'' ''out'' 1 3 empty_world) = Pending
      \<and> files (fst (downloadAllSurahs stalled_env ''http://api'' ''out'' 1 3 empty_world)) = []"
    using stalled_listing
    by (simp add: downloadAllSurahs_def fetchChapters_def Let_def three_chapters_def
        processChapter_def stalled_first empty_world_def)
  have third: "chapter_file stalled_env ''http://api'' ''out''
       (JObj [(''id'', JNum 3), (''name_simple'', JStr ''C'')]) = [(''out/003-c.json'', ''3'')]"
    by (simp add: chapter_file_def stalled_env_def three_env_def three_body_def eval_defs)
  from order null stall third show ?thesis by (simp add: empty_world_def)
qed

section \<open>No file without a complete document\<close>

lemma failed_fetch_fails_build:
  assumes "js_get chapter ''id'' = Inr cid"
    and "\<not> is_Resolved (fetchUthmaniText env baseUrl cid) \<or>
         \<not> is_Resolved (fetchImlaeiText env baseUrl cid) \<or>
         \<not> is_Resolved (fetchUthmaniTajweedText env baseUrl cid) \<or>
         \<not> is_Resolved (fetchVersesWithWords env baseUrl cid ''en''
                [TRANSLATION_IDS_english, TRANSLATION_IDS_indonesian]) \<or>
         \<not> is_Resolved (fetchVersesWithWords env baseUrl cid ''id''
                [TRANSLATION_IDS_english, TRANSLATION_IDS_indonesian])"
  shows "\<not> is_Resolved (snd (buildSurahData env baseUrl chapter))"
  using assms by (auto simp: buildSurahData_def Let_def split: promise.splits)

lemma failed_aggregation_fails_build:
  assumes "fetched env baseUrl chapter uD mD tD eD iD" and "isl (buildAyahs env eD iD uD mD tD)"
  shows "is_Rejected (snd (buildSurahData env baseUrl chapter))"
  using fetched_D [OF assms(1)] assms(2) by (cases "buildAyahs env eD iD uD mD tD") simp_all

lemma failed_build_no_file:
  assumes "\<not> is_Resolved (snd (buildSurahData env baseUrl chapter))"
  shows "chapter_file env baseUrl outputDir chapter = []"
  using assms
  by (cases "snd (buildSurahData env baseUrl chapter)")
     (simp_all add: chapter_file_def split: sum.splits)

lemma downloadSurah_files:
  "(\<not> is_Resolved (snd (downloadSurah env baseUrl outputDir surahId w)) \<longrightarrow>
      files (fst (downloadSurah env baseUrl outputDir surahId w)) = files w)
   \<and> (files (fst (downloadSurah env baseUrl outputDir surahId w)) = files w \<or>
      (\<exists>ch d name. snd (buildSurahData env baseUrl ch) = Resolved d \<and>
         snd (downloadSurah env baseUrl outputDir surahId w) = Resolved d \<and>
         surahFilename (number_to_string env) ch = Inr name \<and>
         files (fst (downloadSurah env baseUrl outputDir surahId w)) =
           files w @ [(path_join env outputDir name, json_stringify env d)]))"
  by (auto simp: downloadSurah_def Let_def writeFileSync_def
        split: sum.splits promise.splits option.splits if_splits)

text \<open>
  Claim C9. A chapter's file is written only with the complete document: when one of the
  five fetches does not resolve (it rejects or never settles) or the aggregation throws,
  \<^verbatim>\<open>buildSurahData\<close> does not resolve, and then neither a turn of the batch loop nor
  \<^verbatim>\<open>downloadSurah\<close> changes the file system; a turn that does change it appends exactly
  one file, the serialization of the document \<^verbatim>\<open>buildSurahData\<close> returned, and whenever
  \<^verbatim>\<open>downloadSurah\<close> does not resolve it has written nothing.
\<close>

theorem no_partial_document_written:
  "(\<forall>cid. js_get chapter ''id'' = Inr cid \<and>
          (\<not> is_Resolved (fetchUthmaniText env baseUrl cid) \<or>
           \<not> is_Resolved (fetchImlaeiText env baseUrl cid) \<or>
           \<not> is_Resolved (fetchUthmaniTajweedText env baseUrl cid) \<or>
           \<not> is_Resolved (fetchVersesWithWords env baseUrl cid ''en''
                  [TRANSLATION_IDS_english, TRANSLATION_IDS_indonesian]) \<or>
           \<not> is_Resolved (fetchVersesWithWords env baseUrl cid ''id''
                  [TRANSLATION_IDS_english, TRANSLATION_IDS_indonesian]))
          \<longrightarrow> \<not> is_Resolved (snd (buildSurahData env baseUrl chapter)))
   \<and> (\<forall>uD mD tD eD iD.
          fetched env baseUrl chapter uD mD tD eD iD \<and> isl (buildAyahs env eD iD uD mD tD)
          \<longrightarrow> is_Rejected (snd (buildSurahData env baseUrl chapter)))
   \<and> (\<not> is_Resolved (snd (buildSurahData env baseUrl chapter)) \<longrightarrow>
         files (fst (processChapter env baseUrl outputDir w chapter)) = files w)
   \<and> (files (fst (processChapter env baseUrl outputDir w chapter)) = files w \<or>
       (\<exists>d name. snd (buildSurahData env baseUrl chapter) = Resolved d \<and>
          surahFilename (number_to_string env) chapter = Inr name \<and>
          files (fst (processChapter env baseUrl outputDir w chapter)) =
            files w @ [(path_join env outputDir name, json_stringify env d)]))
   \<and> (\<not> is_Resolved (snd (downloadSurah env baseUrl outputDir surahId w)) \<longrightarrow>
         files (fst (downloadSurah env baseUrl outputDir surahId w)) = files w)
   \<and> (files (fst (downloadSurah env baseUrl outputDir surahId w)) = files w \<or>
      (\<exists>ch d name. snd (buildSurahData env baseUrl ch) = Resolved d \<and>
         snd (downloadSurah env baseUrl outputDir surahId w) = Resolved d \<and>
         surahFilename (number_to_string env) ch = Inr name \<and>
         files (fst (downloadSurah env baseUrl outputDir surahId w)) =
           files w @ [(path_join env outputDir name, json_stringify env d)]))"
proof -
  have a: "\<forall>cid. js_get chapter ''id'' = Inr cid \<and>
          (\<not> is_Resolved (fetchUthmaniText env baseUrl cid) \<or>
           \<not> is_Resolved (fetchImlaeiText env baseUrl cid) \<or>
           \<not> is_Resolved (fetchUthmaniTajweedText env baseUrl cid) \<or>
           \<not> is_Resolved (fetchVersesWithWords env baseUrl cid ''en''
                  [TRANSLATION_IDS_english, TRANSLATION_IDS_indonesian]) \<or>
           \<not> is_Resolved (fetchVersesWithWords env baseUrl cid ''id''
                  [TRANSLATION_IDS_english, TRANSLATION_IDS_indonesian]))
          \<longrightarrow> \<not> is_Resolved (snd (buildSurahData env baseUrl chapter))"
    using failed_fetch_fails_build [of "chapter" _ env baseUrl] by blast
  have b: "\<forall>uD mD tD eD iD.
          fetched env baseUrl chapter uD mD tD eD iD \<and> isl (buildAyahs env eD iD uD mD tD)
          \<longrightarrow> is_Rejected (snd (buildSurahData env baseUrl chapter))"
    using failed_aggregation_fails_build by blast
  have c: "\<not> is_Resolved (snd (buildSurahData env baseUrl chapter)) \<longrightarrow>
         files (fst (processChapter env baseUrl outputDir w chapter)) = files w"
    by (simp add: processChapter_files failed_build_no_file)
  have d: "files (fst (processChapter env baseUrl outputDir w chapter)) = files w \<or>
       (\<exists>d name. snd (buildSurahData env baseUrl chapter) = Resolved d \<and>
          surahFilename (number_to_string env) chapter = Inr name \<and>
          files (fst (processChapter env baseUrl outputDir w chapter)) =
            files w @ [(path_join env outputDir name, json_stringify env d)])"
    using chapter_file_written [of env baseUrl outputDir "chapter"]
    by (auto simp: processChapter_files)
  note e = downloadSurah_files [of env baseUrl outputDir surahId w]
  from a b c d e show ?thesis by (intro conjI) blast+
qed

text \<open>
  Chapter 2 against the API whose Uthmani endpoint fails for it: \<^verbatim>\<open>buildSurahData\<close>
  rejects and the turn of the loop leaves the empty file system empty.
\<close>

theorem no_partial_document_written_witness:
  "\<not> is_Resolved (snd (buildSurahData three_env ''http://api''
              (JObj [(''id'', JNum 2), (''name_simple'', JStr ''B'')])))
   \<and> files (fst (processChapter three_env ''http://api'' ''out'' empty_world
              (JObj [(''id'', JNum 2), (''name_simple'', JStr ''B'')]))) = []"
proof -
  have i: "\<not> is_Resolved (snd (buildSurahData three_env ''http://api''
              (JObj [(''id'', JNum 2), (''name_simple'', JStr ''B'')])))"
    by (simp add: three_env_def three_body_def eval_defs)
  from no_partial_document_written [of "JObj [(''id'', JNum 2), (''name_simple'', JStr ''B'')]"
      three_env "''http://api''" "''out''" empty_world] i
  have "files (fst (processChapter three_env ''http://api'' ''out'' empty_world
              (JObj [(''id'', JNum 2), (''name_simple'', JStr ''B'')]))) = files empty_world"
    by blast
  with i show ?thesis by (simp add: empty_world_def)
qed

end
